(* ===== verification/JS_Prelude.thy ===== *)
theory JS_Prelude
  imports Complex_Main "HOL-Library.State_Monad" "HOL-Library.Stream"
begin

text \<open>
  Shared vocabulary of the development: the fragment of the JavaScript run time that the
  sources of the card generator rely on, and the lemma collections the component theories
  use.

  \<^item> \<open>jsnum\<close>: a JavaScript number, either a finite value (an exact rational) or
    \<open>NotFinite\<close>, which stands for \<open>NaN\<close>, \<open>Infinity\<close> and \<open>-Infinity\<close> alike. The
    arithmetic is strict: an operation with a non-finite operand, and a division by zero,
    is \<open>NotFinite\<close>. A result \<open>Finite r\<close> therefore says that every intermediate value
    was finite. IEEE rounding is not modelled.
  \<^item> \<open>jsstring\<close>: a JavaScript string as the list of its UTF-16 code units; \<open>ascii\<close>
    embeds an Isabelle string literal, \<open>toString\<close> prints an integer the way a template
    literal does.
  \<^item> \<open>js_nth\<close>: array indexing, \<open>None\<close> for the \<open>undefined\<close> of an index out of range.
\<close>

section \<open>Lemma collections\<close>

named_theorems gen_defs "definitions of the generator's operations, unfolded to run them"
named_theorems ui_defs "definitions of the editor's handlers, unfolded to run them"

section \<open>Numbers\<close>

datatype jsnum = Finite rat | NotFinite

instantiation jsnum :: "{zero, one, plus, minus, times, inverse}"
begin

definition zero_jsnum :: jsnum where
  "zero_jsnum = Finite 0"

definition one_jsnum :: jsnum where
  "one_jsnum = Finite 1"

fun plus_jsnum :: "jsnum \<Rightarrow> jsnum \<Rightarrow> jsnum" where
  "plus_jsnum (Finite a) (Finite b) = Finite (a + b)"
| "plus_jsnum _ _ = NotFinite"

fun minus_jsnum :: "jsnum \<Rightarrow> jsnum \<Rightarrow> jsnum" where
  "minus_jsnum (Finite a) (Finite b) = Finite (a - b)"
| "minus_jsnum _ _ = NotFinite"

fun times_jsnum :: "jsnum \<Rightarrow> jsnum \<Rightarrow> jsnum" where
  "times_jsnum (Finite a) (Finite b) = Finite (a * b)"
| "times_jsnum _ _ = NotFinite"

fun divide_jsnum :: "jsnum \<Rightarrow> jsnum \<Rightarrow> jsnum" where
  "divide_jsnum (Finite a) (Finite b) = (if b = 0 then NotFinite else Finite (a / b))"
| "divide_jsnum _ _ = NotFinite"

definition inverse_jsnum :: "jsnum \<Rightarrow> jsnum" where
  "inverse_jsnum x =
     (case x of Finite a \<Rightarrow> if a = 0 then NotFinite else Finite (1 / a)
      | NotFinite \<Rightarrow> NotFinite)"

instance ..

end

text \<open>An integer as a number, and the two tests the properties are stated with.\<close>

definition jsint :: "int \<Rightarrow> jsnum" where
  "jsint i = Finite (of_int i)"

fun is_finite :: "jsnum \<Rightarrow> bool" where
  "is_finite (Finite r) = True"
| "is_finite NotFinite = False"

fun is_integer :: "jsnum \<Rightarrow> bool" where
  "is_integer (Finite r) = (r = of_int \<lfloor>r\<rfloor>)"
| "is_integer NotFinite = False"

text \<open>\<open>between lo hi x\<close>: \<open>x\<close> is finite and lies in the closed interval.\<close>

fun between :: "rat \<Rightarrow> rat \<Rightarrow> jsnum \<Rightarrow> bool" where
  "between lo hi (Finite r) \<longleftrightarrow> lo \<le> r \<and> r \<le> hi"
| "between lo hi NotFinite \<longleftrightarrow> False"

text \<open>The comparison \<open>x < y\<close>: false when either side is not a number.\<close>

fun js_less :: "jsnum \<Rightarrow> jsnum \<Rightarrow> bool" where
  "js_less (Finite a) (Finite b) \<longleftrightarrow> a < b"
| "js_less _ _ \<longleftrightarrow> False"

lemma jsint_arith [simp]:
  "jsint a + jsint b = jsint (a + b)"
  "jsint a - jsint b = jsint (a - b)"
  "jsint a * jsint b = jsint (a * b)"
  by (simp_all add: jsint_def)

lemma jsint_divide: "jsint a / jsint b = (if b = 0 then NotFinite else Finite (of_int a / of_int b))"
  by (simp add: jsint_def)

lemma jsint_divide_dvd [simp]: "b \<noteq> 0 \<Longrightarrow> jsint (b * k) / jsint b = jsint k"
  by (simp add: jsint_def)

lemma jsint_eq_iff [simp]: "jsint a = jsint b \<longleftrightarrow> a = b"
  by (simp add: jsint_def)

lemma jsint_neq_NotFinite [simp]: "jsint a \<noteq> NotFinite" "NotFinite \<noteq> jsint a"
  by (simp_all add: jsint_def)

lemma is_finite_jsint [simp]: "is_finite (jsint a)"
  by (simp add: jsint_def)

lemma is_integer_jsint [simp]: "is_integer (jsint a)"
  by (simp add: jsint_def)

lemma is_finite_iff: "is_finite x \<longleftrightarrow> (\<exists>r. x = Finite r)"
  by (cases x) simp_all

lemma is_integer_imp_finite: "is_integer x \<Longrightarrow> is_finite x"
  by (cases x) simp_all

lemma mult_between:
  fixes a b :: int
  assumes "la \<le> a" "a \<le> ha" "lb \<le> b" "b \<le> hb" "0 \<le> la" "0 \<le> lb"
  shows "la * lb \<le> a * b \<and> a * b \<le> ha * hb"
  using assms by (intro conjI mult_mono) auto

lemma is_integer_iff: "is_integer x \<longleftrightarrow> (\<exists>n. x = jsint n)"
  by (cases x) (auto simp: jsint_def intro: exI [of _ "\<lfloor>r\<rfloor>" for r])

lemma is_integer_arith [simp]:
  assumes "is_integer x" and "is_integer y"
  shows "is_integer (x + y)" and "is_integer (x - y)" and "is_integer (x * y)"
  using assms by (auto simp: is_integer_iff)

lemma between_jsint [simp]: "between lo hi (jsint n) \<longleftrightarrow> lo \<le> of_int n \<and> of_int n \<le> hi"
  by (simp add: jsint_def)

lemma between_finite: "between lo hi x \<Longrightarrow> is_finite x"
  by (cases x) simp_all

lemma between_weaken: "between lo hi x \<Longrightarrow> lo' \<le> lo \<Longrightarrow> hi \<le> hi' \<Longrightarrow> between lo' hi' x"
  by (cases x) simp_all

lemma between_plus:
  "between a b x \<Longrightarrow> between c d y \<Longrightarrow> between (a + c) (b + d) (x + y)"
  by (cases x; cases y) simp_all

lemma between_times:
  "between a b x \<Longrightarrow> between c d y \<Longrightarrow> 0 \<le> a \<Longrightarrow> 0 \<le> c \<Longrightarrow>
     between (a * c) (b * d) (x * y)"
  by (cases x; cases y) (auto intro!: mult_mono)

lemma NotFinite_absorbs [simp]:
  "NotFinite + x = NotFinite" "x + NotFinite = NotFinite"
  "NotFinite - x = NotFinite" "x - NotFinite = NotFinite"
  "NotFinite * x = NotFinite" "x * NotFinite = NotFinite"
  "NotFinite / x = NotFinite" "x / NotFinite = NotFinite"
  by (cases x; simp)+

lemma is_finite_plus [simp]: "is_finite (x + y) \<longleftrightarrow> is_finite x \<and> is_finite y"
  by (cases x; cases y; simp)

lemma is_finite_minus [simp]: "is_finite (x - y) \<longleftrightarrow> is_finite x \<and> is_finite y"
  by (cases x; cases y; simp)

lemma is_finite_times [simp]: "is_finite (x * y) \<longleftrightarrow> is_finite x \<and> is_finite y"
  by (cases x; cases y; simp)

lemma is_finite_divide [simp]:
  "is_finite (x / y) \<longleftrightarrow> is_finite x \<and> is_finite y \<and> y \<noteq> Finite 0"
  by (cases x; cases y; simp)

section \<open>Strings\<close>

type_synonym code_unit = nat
type_synonym jsstring = "code_unit list"

definition ascii :: "string \<Rightarrow> jsstring" where
  "ascii cs = map of_char cs"

lemma ascii_simps [simp]:
  "ascii [] = []"
  "ascii (c # cs) = of_char c # ascii cs"
  by (simp_all add: ascii_def)

lemma ascii_append [simp]: "ascii (xs @ ys) = ascii xs @ ascii ys"
  by (simp add: ascii_def)

text \<open>
  The digits of the decimal numeral of a natural number, most significant first, as the
  code units \<open>'0'\<close> (48) to \<open>'9'\<close> (57).
\<close>

definition is_digit :: "code_unit \<Rightarrow> bool" where
  "is_digit c \<longleftrightarrow> 48 \<le> c \<and> c \<le> 57"

fun decimal :: "nat \<Rightarrow> jsstring" where
  "decimal n = (if n < 10 then [48 + n] else decimal (n div 10) @ [48 + n mod 10])"

declare decimal.simps [simp del]

text \<open>
  \<open>Number.prototype.toString\<close> on an integer, which is what a template literal applies
  to an operand: a minus sign (45) for a negative number, then the decimal digits. (The
  run time switches to exponent notation from \<open>10\<^sup>2\<^sup>1\<close> on; the generator prints numbers
  below 1000.)
\<close>

definition toString :: "int \<Rightarrow> jsstring" where
  "toString i = (if i < 0 then 45 # decimal (nat (- i)) else decimal (nat i))"

text \<open>The value a digit string denotes: what a reader accumulates from left to right.\<close>

definition digit_value :: "nat \<Rightarrow> jsstring \<Rightarrow> nat" where
  "digit_value acc cs = foldl (\<lambda>a c. 10 * a + (c - 48)) acc cs"

lemma decimal_small [simp]: "n < 10 \<Longrightarrow> decimal n = [48 + n]"
  by (subst decimal.simps) simp

lemma decimal_large: "10 \<le> n \<Longrightarrow> decimal n = decimal (n div 10) @ [48 + n mod 10]"
  by (subst decimal.simps) simp

lemma decimal_numeral [simp]:
  "decimal (numeral k) =
     (if numeral k < (10::nat) then [48 + numeral k]
      else decimal (numeral k div 10) @ [48 + numeral k mod 10])"
  by (rule decimal.simps)

lemma decimal_not_Nil [simp]: "decimal n \<noteq> []"
  by (subst decimal.simps) simp

lemma decimal_digits: "c \<in> set (decimal n) \<Longrightarrow> is_digit c"
proof (induction n arbitrary: c rule: decimal.induct)
  case (1 n c)
  show ?case
  proof (cases "n < 10")
    case True
    with "1.prems" show ?thesis by (simp add: is_digit_def)
  next
    case False
    with "1.prems" have "c \<in> set (decimal (n div 10)) \<or> c = 48 + n mod 10"
      by (auto simp: decimal_large)
    with False "1.IH" show ?thesis by (auto simp: is_digit_def)
  qed
qed

lemma hd_decimal_digit [simp]: "is_digit (hd (decimal n))"
  by (rule decimal_digits [of _ n]) simp

lemma digit_value_append [simp]:
  "digit_value acc (xs @ ys) = digit_value (digit_value acc xs) ys"
  by (simp add: digit_value_def)

lemma digit_value_simps [simp]:
  "digit_value acc [] = acc"
  "digit_value acc (c # cs) = digit_value (10 * acc + (c - 48)) cs"
  by (simp_all add: digit_value_def)

text \<open>Reading back what \<open>decimal\<close> printed, behind any digits read before.\<close>

lemma digit_value_decimal_acc:
  "digit_value acc (decimal n) = acc * 10 ^ length (decimal n) + n"
proof (induction n arbitrary: acc rule: decimal.induct)
  case (1 n acc)
  show ?case
  proof (cases "n < 10")
    case True
    then show ?thesis by simp
  next
    case False
    then have "digit_value acc (decimal n) =
        10 * digit_value acc (decimal (n div 10)) + n mod 10"
      by (simp add: decimal_large)
    also have "\<dots> = 10 * (acc * 10 ^ length (decimal (n div 10)) + n div 10) + n mod 10"
      using False "1.IH" by simp
    finally show ?thesis using False by (simp add: decimal_large algebra_simps)
  qed
qed

lemma digit_value_decimal [simp]: "digit_value 0 (decimal n) = n"
  by (simp add: digit_value_decimal_acc)

lemma toString_nonneg: "0 \<le> i \<Longrightarrow> toString i = decimal (nat i)"
  by (simp add: toString_def)

lemma toString_numeral [simp]:
  "toString (numeral k) = decimal (numeral k)"
  "toString 0 = [48]"
  "toString 1 = [49]"
  by (simp_all add: toString_def)

lemma toString_not_Nil [simp]: "toString i \<noteq> []"
  by (simp add: toString_def)

lemma toString_digits: "0 \<le> i \<Longrightarrow> c \<in> set (toString i) \<Longrightarrow> is_digit c"
  by (simp add: toString_nonneg decimal_digits)

section \<open>Numbers from strings\<close>

text \<open>
  \<open>parseInt(s, 16)\<close>: leading white space is skipped, then a sign, then a prefix \<open>0x\<close> or
  \<open>0X\<close>; the longest run of hexadecimal digits that follows is the value, and the result
  is \<open>NaN\<close> when that run is empty. (The loss of precision beyond \<open>2\<^sup>5\<^sup>3\<close> and the sign of
  zero are not modelled.)
\<close>

definition js_whitespace :: "code_unit \<Rightarrow> bool" where
  "js_whitespace c \<longleftrightarrow>
     c \<in> {9, 10, 11, 12, 13, 32, 160, 5760, 8232, 8233, 8239, 8287, 12288, 65279}
     \<or> 8192 \<le> c \<and> c \<le> 8202"

definition hex_digit_value :: "code_unit \<Rightarrow> nat option" where
  "hex_digit_value c =
     (if 48 \<le> c \<and> c \<le> 57 then Some (c - 48)
      else if 97 \<le> c \<and> c \<le> 102 then Some (c - 87)
      else if 65 \<le> c \<and> c \<le> 70 then Some (c - 55)
      else None)"

definition is_hex :: "code_unit \<Rightarrow> bool" where
  "is_hex c \<longleftrightarrow> hex_digit_value c \<noteq> None"

definition hex_value :: "jsstring \<Rightarrow> nat" where
  "hex_value cs = foldl (\<lambda>a c. 16 * a + (case hex_digit_value c of Some v \<Rightarrow> v | None \<Rightarrow> 0)) 0 cs"

fun strip_sign :: "jsstring \<Rightarrow> int \<times> jsstring" where
  "strip_sign (c # cs) = (if c = 45 then (- 1, cs) else if c = 43 then (1, cs) else (1, c # cs))"
| "strip_sign [] = (1, [])"

fun strip_0x :: "jsstring \<Rightarrow> jsstring" where
  "strip_0x (a # b # cs) = (if a = 48 \<and> (b = 120 \<or> b = 88) then cs else a # b # cs)"
| "strip_0x cs = cs"

definition parseInt16 :: "jsstring \<Rightarrow> jsnum" where
  "parseInt16 s =
     (case strip_sign (dropWhile js_whitespace s) of (sign, S) \<Rightarrow>
        let Z = takeWhile is_hex (strip_0x S)
        in if Z = [] then NotFinite else jsint (sign * int (hex_value Z)))"

text \<open>\<open>s.substr(start, length)\<close> for arguments that are not negative.\<close>

definition substr :: "nat \<Rightarrow> nat \<Rightarrow> jsstring \<Rightarrow> jsstring" where
  "substr start len s = take len (drop start s)"

lemma parseInt16_byte:
  assumes "is_hex a" and "is_hex b"
  shows "parseInt16 [a, b] = jsint (int (hex_value [a, b]))"
proof -
  from assms have "\<not> js_whitespace a" "a \<noteq> 45" "a \<noteq> 43" "b \<noteq> 120" "b \<noteq> 88"
    by (auto simp: is_hex_def hex_digit_value_def js_whitespace_def split: if_splits)
  with assms show ?thesis
    by (simp add: parseInt16_def)
qed

lemma hex_value_byte:
  assumes "is_hex a" and "is_hex b"
  shows "hex_value [a, b] < 256"
  using assms by (auto simp: is_hex_def hex_value_def hex_digit_value_def split: if_splits)

lemma parseInt16_no_digits: "\<not> is_hex c \<Longrightarrow> \<not> js_whitespace c \<Longrightarrow> c \<noteq> 45 \<Longrightarrow> c \<noteq> 43 \<Longrightarrow>
    parseInt16 (c # cs) = NotFinite"
  by (cases cs) (auto simp: parseInt16_def is_hex_def hex_digit_value_def)

lemma parseInt16_Nil [simp]: "parseInt16 [] = NotFinite"
  by (simp add: parseInt16_def)

section \<open>Arrays\<close>

text \<open>
  \<open>xs[i]\<close> on an array: the element, or \<open>undefined\<close> (here \<open>None\<close>) when the index
  is negative or past the end.
\<close>

definition js_nth :: "'a list \<Rightarrow> int \<Rightarrow> 'a option" where
  "js_nth xs i = (if 0 \<le> i \<and> i < int (length xs) then Some (xs ! nat i) else None)"

lemma js_nth_in_range [simp]:
  "0 \<le> i \<Longrightarrow> i < int (length xs) \<Longrightarrow> js_nth xs i = Some (xs ! nat i)"
  by (simp add: js_nth_def)

lemma js_nth_out_of_range [simp]:
  "i < 0 \<or> int (length xs) \<le> i \<Longrightarrow> js_nth xs i = None"
  by (auto simp: js_nth_def)

lemma js_nth_Some_mem: "js_nth xs i = Some x \<Longrightarrow> x \<in> set xs"
  by (auto simp: js_nth_def split: if_splits)

lemma js_nth_Some_iff:
  "js_nth xs i = Some x \<longleftrightarrow> 0 \<le> i \<and> i < int (length xs) \<and> xs ! nat i = x"
  by (auto simp: js_nth_def)

end
