(* ===== verification/Types.thy ===== *)
theory Types
  imports JS_Prelude
begin

text \<open>
  The enumerations of \<open>src/types.ts\<close> as datatypes, and with them the result type of
  the question generator (\<open>src/services/mathGenerator.ts\<close>, line 22), whose two fields are
  the first two fields of the editor state (theory \<open>App_State\<close>).

  A TypeScript string enum is modelled by a datatype of its members; the function
  \<open>\<dots>_value\<close> gives the string a member stands for where the program shows or sends it.
  Two enums that share a member name (\<open>LogoPosition\<close> and \<open>RankPosition\<close>) and the
  string-literal unions (\<open>ContainerStyle\<close>, the header style, the watermark alignment)
  carry a prefix, since constructors share one name space.
\<close>

section \<open>Enumerations\<close>

datatype Difficulty = EASY | MEDIUM | TRICKY | ULTRA_TRICKY

datatype Platform = SQUARE | PORTRAIT

datatype BgStyle = GRADIENT | CHALKBOARD | NEON | MINIMAL | VIBRANT | CUSTOM | FOOD

datatype FoodType = VEG | MEAL | DESSERT | SNACKS

datatype LogoPosition = LOGO_TOP_LEFT | LOGO_TOP_RIGHT | LOGO_BOTTOM_RIGHT

datatype RankPosition = RANK_TOP_LEFT | RANK_TOP_RIGHT | RANK_BOTTOM_LEFT | RANK_CENTER_RIGHT

datatype ContainerStyle = cs_none | cs_ribbon | cs_badge | cs_glass | cs_minimal

datatype HeaderStyle = hs_ribbon | hs_badge | hs_glow | hs_minimal

datatype WatermarkAlign = wa_left | wa_center | wa_right

fun Difficulty_value :: "Difficulty \<Rightarrow> jsstring" where
  "Difficulty_value EASY = ascii ''Easy''"
| "Difficulty_value MEDIUM = ascii ''Medium''"
| "Difficulty_value TRICKY = ascii ''Tricky''"
| "Difficulty_value ULTRA_TRICKY = ascii ''Ultra-Tricky (Viral)''"

fun Platform_value :: "Platform \<Rightarrow> jsstring" where
  "Platform_value SQUARE = ascii ''1:1 (Post)''"
| "Platform_value PORTRAIT = ascii ''9:16 (Reel/Shorts)''"

fun BgStyle_value :: "BgStyle \<Rightarrow> jsstring" where
  "BgStyle_value GRADIENT = ascii ''Gradient''"
| "BgStyle_value CHALKBOARD = ascii ''Chalkboard''"
| "BgStyle_value NEON = ascii ''Neon Glow''"
| "BgStyle_value MINIMAL = ascii ''Minimal White''"
| "BgStyle_value VIBRANT = ascii ''Vibrant Pattern''"
| "BgStyle_value CUSTOM = ascii ''Custom Color''"
| "BgStyle_value FOOD = ascii ''Food Background''"

section \<open>The generated question\<close>

record generated =
  question :: jsstring
  answer :: jsnum

lemma Difficulty_value_inj: "Difficulty_value a = Difficulty_value b \<Longrightarrow> a = b"
  by (cases a; cases b; simp)

lemma Platform_value_inj: "Platform_value a = Platform_value b \<Longrightarrow> a = b"
  by (cases a; cases b; simp)

lemma BgStyle_value_inj: "BgStyle_value a = BgStyle_value b \<Longrightarrow> a = b"
  by (cases a; cases b; simp)

end
