(* ===== verification/App_State.thy ===== *)
theory App_State
  imports Types
begin

text \<open>
  The editor state of \<open>src/types.ts\<close> (interface \<open>AppState\<close>, lines 46 to 102) and the
  result of the critique service (interface \<open>ViralityAnalysis\<close>, lines 104 to 108).

  \<open>AppState\<close> extends the record of a generated question: its first two fields are the
  question text and the answer the generator returned. Numbers that the editor only ever
  sets to integers are \<open>int\<close>; \<open>lineSpacing\<close> is a rational. \<open>logoUrl\<close> is \<open>None\<close> for
  \<open>null\<close>.
\<close>

record AppState = generated +
  difficulty :: Difficulty
  platform :: Platform
  useFactorials :: bool
  useExponents :: bool
  useFractions :: bool
  fontFamily :: jsstring
  fontSize :: int
  fontWeight :: jsstring
  letterSpacing :: int
  lineSpacing :: rat
  fontColor :: jsstring
  autoColor :: bool
  headerEnabled :: bool
  headerText :: jsstring
  headerFont :: jsstring
  headerStyle :: HeaderStyle
  questionBgStyle :: ContainerStyle
  questionPaddingX :: int
  questionPaddingY :: int
  questionYOffset :: int
  questionBorderRadius :: int
  bgStyle :: BgStyle
  bgColors :: "jsstring list"
  customBgColor :: jsstring
  foodType :: FoodType
  foodVariant :: int
  logoUrl :: "jsstring option"
  logoPosition :: LogoPosition
  showGlow :: bool
  showShadow :: bool
  showCommentFooter :: bool
  showRankBadge :: bool
  rankPosition :: RankPosition
  showWatermark :: bool
  watermarkText :: jsstring
  watermarkAlign :: WatermarkAlign
  watermarkOffset :: int

record ViralityAnalysis =
  score :: jsnum
  suggestion :: jsstring
  bestHeadline :: jsstring

end
