(* ===== verification/Constants.thy ===== *)
theory Constants
  imports Types
begin

text \<open>
  The tables of \<open>src/constants.ts\<close>: the fonts the editor offers (\<open>FONTS\<close>), the headlines
  (\<open>HEADLINES\<close>), the pool of background images of each food type (\<open>FOOD_IMAGES\<close>) and the
  preset of each background style (\<open>BG_PRESETS\<close>). A \<open>Record\<close> over an enumeration is a
  function on the datatype of the enumeration. Strings are written with \<open>ascii\<close> where they
  are ASCII; a quote and a character outside ASCII are given by their UTF-16 code units.
\<close>

section \<open>Fonts and headlines\<close>

record font =
  name :: jsstring
  family :: jsstring

definition FONTS :: "font list" where
  "FONTS = [
     \<lparr>name = ascii ''Poppins'',
      family = [39] @ ascii ''Poppins'' @ [39] @ ascii '', sans-serif''\<rparr>,
     \<lparr>name = ascii ''Montserrat'',
      family = [39] @ ascii ''Montserrat'' @ [39] @ ascii '', sans-serif''\<rparr>,
     \<lparr>name = ascii ''Oswald'',
      family = [39] @ ascii ''Oswald'' @ [39] @ ascii '', sans-serif''\<rparr>,
     \<lparr>name = ascii ''Bebas Neue'',
      family = [39] @ ascii ''Bebas Neue'' @ [39] @ ascii '', cursive''\<rparr>,
     \<lparr>name = ascii ''Anton'',
      family = [39] @ ascii ''Anton'' @ [39] @ ascii '', sans-serif''\<rparr>,
     \<lparr>name = ascii ''Comic Neue'',
      family = [39] @ ascii ''Comic Neue'' @ [39] @ ascii '', cursive''\<rparr>,
     \<lparr>name = ascii ''Fredoka'',
      family = [39] @ ascii ''Fredoka'' @ [39] @ ascii '', sans-serif''\<rparr>,
     \<lparr>name = ascii ''Luckiest Guy'',
      family = [39] @ ascii ''Luckiest Guy'' @ [39] @ ascii '', cursive''\<rparr>,
     \<lparr>name = ascii ''Pacifico'',
      family = [39] @ ascii ''Pacifico'' @ [39] @ ascii '', cursive''\<rparr>,
     \<lparr>name = ascii ''Lobster'',
      family = [39] @ ascii ''Lobster'' @ [39] @ ascii '', cursive''\<rparr>,
     \<lparr>name = ascii ''Caveat'',
      family = [39] @ ascii ''Caveat'' @ [39] @ ascii '', cursive''\<rparr>,
     \<lparr>name = ascii ''Zeyada'',
      family = [39] @ ascii ''Zeyada'' @ [39] @ ascii '', cursive''\<rparr>,
     \<lparr>name = ascii ''Dancing Script'',
      family = [39] @ ascii ''Dancing Script'' @ [39] @ ascii '', cursive''\<rparr>,
     \<lparr>name = ascii ''Playfair Display'',
      family = [39] @ ascii ''Playfair Display'' @ [39] @ ascii '', serif''\<rparr>,
     \<lparr>name = ascii ''Digital'',
      family = [39] @ ascii ''Roboto Mono'' @ [39] @ ascii '', monospace''\<rparr>]"

definition HEADLINES :: "jsstring list" where
  "HEADLINES = [
     [55358, 56800] @ ascii '' Can You Solve This?'',
     ascii ''Only 1% Get This Right!'',
     ascii ''BODMAS Challenge '' @ [55357, 56613],
     ascii ''Math Genius Test '' @ [9889],
     ascii ''Tricky Math Quiz '' @ [55358, 56810]]"

section \<open>Food images\<close>

fun FOOD_IMAGES :: "FoodType \<Rightarrow> jsstring list" where
  "FOOD_IMAGES VEG = [
     ascii ''https://images.unsplash.com/photo-1512621776951-a57141f2eefd?auto=format&fit=crop&w=1200&q=80'',
     ascii ''https://images.unsplash.com/photo-1540189549336-e6e99c3679fe?auto=format&fit=crop&w=1200&q=80'',
     ascii ''https://images.unsplash.com/photo-1490645935967-10de6ba17061?auto=format&fit=crop&w=1200&q=80'']"
| "FOOD_IMAGES MEAL = [
     ascii ''https://images.unsplash.com/photo-1559339352-11d035aa65de?auto=format&fit=crop&w=1200&q=80'',
     ascii ''https://images.unsplash.com/photo-1504674900247-0877df9cc836?auto=format&fit=crop&w=1200&q=80'',
     ascii ''https://images.unsplash.com/photo-1546069901-ba9599a7e63c?auto=format&fit=crop&w=1200&q=80'']"
| "FOOD_IMAGES DESSERT = [
     ascii ''https://images.unsplash.com/photo-1563729784474-d77dbb933a9e?auto=format&fit=crop&w=1200&q=80'',
     ascii ''https://images.unsplash.com/photo-1551024601-bec78aea704b?auto=format&fit=crop&w=1200&q=80'',
     ascii ''https://images.unsplash.com/photo-1488477181946-6428a0291777?auto=format&fit=crop&w=1200&q=80'']"
| "FOOD_IMAGES SNACKS = [
     ascii ''https://images.unsplash.com/photo-1599490659213-e2b9527bb087?auto=format&fit=crop&w=1200&q=80'',
     ascii ''https://images.unsplash.com/photo-1534422298391-e4f8c170db06?auto=format&fit=crop&w=1200&q=80'',
     ascii ''https://images.unsplash.com/photo-1565299624946-b28f40a0ae38?auto=format&fit=crop&w=1200&q=80'']"

section \<open>Background presets\<close>

record preset =
  colors :: "jsstring list"
  "class" :: jsstring

fun BG_PRESETS :: "BgStyle \<Rightarrow> preset" where
  "BG_PRESETS GRADIENT =
     \<lparr>colors = [ascii ''#4f46e5'', ascii ''#9333ea''],
      class = ascii ''bg-gradient-to-br from-indigo-600 to-purple-600''\<rparr>"
| "BG_PRESETS CHALKBOARD =
     \<lparr>colors = [ascii ''#1e293b''],
      class = ascii ''bg-[#1a2e26] relative overflow-hidden before:content-['' @ [34, 34] @ ascii ''] before:absolute before:inset-0 before:opacity-10 before:bg-[url('' @ [34] @ ascii ''https://www.transparenttextures.com/patterns/chalkboard.png'' @ [34] @ ascii '')]''\<rparr>"
| "BG_PRESETS NEON =
     \<lparr>colors = [ascii ''#000000''],
      class = ascii ''bg-black border-2 border-cyan-500 shadow-[0_0_20px_rgba(6,182,212,0.5)]''\<rparr>"
| "BG_PRESETS MINIMAL =
     \<lparr>colors = [ascii ''#ffffff''],
      class = ascii ''bg-white''\<rparr>"
| "BG_PRESETS VIBRANT =
     \<lparr>colors = [ascii ''#f59e0b'', ascii ''#ef4444''],
      class = ascii ''bg-gradient-to-tr from-orange-400 to-red-500''\<rparr>"
| "BG_PRESETS CUSTOM =
     \<lparr>colors = [],
      class = []\<rparr>"
| "BG_PRESETS FOOD =
     \<lparr>colors = [],
      class = ascii ''bg-cover bg-center''\<rparr>"

end
