(* ===== verification/Sidebar.thy ===== *)
theory Sidebar
  imports App_State Constants
begin

text \<open>
  The control panel of \<open>src/components/Sidebar.tsx\<close>: its own state (which sections are
  open), the helpers \<open>update\<close>, \<open>handleLogoUpload\<close>, \<open>adjustFontSize\<close>, \<open>adjustLayoutValue\<close>
  and \<open>shuffleFood\<close> (lines 57 to 103), and the event handlers of the controls (lines 107
  to 576), grouped by the section of the panel that holds them.

  A handler reads the state of the render in which it was created (\<open>state\<close>) and passes
  an updater to \<open>setState\<close>, which React applies to the latest state (\<open>prev\<close>). A handler
  is therefore a function of \<open>state\<close> that returns a function of \<open>prev\<close>; the two are the
  same state unless two events are handled between two renders.

  What the browser guarantees of the value a control delivers (a slider stays within its
  \<open>min\<close> and \<open>max\<close>, a select delivers one of its options) is the predicate \<open>delivers\<close>;
  which controls are rendered in a state is the predicate \<open>rendered\<close>.
\<close>

section \<open>Open sections\<close>

type_synonym sections = "jsstring \<rightharpoonup> bool"

definition openSections_init :: sections where
  "openSections_init = map_of
     [(ascii ''logo'', False), (ascii ''general'', True), (ascii ''bg'', False),
      (ascii ''header'', False), (ascii ''boosters'', False), (ascii ''typo'', False),
      (ascii ''qstyling'', True)]"

text \<open>\<open>prev[key]\<close> as a condition: a key that is absent reads \<open>undefined\<close>, which is false.\<close>

fun truthy :: "bool option \<Rightarrow> bool" where
  "truthy None = False"
| "truthy (Some b) = b"

definition toggleSection :: "jsstring \<Rightarrow> sections \<Rightarrow> sections" where
  "toggleSection key prev = prev(key \<mapsto> \<not> truthy (prev key))"

section \<open>Helpers\<close>

text \<open>
  \<open>update(key, value)\<close> is \<open>setState(prev => ({ ...prev, [key]: value }))\<close>. The key is
  given by the update function of the record field.
\<close>

definition update :: "(('v \<Rightarrow> 'v) \<Rightarrow> 's \<Rightarrow> 's) \<Rightarrow> 'v \<Rightarrow> 's \<Rightarrow> 's" where
  "update key value prev = key (\<lambda>_. value) prev"

text \<open>
  \<open>handleLogoUpload\<close>: nothing happens without a file; with one, the reader's \<open>onload\<close>
  stores what it read (\<open>None\<close> when the result is missing).
\<close>

datatype upload = NoFile | Loaded "jsstring option"

fun handleLogoUpload :: "upload \<Rightarrow> AppState \<Rightarrow> AppState" where
  "handleLogoUpload NoFile = id"
| "handleLogoUpload (Loaded result) = update logoUrl_update result"

definition adjustFontSize :: "int \<Rightarrow> AppState \<Rightarrow> AppState \<Rightarrow> AppState" where
  "adjustFontSize delta state = update fontSize_update (min 250 (max 10 (fontSize state + delta)))"

datatype LayoutKey = key_questionYOffset | key_questionPaddingX | key_questionPaddingY

fun limits :: "LayoutKey \<Rightarrow> int \<times> int" where
  "limits key_questionYOffset = (-300, 300)"
| "limits key_questionPaddingX = (0, 150)"
| "limits key_questionPaddingY = (0, 100)"

fun layout_value :: "LayoutKey \<Rightarrow> AppState \<Rightarrow> int" where
  "layout_value key_questionYOffset = questionYOffset"
| "layout_value key_questionPaddingX = questionPaddingX"
| "layout_value key_questionPaddingY = questionPaddingY"

fun layout_update :: "LayoutKey \<Rightarrow> (int \<Rightarrow> int) \<Rightarrow> AppState \<Rightarrow> AppState" where
  "layout_update key_questionYOffset = questionYOffset_update"
| "layout_update key_questionPaddingX = questionPaddingX_update"
| "layout_update key_questionPaddingY = questionPaddingY_update"

definition adjustLayoutValue :: "LayoutKey \<Rightarrow> int \<Rightarrow> AppState \<Rightarrow> AppState \<Rightarrow> AppState" where
  "adjustLayoutValue key delta state =
     (case limits key of (mn, mx) \<Rightarrow>
        update (layout_update key) (min mx (max mn (layout_value key state + delta))))"

text \<open>
  The remainder \<open>a % b\<close> of JavaScript on integers: the sign of the dividend, and no
  number (here \<open>None\<close>) for a zero divisor.
\<close>

definition js_rem :: "int \<Rightarrow> int \<Rightarrow> int option" where
  "js_rem a b = (if b = 0 then None else Some (sgn a * (\<bar>a\<bar> mod \<bar>b\<bar>)))"

text \<open>
  \<open>shuffleFood\<close>. Were a pool empty the remainder would be \<open>NaN\<close>, which the integer field
  of the model cannot hold; the model leaves the state as it is. Every pool has three
  images (lemma \<open>poolSize\<close>), so this branch is never taken.
\<close>

definition shuffleFood :: "AppState \<Rightarrow> AppState \<Rightarrow> AppState" where
  "shuffleFood state =
     (let poolSize = int (length (FOOD_IMAGES (foodType state))) in
      case js_rem (foodVariant state + 1) poolSize of
        Some v \<Rightarrow> update foodVariant_update v
      | None \<Rightarrow> id)"

section \<open>The controls\<close>

text \<open>
  One datatype of events per section of the panel, each constructor a control with the
  value it delivers. The four booster buttons share one handler that reads the feature's
  current value from \<open>state\<close> and stores its negation.
\<close>

datatype Feature = feat_showGlow | feat_showShadow | feat_showCommentFooter | feat_showRankBadge

fun feature_value :: "Feature \<Rightarrow> AppState \<Rightarrow> bool" where
  "feature_value feat_showGlow = showGlow"
| "feature_value feat_showShadow = showShadow"
| "feature_value feat_showCommentFooter = showCommentFooter"
| "feature_value feat_showRankBadge = showRankBadge"

fun feature_update :: "Feature \<Rightarrow> (bool \<Rightarrow> bool) \<Rightarrow> AppState \<Rightarrow> AppState" where
  "feature_update feat_showGlow = showGlow_update"
| "feature_update feat_showShadow = showShadow_update"
| "feature_update feat_showCommentFooter = showCommentFooter_update"
| "feature_update feat_showRankBadge = showRankBadge_update"

datatype LogoEvent = UploadLogo upload | SelectLogoPosition LogoPosition

datatype GeneralEvent =
  EditQuestion jsstring | SelectDifficulty Difficulty | SelectPlatform Platform
| CheckFactorials bool | CheckExponents bool | CheckFractions bool

datatype BgEvent =
  ClickBgStyle BgStyle | PickCustomColor jsstring | SelectFoodType FoodType | ClickShuffle

datatype QStylingEvent =
  ClickContainer ContainerStyle | NudgeLayout LayoutKey int | SlideLayout LayoutKey int

datatype HeaderEvent = CheckHeader bool | SelectHeadline jsstring | ClickHeaderStyle HeaderStyle

datatype BoosterEvent = ClickFeature Feature | SelectRankPosition RankPosition

datatype TypoEvent =
  ClickFont jsstring | SelectWeight jsstring | CheckAutoColor bool | PickFontColor jsstring
| NudgeFontSize int | SlideFontSize int

datatype SidebarEvent =
  Logo LogoEvent | General GeneralEvent | Bg BgEvent | QStyling QStylingEvent
| Header HeaderEvent | Boosters BoosterEvent | Typo TypoEvent

fun on_logo :: "LogoEvent \<Rightarrow> AppState \<Rightarrow> AppState \<Rightarrow> AppState" where
  "on_logo (UploadLogo u) state = handleLogoUpload u"
| "on_logo (SelectLogoPosition p) state = update logoPosition_update p"

fun on_general :: "GeneralEvent \<Rightarrow> AppState \<Rightarrow> AppState \<Rightarrow> AppState" where
  "on_general (EditQuestion q) state = update question_update q"
| "on_general (SelectDifficulty d) state = update difficulty_update d"
| "on_general (SelectPlatform p) state = update platform_update p"
| "on_general (CheckFactorials b) state = update useFactorials_update b"
| "on_general (CheckExponents b) state = update useExponents_update b"
| "on_general (CheckFractions b) state = update useFractions_update b"

fun on_bg :: "BgEvent \<Rightarrow> AppState \<Rightarrow> AppState \<Rightarrow> AppState" where
  "on_bg (ClickBgStyle style) state = update bgStyle_update style"
| "on_bg (PickCustomColor c) state = update customBgColor_update c"
| "on_bg (SelectFoodType t) state = update foodType_update t"
| "on_bg ClickShuffle state = shuffleFood state"

fun on_qstyling :: "QStylingEvent \<Rightarrow> AppState \<Rightarrow> AppState \<Rightarrow> AppState" where
  "on_qstyling (ClickContainer c) state = update questionBgStyle_update c"
| "on_qstyling (NudgeLayout key delta) state = adjustLayoutValue key delta state"
| "on_qstyling (SlideLayout key v) state = update (layout_update key) v"

fun on_header :: "HeaderEvent \<Rightarrow> AppState \<Rightarrow> AppState \<Rightarrow> AppState" where
  "on_header (CheckHeader b) state = update headerEnabled_update b"
| "on_header (SelectHeadline h) state = update headerText_update h"
| "on_header (ClickHeaderStyle style) state = update headerStyle_update style"

fun on_boosters :: "BoosterEvent \<Rightarrow> AppState \<Rightarrow> AppState \<Rightarrow> AppState" where
  "on_boosters (ClickFeature f) state = update (feature_update f) (\<not> feature_value f state)"
| "on_boosters (SelectRankPosition p) state = update rankPosition_update p"

fun on_typo :: "TypoEvent \<Rightarrow> AppState \<Rightarrow> AppState \<Rightarrow> AppState" where
  "on_typo (ClickFont f) state = update fontFamily_update f"
| "on_typo (SelectWeight w) state = update fontWeight_update w"
| "on_typo (CheckAutoColor b) state = update autoColor_update b"
| "on_typo (PickFontColor c) state = update fontColor_update c"
| "on_typo (NudgeFontSize delta) state = adjustFontSize delta state"
| "on_typo (SlideFontSize v) state = update fontSize_update v"

fun on_event :: "SidebarEvent \<Rightarrow> AppState \<Rightarrow> AppState \<Rightarrow> AppState" where
  "on_event (Logo e) = on_logo e"
| "on_event (General e) = on_general e"
| "on_event (Bg e) = on_bg e"
| "on_event (QStyling e) = on_qstyling e"
| "on_event (Header e) = on_header e"
| "on_event (Boosters e) = on_boosters e"
| "on_event (Typo e) = on_typo e"

section \<open>What the controls deliver and when they are rendered\<close>

text \<open>
  The \<open>min\<close> and \<open>max\<close> attributes of the sliders (lines 328, 357, 383 and 557), the options
  of the weight select (lines 512 to 515), and the format of the value of a colour input:
  \<open>#\<close> and six lower-case hexadecimal digits.
\<close>

fun slider_range :: "LayoutKey \<Rightarrow> int \<times> int" where
  "slider_range key_questionYOffset = (-300, 300)"
| "slider_range key_questionPaddingX = (0, 150)"
| "slider_range key_questionPaddingY = (0, 100)"

definition fontSize_range :: "int \<times> int" where
  "fontSize_range = (10, 250)"

definition weights :: "jsstring list" where
  "weights = [ascii ''400'', ascii ''600'', ascii ''800'', ascii ''900'']"

definition in_limits :: "int \<times> int \<Rightarrow> int \<Rightarrow> bool" where
  "in_limits r v \<longleftrightarrow> fst r \<le> v \<and> v \<le> snd r"

definition is_hex_digit :: "code_unit \<Rightarrow> bool" where
  "is_hex_digit c \<longleftrightarrow> is_digit c \<or> 97 \<le> c \<and> c \<le> 102"

definition is_color :: "jsstring \<Rightarrow> bool" where
  "is_color c \<longleftrightarrow> length c = 7 \<and> take 1 c = [35] \<and> list_all is_hex_digit (drop 1 c)"

fun delivers :: "SidebarEvent \<Rightarrow> bool" where
  "delivers (Bg (PickCustomColor c)) = is_color c"
| "delivers (QStyling (NudgeLayout key delta)) = (delta = - 1 \<or> delta = 1)"
| "delivers (QStyling (SlideLayout key v)) = in_limits (slider_range key) v"
| "delivers (Header (SelectHeadline h)) = (h \<in> set HEADLINES)"
| "delivers (Typo (ClickFont f)) = (f \<in> family ` set FONTS)"
| "delivers (Typo (SelectWeight w)) = (w \<in> set weights)"
| "delivers (Typo (PickFontColor c)) = is_color c"
| "delivers (Typo (NudgeFontSize delta)) = (delta = - 1 \<or> delta = 1)"
| "delivers (Typo (SlideFontSize v)) = in_limits fontSize_range v"
| "delivers _ = True"

fun rendered :: "SidebarEvent \<Rightarrow> AppState \<Rightarrow> bool" where
  "rendered (Bg (PickCustomColor c)) state = (bgStyle state = CUSTOM)"
| "rendered (Bg (SelectFoodType t)) state = (bgStyle state = FOOD)"
| "rendered (Bg ClickShuffle) state = (bgStyle state = FOOD)"
| "rendered (QStyling (NudgeLayout key delta)) state =
     (key = key_questionYOffset \<or> questionBgStyle state \<noteq> cs_none)"
| "rendered (QStyling (SlideLayout key v)) state =
     (key = key_questionYOffset \<or> questionBgStyle state \<noteq> cs_none)"
| "rendered (Header (SelectHeadline h)) state = headerEnabled state"
| "rendered (Header (ClickHeaderStyle style)) state = headerEnabled state"
| "rendered (Boosters (SelectRankPosition p)) state = showRankBadge state"
| "rendered (Typo (PickFontColor c)) state = (\<not> autoColor state)"
| "rendered _ state = True"

section \<open>The invariant of the layout values\<close>

text \<open>
  The font size and the three layout values stay inside their limits, and the food
  variant is an index into the pool of the current food type.
\<close>

definition layout_keys :: "LayoutKey list" where
  "layout_keys = [key_questionYOffset, key_questionPaddingX, key_questionPaddingY]"

definition sidebar_inv :: "AppState \<Rightarrow> bool" where
  "sidebar_inv st \<longleftrightarrow>
     in_limits fontSize_range (fontSize st) \<and>
     list_all (\<lambda>key. in_limits (limits key) (layout_value key st)) layout_keys \<and>
     0 \<le> foodVariant st \<and> foodVariant st < int (length (FOOD_IMAGES (foodType st)))"

lemmas [ui_defs] =
  update_def adjustFontSize_def adjustLayoutValue_def shuffleFood_def js_rem_def toggleSection_def
  in_limits_def fontSize_range_def layout_keys_def

section \<open>The helpers keep their limits\<close>

lemma truthy_toggleSection [simp]:
  "toggleSection key m key' = (if key' = key then Some (\<not> truthy (m key)) else m key')"
  by (simp add: toggleSection_def)

lemma toggleSection_twice: "toggleSection key (toggleSection key m) = m(key \<mapsto> truthy (m key))"
  by (rule ext) simp

lemma poolSize [simp]: "length (FOOD_IMAGES t) = 3"
  by (cases t) simp_all

lemma limits_ordered: "fst (limits key) \<le> snd (limits key)"
  by (cases key) simp_all

lemma slider_range_limits: "slider_range key = limits key"
  by (cases key) simp_all

lemma clamp_in_limits: "fst r \<le> snd r \<Longrightarrow> in_limits r (min (snd r) (max (fst r) v))"
  by (auto simp: in_limits_def)

lemma layout_value_update [simp]:
  "layout_value key' (layout_update key f st) =
     (if key' = key then f (layout_value key st) else layout_value key' st)"
  by (cases key; cases key'; simp)

lemma layout_update_frame [simp]:
  "fontSize (layout_update key f st) = fontSize st"
  "foodVariant (layout_update key f st) = foodVariant st"
  "foodType (layout_update key f st) = foodType st"
  by (cases key; simp)+

lemma feature_update_frame [simp]:
  "fontSize (feature_update f g st) = fontSize st"
  "layout_value key (feature_update f g st) = layout_value key st"
  "foodVariant (feature_update f g st) = foodVariant st"
  "foodType (feature_update f g st) = foodType st"
  by (cases f; cases key; simp)+

lemma fontSize_adjustFontSize [simp]:
  "fontSize (adjustFontSize delta state prev) = min 250 (max 10 (fontSize state + delta))"
  by (simp add: adjustFontSize_def update_def)

lemma adjustFontSize_in_limits: "in_limits fontSize_range (fontSize (adjustFontSize delta state prev))"
  by (simp add: in_limits_def fontSize_range_def)

lemma layout_value_adjustLayoutValue:
  "layout_value key' (adjustLayoutValue key delta state prev) =
     (if key' = key then min (snd (limits key)) (max (fst (limits key)) (layout_value key state + delta))
      else layout_value key' prev)"
  by (simp add: adjustLayoutValue_def update_def split: prod.split)

lemma adjustLayoutValue_in_limits:
  "in_limits (limits key) (layout_value key (adjustLayoutValue key delta state prev))"
  by (simp add: layout_value_adjustLayoutValue clamp_in_limits limits_ordered)

lemma foodVariant_shuffleFood:
  "foodVariant (shuffleFood state prev) = sgn (foodVariant state + 1) * (\<bar>foodVariant state + 1\<bar> mod 3)"
  by (simp add: shuffleFood_def js_rem_def update_def)

lemma shuffleFood_in_pool:
  assumes "0 \<le> foodVariant state"
  shows "0 \<le> foodVariant (shuffleFood state prev)" and "foodVariant (shuffleFood state prev) < 3"
  using assms by (simp_all add: foodVariant_shuffleFood)

lemma shuffleFood_cycle:
  assumes "0 \<le> foodVariant st" "foodVariant st < 3"
  shows "foodVariant (shuffleFood st st) = (foodVariant st + 1) mod 3"
  using assms by (simp add: foodVariant_shuffleFood)

lemma sidebar_inv_iff:
  "sidebar_inv st \<longleftrightarrow>
     in_limits fontSize_range (fontSize st) \<and> (\<forall>key. in_limits (limits key) (layout_value key st)) \<and>
     0 \<le> foodVariant st \<and> foodVariant st < 3"
proof -
  have "set layout_keys = UNIV"
    using LayoutKey.exhaust by (auto simp: layout_keys_def)
  then show ?thesis by (simp add: sidebar_inv_def list_all_iff)
qed


section \<open>Every control preserves the invariant\<close>

lemmas sidebar_inv_unfold =
  sidebar_inv_def layout_keys_def in_limits_def fontSize_range_def update_def

lemma handleLogoUpload_inv: "sidebar_inv prev \<Longrightarrow> sidebar_inv (handleLogoUpload u prev)"
  by (cases u) (simp_all add: sidebar_inv_unfold)

lemma on_logo_inv: "sidebar_inv prev \<Longrightarrow> sidebar_inv (on_logo e state prev)"
  by (cases e) (simp_all add: handleLogoUpload_inv, simp add: sidebar_inv_unfold)

lemma on_general_inv: "sidebar_inv prev \<Longrightarrow> sidebar_inv (on_general e state prev)"
  by (cases e) (simp_all add: sidebar_inv_unfold)

lemma shuffleFood_inv:
  "sidebar_inv state \<Longrightarrow> sidebar_inv prev \<Longrightarrow> sidebar_inv (shuffleFood state prev)"
  by (simp add: sidebar_inv_unfold shuffleFood_def js_rem_def)

lemma on_bg_inv:
  "sidebar_inv state \<Longrightarrow> sidebar_inv prev \<Longrightarrow> sidebar_inv (on_bg e state prev)"
  by (cases e) (simp_all add: shuffleFood_inv, simp_all add: sidebar_inv_unfold)

lemma layout_update_inv:
  assumes "sidebar_inv prev" and "in_limits (limits key) v"
  shows "sidebar_inv (update (layout_update key) v prev)"
  using assms by (simp add: sidebar_inv_iff update_def)

lemma adjustLayoutValue_inv:
  assumes "sidebar_inv prev"
  shows "sidebar_inv (adjustLayoutValue key delta state prev)"
proof -
  have "adjustLayoutValue key delta state prev =
      update (layout_update key)
        (min (snd (limits key)) (max (fst (limits key)) (layout_value key state + delta))) prev"
    by (simp add: adjustLayoutValue_def split: prod.split)
  with assms show ?thesis
    by (simp add: layout_update_inv clamp_in_limits limits_ordered)
qed

lemma on_qstyling_inv:
  assumes "sidebar_inv prev" and "delivers (QStyling e)"
  shows "sidebar_inv (on_qstyling e state prev)"
proof (cases e)
  case (ClickContainer c)
  with assms show ?thesis by (simp add: sidebar_inv_unfold)
next
  case (NudgeLayout key delta)
  with assms show ?thesis by (simp add: adjustLayoutValue_inv)
next
  case (SlideLayout key v)
  with assms show ?thesis by (simp add: layout_update_inv slider_range_limits)
qed

lemma on_header_inv: "sidebar_inv prev \<Longrightarrow> sidebar_inv (on_header e state prev)"
  by (cases e) (simp_all add: sidebar_inv_unfold)

lemma on_boosters_inv: "sidebar_inv prev \<Longrightarrow> sidebar_inv (on_boosters e state prev)"
  by (cases e) (simp add: sidebar_inv_iff update_def, simp add: sidebar_inv_unfold)

lemma on_typo_inv:
  assumes "sidebar_inv prev" and "delivers (Typo e)"
  shows "sidebar_inv (on_typo e state prev)"
  using assms by (cases e) (simp_all add: sidebar_inv_unfold adjustFontSize_def)

lemma on_event_inv:
  assumes "sidebar_inv state" and "sidebar_inv prev" and "delivers ev"
  shows "sidebar_inv (on_event ev state prev)"
  using assms
  by (cases ev)
    (simp_all add: on_logo_inv on_general_inv on_bg_inv on_qstyling_inv on_header_inv
      on_boosters_inv on_typo_inv)


section \<open>Properties\<close>

text \<open>
  C34 (bounds). The nudge buttons clamp: whatever the rendered state, the latest state and
  the step, the font size that \<open>adjustFontSize\<close> stores lies in 10 to 250 and the layout
  value that \<open>adjustLayoutValue\<close> stores lies within the limits of its key (-300 to 300
  for the offset, 0 to 150 and 0 to 100 for the paddings).
\<close>

theorem nudge_clamps:
  "in_limits fontSize_range (fontSize (adjustFontSize delta state prev)) \<and>
   in_limits (limits key) (layout_value key (adjustLayoutValue key delta state prev))"
  by (intro conjI adjustFontSize_in_limits adjustLayoutValue_in_limits)

end
