(* ===== verification/Random_Source.thy ===== *)
theory Random_Source
  imports JS_Prelude
begin

text \<open>
  The random source of \<open>src/services/mathGenerator.ts\<close> and the one helper that reads
  it, \<open>getRandom\<close> (line 23).

  \<open>Math.random()\<close> returns a number \<open>r\<close> with \<open>0 \<le> r < 1\<close> and advances a generator
  that the program cannot observe otherwise. The model makes the source explicit: a
  \<open>draw\<close> is a rational of the half-open unit interval, the state \<open>rng\<close> is the infinite
  stream of the draws still to come, and an operation that draws is a computation of the
  state monad over \<open>rng\<close>. The order in which the code calls \<open>Math.random()\<close> is the order
  in which the model consumes the stream, so a property proved for every stream holds
  for every behaviour of the generator, and a stream chosen by hand replays one run.
\<close>

section \<open>Draws and the generator state\<close>

typedef draw = "{r :: rat. 0 \<le> r \<and> r < 1}"
  morphisms draw_value Abs_draw
  by (rule exI [of _ 0]) simp

setup_lifting type_definition_draw

lift_definition to_draw :: "rat \<Rightarrow> draw" is "\<lambda>r. r - of_int \<lfloor>r\<rfloor>"
  by (simp add: floor_less_cancel)

type_synonym rng = "draw stream"
type_synonym 'a rand = "(rng, 'a) state"

text \<open>A generator state that yields the given draws first and 0 ever after.\<close>

definition draws :: "rat list \<Rightarrow> rng" where
  "draws rs = map to_draw rs @- sconst (to_draw 0)"

lemma draw_value_nonneg [simp]: "0 \<le> draw_value d"
  using draw_value [of d] by simp

lemma draw_value_less_1 [simp]: "draw_value d < 1"
  using draw_value [of d] by simp

lemma draw_value_to_draw [simp]: "0 \<le> r \<Longrightarrow> r < 1 \<Longrightarrow> draw_value (to_draw r) = r"
  by transfer (simp add: floor_unique)

lemma to_draw_draw_value [simp]: "to_draw (draw_value d) = d"
  by transfer (simp add: floor_unique)

lemma draws_simps [simp]:
  "shd (draws (r # rs)) = to_draw r"
  "stl (draws (r # rs)) = draws rs"
  "shd (draws []) = to_draw 0"
  "stl (draws []) = draws []"
  by (simp_all add: draws_def)

section \<open>Reading the source\<close>

definition Math_random :: "rat rand" where
  "Math_random = State (\<lambda>s. (draw_value (shd s), stl s))"

definition Math_floor :: "rat \<Rightarrow> int" where
  "Math_floor r = \<lfloor>r\<rfloor>"

text \<open>
  \<open>getRandom(min, max)\<close>: \<open>Math.floor(Math.random() * (max - min + 1)) + min\<close>. The
  function \<open>pick\<close> is its value as a function of the draw.
\<close>

definition pick :: "int \<Rightarrow> int \<Rightarrow> rat \<Rightarrow> int" where
  "pick mn mx r = Math_floor (r * of_int (mx - mn + 1)) + mn"

definition getRandom :: "int \<Rightarrow> int \<Rightarrow> int rand" where
  "getRandom mn mx = do {
     r \<leftarrow> Math_random;
     State_Monad.return (Math_floor (r * of_int (mx - mn + 1)) + mn)
   }"

text \<open>The draw that makes \<open>getRandom mn mx\<close> return \<open>k\<close>: the left end of \<open>k\<close>'s cell.\<close>

definition draw_for :: "int \<Rightarrow> int \<Rightarrow> int \<Rightarrow> rat" where
  "draw_for mn mx k = of_int (k - mn) / of_int (mx - mn + 1)"

lemma run_state_Math_random [simp]:
  "run_state Math_random s = (draw_value (shd s), stl s)"
  by (simp add: Math_random_def)

lemma run_state_getRandom [simp]:
  "run_state (getRandom mn mx) s = (pick mn mx (draw_value (shd s)), stl s)"
  by (simp add: getRandom_def pick_def)

section \<open>The range of a pick\<close>

lemma pick_lower: "0 \<le> r \<Longrightarrow> mn \<le> mx \<Longrightarrow> mn \<le> pick mn mx r"
  by (simp add: pick_def Math_floor_def)

lemma pick_upper:
  assumes "r < 1" and "mn \<le> mx"
  shows "pick mn mx r \<le> mx"
proof -
  define n where "n = mx - mn + 1"
  with assms have "r * of_int n < of_int n"
    by simp
  then have "\<lfloor>r * of_int n\<rfloor> < n"
    by (simp only: floor_less_iff)
  then show ?thesis by (simp add: pick_def Math_floor_def n_def)
qed

lemma pick_draw_range [simp]:
  "mn \<le> mx \<Longrightarrow> mn \<le> pick mn mx (draw_value d)"
  "mn \<le> mx \<Longrightarrow> pick mn mx (draw_value d) \<le> mx"
  by (simp_all add: pick_lower pick_upper)

lemma pick_draw_in [simp]: "mn \<le> mx \<Longrightarrow> pick mn mx (draw_value d) \<in> {mn..mx}"
  by simp

text \<open>
  Uniformity: the draws that pick \<open>k\<close> are exactly those of one cell of width
  \<open>1 / (mx - mn + 1)\<close>.
\<close>

lemma pick_eq_iff:
  assumes "mn \<le> mx"
  shows "pick mn mx r = k \<longleftrightarrow>
    of_int (k - mn) \<le> r * of_int (mx - mn + 1) \<and> r * of_int (mx - mn + 1) < of_int (k - mn + 1)"
proof -
  define n where "n = mx - mn + 1"
  have "pick mn mx r = k \<longleftrightarrow> \<lfloor>r * of_int n\<rfloor> = k - mn"
    by (auto simp: pick_def Math_floor_def n_def)
  also have "\<dots> \<longleftrightarrow> of_int (k - mn) \<le> r * of_int n \<and> r * of_int n < of_int (k - mn) + 1"
    by (rule floor_eq_iff)
  finally show ?thesis by (simp add: n_def)
qed

lemma draw_for_unit:
  assumes "mn \<le> k" and "k \<le> mx"
  shows "0 \<le> draw_for mn mx k" and "draw_for mn mx k < 1"
  using assms by (simp_all add: draw_for_def)

lemma pick_draw_for [simp]:
  assumes "mn \<le> k" and "k \<le> mx"
  shows "pick mn mx (draw_for mn mx k) = k"
proof -
  define n where "n = mx - mn + 1"
  with assms have "draw_for mn mx k * of_int n = of_int (k - mn)"
    by (simp add: draw_for_def)
  then have "\<lfloor>draw_for mn mx k * of_int n\<rfloor> = k - mn"
    by (simp only: floor_of_int)
  then show ?thesis by (simp add: pick_def Math_floor_def n_def)
qed

text \<open>The source \<open>draws []\<close> yields 0 for ever, and a draw of 0 picks the minimum.\<close>

lemma draw_value_zero [simp]: "draw_value (to_draw 0) = 0"
  by simp

lemma pick_zero [simp]: "pick mn mx 0 = mn"
  by (simp add: pick_def Math_floor_def)

lemma draw_value_draw_for [simp]:
  "mn \<le> k \<Longrightarrow> k \<le> mx \<Longrightarrow> draw_value (to_draw (draw_for mn mx k)) = draw_for mn mx k"
  by (simp add: draw_for_unit)

lemma pick_surjective:
  assumes "mn \<le> k" and "k \<le> mx"
  shows "\<exists>d. pick mn mx (draw_value d) = k"
  using assms by (intro exI [of _ "to_draw (draw_for mn mx k)"]) simp

section \<open>Properties of every outcome\<close>

text \<open>
  \<open>pred_state P m\<close> (of the state monad library) says that \<open>P\<close> holds of the result of
  \<open>m\<close> whatever the generator state. The rules below compute it along the structure of a
  computation; \<open>outcome\<close> turns it into a statement about one run.
\<close>

named_theorems outcome_intros "rules that push a property of every outcome through a computation"

lemma outcome: "pred_state P m \<Longrightarrow> P (fst (run_state m s))"
  by (rule pred_state_run_state)

lemma pred_state_iff: "pred_state P m \<longleftrightarrow> (\<forall>s. P (fst (run_state m s)))"
  by (metis pred_stateI pred_state_run_state fst_conv)

lemma pred_state_weaken: "pred_state P m \<Longrightarrow> (\<And>x. P x \<Longrightarrow> Q x) \<Longrightarrow> pred_state Q m"
  by (auto simp: pred_state_iff)

lemma pred_state_conj: "pred_state P m \<Longrightarrow> pred_state Q m \<Longrightarrow> pred_state (\<lambda>x. P x \<and> Q x) m"
  by (auto simp: pred_state_iff)

lemma pred_state_return [outcome_intros]: "P x \<Longrightarrow> pred_state P (State_Monad.return x)"
  by (simp add: pred_state_iff)

lemma pred_state_bind [outcome_intros]:
  "pred_state (\<lambda>x. pred_state P (f x)) m \<Longrightarrow> pred_state P (State_Monad.bind m f)"
  by (rule bind_predI)

lemma pred_state_if [outcome_intros]:
  "(b \<Longrightarrow> pred_state P m) \<Longrightarrow> (\<not> b \<Longrightarrow> pred_state P n) \<Longrightarrow> pred_state P (if b then m else n)"
  by simp

lemma pred_state_case_pair [outcome_intros]:
  "pred_state P (f a b) \<Longrightarrow> pred_state P (case (a, b) of (x, y) \<Rightarrow> f x y)"
  by simp

lemma pred_state_case_prod:
  "(\<And>a b. p = (a, b) \<Longrightarrow> pred_state P (f a b)) \<Longrightarrow> pred_state P (case p of (a, b) \<Rightarrow> f a b)"
  by (cases p) simp

lemma pred_state_case_option [outcome_intros]:
  "(x = None \<Longrightarrow> pred_state P m) \<Longrightarrow> (\<And>y. x = Some y \<Longrightarrow> pred_state P (f y)) \<Longrightarrow>
     pred_state P (case x of None \<Rightarrow> m | Some y \<Rightarrow> f y)"
  by (cases x) simp_all

lemma pred_state_Math_random [outcome_intros]:
  "(\<And>r. 0 \<le> r \<Longrightarrow> r < 1 \<Longrightarrow> P r) \<Longrightarrow> pred_state P Math_random"
  by (simp add: pred_state_iff)

lemma pred_state_getRandom [outcome_intros]:
  "mn \<le> mx \<Longrightarrow> (\<And>k. mn \<le> k \<Longrightarrow> k \<le> mx \<Longrightarrow> P k) \<Longrightarrow> pred_state P (getRandom mn mx)"
  by (simp add: pred_state_iff)

text \<open>The converse for \<open>getRandom\<close>: every value of the range is an outcome.\<close>

lemma getRandom_attains:
  assumes "mn \<le> k" and "k \<le> mx"
  shows "\<exists>s. fst (run_state (getRandom mn mx) s) = k"
  using assms by (intro exI [of _ "draws [draw_for mn mx k]"]) simp

end
