(* ===== verification/Math_Generator.thy ===== *)
theory Math_Generator
  imports Random_Source Types
begin

text \<open>
  The question generator of \<open>src/services/mathGenerator.ts\<close>, definition by definition in the
  order of the file:

  \<^item> \<open>factorial\<close> (lines 4 to 7) and \<open>toSuperscript\<close> (lines 9 to 15) with its table
    \<open>sups\<close>;
  \<^item> the three term generators \<open>getSmallFact\<close>, \<open>getSmallExp\<close>, \<open>getSmallFrac\<close> (lines
    26 to 43), each returning a \<open>smallterm\<close>, the object \<open>{ text, val }\<close>;
  \<^item> the four branches of \<open>generateBODMAS\<close> as \<open>genEasy\<close>, \<open>genMedium\<close>, \<open>genTricky\<close>
    and \<open>genUltraTricky\<close> (lines 45 to 161), and \<open>generateBODMAS\<close> itself, which selects
    one by its chain of tests on the difficulty.

  Every operation that calls \<open>Math.random()\<close> is a computation over the generator state of
  theory \<open>Random_Source\<close>; the draws are made in the order of the source, and the
  short-circuit conjunctions \<open>options.length > 0 && Math.random() > 0.5\<close> draw only when
  their first conjunct holds. Local variables that the source reassigns (\<open>leftText\<close>,
  \<open>txtC\<close>, \<open>qInner\<close>, \<dots>) are rebound by the computation that may replace them.
\<close>

section \<open>Glyphs\<close>

abbreviation (input) MULTIPLICATION_SIGN :: code_unit where
  "MULTIPLICATION_SIGN \<equiv> 215"

abbreviation (input) DIVISION_SIGN :: code_unit where
  "DIVISION_SIGN \<equiv> 247"

section \<open>factorial\<close>

function factorial :: "int \<Rightarrow> int" where
  "factorial n = (if n \<le> 1 then 1 else n * factorial (n - 1))"
  by pat_completeness auto
termination
  by (relation "measure nat") auto

declare factorial.simps [simp del]

section \<open>toSuperscript\<close>

text \<open>
  The table \<open>sups\<close> maps the one-unit strings \<open>'0'\<close> to \<open>'9'\<close> to the superscript digits
  U+2070, U+00B9, U+00B2, U+00B3 and U+2074 to U+2079. \<open>split_units\<close> is \<open>split('')\<close>,
  \<open>concat\<close> is \<open>join('')\<close>, and \<open>sups[d] || d\<close> keeps \<open>d\<close> when the table has no entry
  for it or an empty one.
\<close>

definition sups :: "(jsstring \<times> jsstring) list" where
  "sups = [([48], [8304]), ([49], [185]), ([50], [178]), ([51], [179]), ([52], [8308]),
           ([53], [8309]), ([54], [8310]), ([55], [8311]), ([56], [8312]), ([57], [8313])]"

definition split_units :: "jsstring \<Rightarrow> jsstring list" where
  "split_units s = map (\<lambda>c. [c]) s"

definition sup_or_self :: "jsstring \<Rightarrow> jsstring" where
  "sup_or_self d = (case map_of sups d of Some s \<Rightarrow> if s = [] then d else s | None \<Rightarrow> d)"

definition toSuperscript :: "int \<Rightarrow> jsstring" where
  "toSuperscript num = concat (map sup_or_self (split_units (toString num)))"

section \<open>Math.pow\<close>

text \<open>
  \<open>Math.pow\<close> on integers: a power for an exponent that is not negative, the reciprocal
  of one otherwise (not finite when the base is 0).
\<close>

definition Math_pow :: "int \<Rightarrow> int \<Rightarrow> jsnum" where
  "Math_pow b e = (if 0 \<le> e then jsint (b ^ nat e) else Finite 1 / jsint (b ^ nat (- e)))"

section \<open>The term generators\<close>

record smallterm =
  "text" :: jsstring
  val :: jsnum

definition getSmallFact :: "smallterm rand" where
  "getSmallFact = do {
     n \<leftarrow> getRandom 2 5;
     State_Monad.return \<lparr>text = toString n @ ascii ''!'', val = jsint (factorial n)\<rparr>
   }"

definition getSmallExp :: "smallterm rand" where
  "getSmallExp = do {
     base \<leftarrow> getRandom 2 5;
     exp \<leftarrow> getRandom 2 3;
     State_Monad.return \<lparr>text = toString base @ toSuperscript exp, val = Math_pow base exp\<rparr>
   }"

text \<open>
  \<open>getSmallFrac\<close> reads its denominator from an array. Were the index out of range, \<open>den\<close>
  would be \<open>undefined\<close>, the second \<open>getRandom\<close> would still draw and return \<open>NaN\<close>, and the
  term would read \<open>NaN/undefined\<close>: the second branch of the \<open>case\<close>.
\<close>

definition denominators :: "int list" where
  "denominators = [2, 4, 5, 10]"

definition getSmallFrac :: "smallterm rand" where
  "getSmallFrac = do {
     i \<leftarrow> getRandom 0 (int (length denominators) - 1);
     case js_nth denominators i of
       Some den \<Rightarrow> do {
         num \<leftarrow> getRandom 1 (den - 1);
         State_Monad.return
           \<lparr>text = toString num @ ascii ''/'' @ toString den, val = jsint num / jsint den\<rparr>
       }
     | None \<Rightarrow> do {
         r \<leftarrow> Math_random;
         State_Monad.return \<lparr>text = ascii ''NaN/undefined'', val = NotFinite\<rparr>
       }
   }"

section \<open>The branches of generateBODMAS\<close>

text \<open>\<open>options.push(tag)\<close> under its condition.\<close>

definition push_if :: "bool \<Rightarrow> string \<Rightarrow> string list \<Rightarrow> string list" where
  "push_if b tag options = (if b then options @ [tag] else options)"

text \<open>
  \<open>options.length > 0 && Math.random() > p\<close> and \<open>useFactorials && Math.random() > p\<close>:
  the draw is made only when the first conjunct holds.
\<close>

definition and_random_above :: "bool \<Rightarrow> rat \<Rightarrow> bool rand" where
  "and_random_above b p =
     (if b then do { r \<leftarrow> Math_random; State_Monad.return (r > p) }
      else State_Monad.return False)"

text \<open>\<open>options[getRandom(0, options.length - 1)]\<close>: the mode, \<open>None\<close> for \<open>undefined\<close>.\<close>

definition pick_option :: "string list \<Rightarrow> string option rand" where
  "pick_option options = do {
     i \<leftarrow> getRandom 0 (int (length options) - 1);
     State_Monad.return (js_nth options i)
   }"

definition genEasy :: "generated rand" where
  "genEasy = do {
     a \<leftarrow> getRandom 5 20;
     b \<leftarrow> getRandom 5 20;
     c \<leftarrow> getRandom 1 10;
     State_Monad.return
       \<lparr>question = toString a @ ascii '' + '' @ toString b @ ascii '' - '' @ toString c,
        answer = jsint (a + b - c)\<rparr>
   }"

definition genMedium :: "bool \<Rightarrow> bool \<Rightarrow> generated rand" where
  "genMedium useExponents useFractions = do {
     a \<leftarrow> getRandom 2 10;
     b \<leftarrow> getRandom 2 10;
     c \<leftarrow> getRandom 1 20;
     let leftSide = jsint (a * b);
     let leftText = toString a @ [32, MULTIPLICATION_SIGN, 32] @ toString b;
     let options = push_if useFractions ''frac'' (push_if useExponents ''exp'' []);
     replace \<leftarrow> and_random_above (length options > 0) (1 / 2);
     (leftText, leftSide) \<leftarrow>
       (if replace then do {
          mode \<leftarrow> pick_option options;
          if mode = Some ''exp'' then do {
            exp \<leftarrow> getSmallExp;
            State_Monad.return (text exp, val exp)
          } else do {
            frac \<leftarrow> getSmallFrac;
            State_Monad.return (text frac, val frac)
          }
        } else State_Monad.return (leftText, leftSide));
     State_Monad.return
       \<lparr>question = leftText @ ascii '' + '' @ toString c, answer = leftSide + jsint c\<rparr>
   }"

definition genTricky :: "bool \<Rightarrow> bool \<Rightarrow> bool \<Rightarrow> generated rand" where
  "genTricky useFactorials useExponents useFractions = do {
     b \<leftarrow> getRandom 2 6;
     k \<leftarrow> getRandom 4 10;
     let a = b * k;
     c \<leftarrow> getRandom 2 5;
     d \<leftarrow> getRandom 5 15;
     let valA = jsint a;
     let txtA = toString a;
     let valC = jsint c;
     let txtC = toString c;
     let valD = jsint d;
     let txtD = toString d;
     let options =
       push_if useFractions ''frac''
         (push_if useFactorials ''fact'' (push_if useExponents ''exp'' []));
     (txtC, valC, txtD, valD) \<leftarrow>
       (if length options > 0 then do {
          mode \<leftarrow> pick_option options;
          if mode = Some ''exp'' then do {
            exp \<leftarrow> getSmallExp;
            State_Monad.return (text exp, val exp, txtD, valD)
          } else if mode = Some ''fact'' then do {
            fact \<leftarrow> getSmallFact;
            State_Monad.return (txtC, valC, text fact, val fact)
          } else if mode = Some ''frac'' then do {
            frac \<leftarrow> getSmallFrac;
            State_Monad.return (text frac, val frac, txtD, valD)
          } else State_Monad.return (txtC, valC, txtD, valD)
        } else State_Monad.return (txtC, valC, txtD, valD));
     let answer = (valA / jsint b) * valC + valD;
     let question =
       txtA @ [32, DIVISION_SIGN, 32] @ toString b @ [32, MULTIPLICATION_SIGN, 32] @ txtC
         @ ascii '' + '' @ txtD;
     State_Monad.return \<lparr>question = question, answer = answer\<rparr>
   }"

definition genUltraTricky :: "bool \<Rightarrow> bool \<Rightarrow> bool \<Rightarrow> generated rand" where
  "genUltraTricky useFactorials useExponents useFractions = do {
     multiplier \<leftarrow> getRandom 2 6;
     factor \<leftarrow> getRandom 2 4;
     inside1 \<leftarrow> getRandom 1 4;
     inside2 \<leftarrow> getRandom 1 4;
     let dividend = multiplier * factor;
     let qInner = toString inside1 @ ascii '' + '' @ toString inside2;
     let innerVal = jsint (inside1 + inside2);
     let options = push_if useFractions ''frac'' (push_if useExponents ''exp'' []);
     replace \<leftarrow> and_random_above (length options > 0) (1 / 2);
     (qInner, innerVal) \<leftarrow>
       (if replace then do {
          mode \<leftarrow> pick_option options;
          if mode = Some ''exp'' then do {
            exp \<leftarrow> getSmallExp;
            State_Monad.return
              (text exp @ ascii '' + '' @ toString inside2, val exp + jsint inside2)
          } else do {
            frac \<leftarrow> getSmallFrac;
            State_Monad.return
              (text frac @ ascii '' + '' @ toString inside2, val frac + jsint inside2)
          }
        } else State_Monad.return (qInner, innerVal));
     let mainPartVal = (jsint dividend / jsint multiplier) * innerVal;
     let mainPartTxt =
       toString dividend @ [32, DIVISION_SIGN, 32] @ toString multiplier
         @ ascii ''('' @ qInner @ ascii '')'';
     prepend \<leftarrow> and_random_above useFactorials (3 / 10);
     if prepend then do {
       fact \<leftarrow> getSmallFact;
       State_Monad.return
         \<lparr>question = text fact @ ascii '' + '' @ mainPartTxt, answer = val fact + mainPartVal\<rparr>
     } else State_Monad.return \<lparr>question = mainPartTxt, answer = mainPartVal\<rparr>
   }"

definition generateBODMAS :: "Difficulty \<Rightarrow> bool \<Rightarrow> bool \<Rightarrow> bool \<Rightarrow> generated rand" where
  "generateBODMAS difficulty useFactorials useExponents useFractions =
     (if difficulty = EASY then genEasy
      else if difficulty = MEDIUM then genMedium useExponents useFractions
      else if difficulty = TRICKY then genTricky useFactorials useExponents useFractions
      else genUltraTricky useFactorials useExponents useFractions)"

lemmas [gen_defs] =
  getSmallFact_def getSmallExp_def getSmallFrac_def denominators_def push_if_def
  and_random_above_def pick_option_def Let_def genEasy_def genMedium_def genTricky_def genUltraTricky_def
  generateBODMAS_def

section \<open>factorial is the factorial\<close>

lemma factorial_le_1 [simp]: "n \<le> 1 \<Longrightarrow> factorial n = 1"
  by (subst factorial.simps) simp

lemma factorial_rec: "1 < n \<Longrightarrow> factorial n = n * factorial (n - 1)"
  by (subst factorial.simps) simp

lemma factorial_numeral [simp]:
  "factorial (numeral k) =
     (if numeral k \<le> (1::int) then 1 else numeral k * factorial (numeral k - 1))"
  by (rule factorial.simps)

lemma factorial_int: "factorial (int n) = int (fact n)"
proof (induction n)
  case 0
  show ?case by simp
next
  case (Suc n)
  show ?case
  proof (cases "n = 0")
    case True
    then show ?thesis by simp
  next
    case False
    then have "factorial (int (Suc n)) = int (Suc n) * factorial (int n)"
      by (subst factorial.simps) simp
    with Suc show ?thesis by (simp add: algebra_simps)
  qed
qed

lemma factorial_pos: "0 < factorial n"
proof (cases "n \<le> 1")
  case True
  then show ?thesis by simp
next
  case False
  then have "factorial n = int (fact (nat n))"
    using factorial_int [of "nat n"] by simp
  then show ?thesis by simp
qed

section \<open>toSuperscript on a number that is not negative\<close>

text \<open>The superscript of a digit, by the digit's value.\<close>

definition superscripts :: "code_unit list" where
  "superscripts = [8304, 185, 178, 179, 8308, 8309, 8310, 8311, 8312, 8313]"

definition is_superscript :: "code_unit \<Rightarrow> bool" where
  "is_superscript c \<longleftrightarrow> c \<in> set superscripts"

lemma sup_or_self_digit:
  assumes "is_digit c"
  shows "sup_or_self [c] = [superscripts ! (c - 48)]"
proof -
  from assms have "c = 48 \<or> c = 49 \<or> c = 50 \<or> c = 51 \<or> c = 52 \<or> c = 53 \<or> c = 54
      \<or> c = 55 \<or> c = 56 \<or> c = 57"
    unfolding is_digit_def by arith
  then show ?thesis
    by (auto simp: sup_or_self_def sups_def superscripts_def)
qed

lemma concat_sup_or_self_digits:
  "\<forall>c \<in> set cs. is_digit c \<Longrightarrow>
     concat (map sup_or_self (split_units cs)) = map (\<lambda>c. superscripts ! (c - 48)) cs"
  by (induction cs) (simp_all add: split_units_def sup_or_self_digit)

lemma toSuperscript_nonneg:
  "0 \<le> n \<Longrightarrow> toSuperscript n = map (\<lambda>c. superscripts ! (c - 48)) (toString n)"
  unfolding toSuperscript_def
  by (rule concat_sup_or_self_digits) (simp add: toString_digits)

lemma toSuperscript_2 [simp]: "toSuperscript 2 = [178]"
  by (simp add: toSuperscript_nonneg superscripts_def)

lemma toSuperscript_3 [simp]: "toSuperscript 3 = [179]"
  by (simp add: toSuperscript_nonneg superscripts_def)

lemma toSuperscript_is_superscript:
  assumes "0 \<le> n" and "c \<in> set (toSuperscript n)"
  shows "is_superscript c"
proof -
  from assms obtain d where "d \<in> set (toString n)" and c: "c = superscripts ! (d - 48)"
    by (auto simp: toSuperscript_nonneg)
  with assms(1) have "is_digit d" by (simp add: toString_digits)
  then have "d - 48 < length superscripts"
    by (auto simp: is_digit_def superscripts_def)
  with c show ?thesis by (simp add: is_superscript_def)
qed

section \<open>Math.pow on the exponents drawn\<close>

lemma Math_pow_nonneg [simp]: "0 \<le> e \<Longrightarrow> Math_pow b e = jsint (b ^ nat e)"
  by (simp add: Math_pow_def)

section \<open>Outcomes of the shared steps\<close>

lemma set_push_if [simp]:
  "set (push_if b tag options) = (if b then insert tag (set options) else set options)"
  by (simp add: push_if_def)

lemma push_if_Nil_iff [simp]: "push_if b tag options = [] \<longleftrightarrow> \<not> b \<and> options = []"
  by (simp add: push_if_def)

lemma and_random_above_outcome [outcome_intros]:
  "(b \<Longrightarrow> P True) \<Longrightarrow> P False \<Longrightarrow> pred_state P (and_random_above b p)"
  unfolding and_random_above_def by (intro outcome_intros) (case_tac "p < r"; simp)+

lemma pick_option_outcome [outcome_intros]:
  assumes "options \<noteq> []" and "\<And>m. m \<in> set options \<Longrightarrow> P (Some m)"
  shows "pred_state P (pick_option options)"
  unfolding pick_option_def
proof (intro outcome_intros)
  from assms(1) show "0 \<le> int (length options) - 1"
    by (cases options) simp_all
next
  fix k assume "0 \<le> k" "k \<le> int (length options) - 1"
  then have "js_nth options k = Some (options ! nat k)" and "options ! nat k \<in> set options"
    by simp_all
  with assms(2) show "P (js_nth options k)" by simp
qed

end
