(* ===== verification/Question_Spec.thy ===== *)
theory Question_Spec
  imports Math_Generator
begin

text \<open>
  What the generator promises, and the proof that it keeps the promise.

  The specification of the generator is a set of questions for each difficulty and each
  setting of the three toggles: the inductive predicate \<open>allowed\<close>, with one rule per
  template. A template is built from terms, each a text and a value: a plain operand, the
  product of Medium, and the three optional terms (factorial, exponent, fraction), whose
  operands range over the intervals the specification names. The rules say which slot of
  which template an optional term may fill under which toggle.

  The lemmas \<open>genEasy_allowed\<close> to \<open>genUltraTricky_allowed\<close> show, by the outcome rules
  of theory \<open>Random_Source\<close>, that every run of a branch of \<open>generateBODMAS\<close> returns an
  allowed question: one case per path through the branch, each naming the template the
  path produces. The properties of the generated questions (operand ranges, exact
  division, finite and integral answers, the glyphs that can occur) are then properties
  of \<open>allowed\<close>, proved by case analysis on its rules.
\<close>

section \<open>Terms\<close>

definition plain_term :: "int \<Rightarrow> smallterm" where
  "plain_term n = \<lparr>text = toString n, val = jsint n\<rparr>"

definition product_term :: "int \<Rightarrow> int \<Rightarrow> smallterm" where
  "product_term a b =
     \<lparr>text = toString a @ [32, MULTIPLICATION_SIGN, 32] @ toString b, val = jsint (a * b)\<rparr>"

definition fact_term :: "int \<Rightarrow> smallterm" where
  "fact_term n = \<lparr>text = toString n @ ascii ''!'', val = jsint (factorial n)\<rparr>"

definition exp_term :: "int \<Rightarrow> int \<Rightarrow> smallterm" where
  "exp_term b e = \<lparr>text = toString b @ toSuperscript e, val = Math_pow b e\<rparr>"

definition frac_term :: "int \<Rightarrow> int \<Rightarrow> smallterm" where
  "frac_term n d = \<lparr>text = toString n @ ascii ''/'' @ toString d, val = jsint n / jsint d\<rparr>"

definition is_plain_term :: "int \<Rightarrow> int \<Rightarrow> smallterm \<Rightarrow> bool" where
  "is_plain_term lo hi t \<longleftrightarrow> (\<exists>n \<in> {lo..hi}. t = plain_term n)"

definition is_product_term :: "smallterm \<Rightarrow> bool" where
  "is_product_term t \<longleftrightarrow> (\<exists>a \<in> {2..10}. \<exists>b \<in> {2..10}. t = product_term a b)"

definition is_fact_term :: "smallterm \<Rightarrow> bool" where
  "is_fact_term t \<longleftrightarrow> (\<exists>n \<in> {2..5}. t = fact_term n)"

definition is_exp_term :: "smallterm \<Rightarrow> bool" where
  "is_exp_term t \<longleftrightarrow> (\<exists>b \<in> {2..5}. \<exists>e \<in> {2..3}. t = exp_term b e)"

definition is_frac_term :: "smallterm \<Rightarrow> bool" where
  "is_frac_term t \<longleftrightarrow> (\<exists>d \<in> {2, 4, 5, 10}. \<exists>n \<in> {1..d - 1}. t = frac_term n d)"

definition medium_left :: "bool \<Rightarrow> bool \<Rightarrow> smallterm \<Rightarrow> bool" where
  "medium_left ue ufr L \<longleftrightarrow>
     is_product_term L \<or> (ue \<and> is_exp_term L) \<or> (ufr \<and> is_frac_term L)"

definition tricky_slots :: "bool \<Rightarrow> bool \<Rightarrow> bool \<Rightarrow> smallterm \<Rightarrow> smallterm \<Rightarrow> bool" where
  "tricky_slots uf ue ufr C D \<longleftrightarrow>
     (\<not> uf \<and> \<not> ue \<and> \<not> ufr \<and> is_plain_term 2 5 C \<and> is_plain_term 5 15 D) \<or>
     (ue \<and> is_exp_term C \<and> is_plain_term 5 15 D) \<or>
     (uf \<and> is_plain_term 2 5 C \<and> is_fact_term D) \<or>
     (ufr \<and> is_frac_term C \<and> is_plain_term 5 15 D)"

definition ultra_first :: "bool \<Rightarrow> bool \<Rightarrow> smallterm \<Rightarrow> bool" where
  "ultra_first ue ufr X \<longleftrightarrow>
     is_plain_term 1 4 X \<or> (ue \<and> is_exp_term X) \<or> (ufr \<and> is_frac_term X)"

definition ultra_main :: "int \<Rightarrow> int \<Rightarrow> smallterm \<Rightarrow> int \<Rightarrow> smallterm" where
  "ultra_main m f X i2 =
     \<lparr>text = toString (m * f) @ [32, DIVISION_SIGN, 32] @ toString m @ ascii ''(''
         @ text X @ ascii '' + '' @ toString i2 @ ascii '')'',
      val = jsint f * (val X + jsint i2)\<rparr>"

inductive allowed :: "Difficulty \<Rightarrow> bool \<Rightarrow> bool \<Rightarrow> bool \<Rightarrow> generated \<Rightarrow> bool" where
  easy:
    "\<lbrakk>a \<in> {5..20}; b \<in> {5..20}; c \<in> {1..10}\<rbrakk> \<Longrightarrow>
     allowed EASY uf ue ufr
       \<lparr>question = toString a @ ascii '' + '' @ toString b @ ascii '' - '' @ toString c,
        answer = jsint (a + b - c)\<rparr>"
| medium:
    "\<lbrakk>medium_left ue ufr L; c \<in> {1..20}\<rbrakk> \<Longrightarrow>
     allowed MEDIUM uf ue ufr
       \<lparr>question = text L @ ascii '' + '' @ toString c, answer = val L + jsint c\<rparr>"
| tricky:
    "\<lbrakk>b \<in> {2..6}; k \<in> {4..10}; tricky_slots uf ue ufr C D\<rbrakk> \<Longrightarrow>
     allowed TRICKY uf ue ufr
       \<lparr>question = toString (b * k) @ [32, DIVISION_SIGN, 32] @ toString b
          @ [32, MULTIPLICATION_SIGN, 32] @ text C @ ascii '' + '' @ text D,
        answer = jsint k * val C + val D\<rparr>"
| ultra:
    "\<lbrakk>m \<in> {2..6}; f \<in> {2..4}; ultra_first ue ufr X; i2 \<in> {1..4}\<rbrakk> \<Longrightarrow>
     allowed ULTRA_TRICKY uf ue ufr
       \<lparr>question = text (ultra_main m f X i2), answer = val (ultra_main m f X i2)\<rparr>"
| ultra_fact:
    "\<lbrakk>uf; is_fact_term F; m \<in> {2..6}; f \<in> {2..4}; ultra_first ue ufr X; i2 \<in> {1..4}\<rbrakk> \<Longrightarrow>
     allowed ULTRA_TRICKY uf ue ufr
       \<lparr>question = text F @ ascii '' + '' @ text (ultra_main m f X i2),
        answer = val F + val (ultra_main m f X i2)\<rparr>"

section \<open>The term generators produce their terms\<close>

lemma term_simps [simp]:
  "text (plain_term n) = toString n" "val (plain_term n) = jsint n"
  "text (product_term a b) = toString a @ [32, MULTIPLICATION_SIGN, 32] @ toString b"
  "val (product_term a b) = jsint (a * b)"
  "text (fact_term n) = toString n @ ascii ''!''" "val (fact_term n) = jsint (factorial n)"
  "text (exp_term b e) = toString b @ toSuperscript e" "val (exp_term b e) = Math_pow b e"
  "text (frac_term n d) = toString n @ ascii ''/'' @ toString d"
  "val (frac_term n d) = jsint n / jsint d"
  by (simp_all add: plain_term_def product_term_def fact_term_def exp_term_def frac_term_def)

lemma is_plain_termI: "lo \<le> n \<Longrightarrow> n \<le> hi \<Longrightarrow> is_plain_term lo hi (plain_term n)"
  by (auto simp: is_plain_term_def)

lemma is_product_termI:
  "2 \<le> a \<Longrightarrow> a \<le> 10 \<Longrightarrow> 2 \<le> b \<Longrightarrow> b \<le> 10 \<Longrightarrow> is_product_term (product_term a b)"
  unfolding is_product_term_def by (intro bexI [of _ a] bexI [of _ b]) simp_all

lemma is_fact_termI: "2 \<le> n \<Longrightarrow> n \<le> 5 \<Longrightarrow> is_fact_term (fact_term n)"
  by (auto simp: is_fact_term_def)

lemma is_exp_termI:
  "2 \<le> b \<Longrightarrow> b \<le> 5 \<Longrightarrow> 2 \<le> e \<Longrightarrow> e \<le> 3 \<Longrightarrow> is_exp_term (exp_term b e)"
  unfolding is_exp_term_def by (intro bexI [of _ b] bexI [of _ e]) simp_all

lemma is_frac_termI:
  "d \<in> {2, 4, 5, 10} \<Longrightarrow> 1 \<le> n \<Longrightarrow> n \<le> d - 1 \<Longrightarrow> is_frac_term (frac_term n d)"
  unfolding is_frac_term_def by (intro bexI [of _ d] bexI [of _ n]) simp_all

text \<open>Elimination: a term of a kind is the kind's constructor at operands of its ranges.\<close>

lemma is_plain_termE:
  assumes "is_plain_term lo hi t"
  obtains n where "lo \<le> n" "n \<le> hi" "t = plain_term n"
  using assms unfolding is_plain_term_def by auto

lemma is_product_termE:
  assumes "is_product_term t"
  obtains a b where "a \<in> {2..10}" "b \<in> {2..10}" "t = product_term a b"
  using assms unfolding is_product_term_def by blast

lemma is_fact_termE:
  assumes "is_fact_term t"
  obtains n where "n \<in> {2..5}" "t = fact_term n"
  using assms unfolding is_fact_term_def by blast

lemma is_exp_termE:
  assumes "is_exp_term t"
  obtains b e where "b \<in> {2..5}" "e \<in> {2..3}" "t = exp_term b e"
  using assms unfolding is_exp_term_def by blast

lemma is_frac_termE:
  assumes "is_frac_term t"
  obtains n d where "d \<in> {2, 4, 5, 10}" "n \<in> {1..d - 1}" "t = frac_term n d"
  using assms unfolding is_frac_term_def by blast

lemma getSmallFact_outcome [outcome_intros]:
  assumes "\<And>t. is_fact_term t \<Longrightarrow> P t"
  shows "pred_state P getSmallFact"
  unfolding getSmallFact_def fact_term_def [symmetric]
  by (intro outcome_intros assms is_fact_termI) simp_all

lemma getSmallExp_outcome [outcome_intros]:
  assumes "\<And>t. is_exp_term t \<Longrightarrow> P t"
  shows "pred_state P getSmallExp"
  unfolding getSmallExp_def exp_term_def [symmetric]
  by (intro outcome_intros assms is_exp_termI) simp_all

lemma denominators_index:
  assumes "0 \<le> i" "i \<le> 3"
  shows "\<exists>d \<in> {2, 4, 5, 10}. js_nth denominators i = Some d"
proof -
  from assms have "i = 0 \<or> i = 1 \<or> i = 2 \<or> i = 3" by arith
  then show ?thesis by (auto simp: denominators_def js_nth_def)
qed

lemma getSmallFrac_outcome [outcome_intros]:
  assumes "\<And>t. is_frac_term t \<Longrightarrow> P t"
  shows "pred_state P getSmallFrac"
  unfolding getSmallFrac_def frac_term_def [symmetric]
proof (intro outcome_intros)
  show "0 \<le> int (length denominators) - 1" by (simp add: denominators_def)
next
  fix k r assume "0 \<le> k" "k \<le> int (length denominators) - 1" "js_nth denominators k = None"
  then show "P \<lparr>text = ascii ''NaN/undefined'', val = NotFinite\<rparr>"
    using denominators_index [of k] by (auto simp: denominators_def)
next
  fix k y assume k: "0 \<le> k" "k \<le> int (length denominators) - 1" "js_nth denominators k = Some y"
  then have y: "y \<in> {2, 4, 5, 10}"
    using denominators_index [of k] by (auto simp: denominators_def)
  then show "1 \<le> y - 1" by auto
  fix n assume "1 \<le> n" "n \<le> y - 1"
  with y show "P (frac_term n y)"
    by (intro assms is_frac_termI)
qed

section \<open>Every branch returns an allowed question\<close>

lemma genEasy_allowed: "pred_state (allowed EASY uf ue ufr) genEasy"
  unfolding genEasy_def
  by (intro outcome_intros allowed.easy) simp_all

lemma allowed_mediumI:
  assumes "medium_left ue ufr L" and "1 \<le> c" and "c \<le> 20"
    and "q = text L @ ascii '' + '' @ toString c" and "v = val L + jsint c"
  shows "allowed MEDIUM uf ue ufr \<lparr>question = q, answer = v\<rparr>"
  using allowed.medium [of ue ufr L c uf] assms by simp

lemma genMedium_allowed: "pred_state (allowed MEDIUM uf ue ufr) (genMedium ue ufr)"
  unfolding genMedium_def Let_def
  apply (intro outcome_intros; (simp; fail)?)
  subgoal for a b c m t
    by (rule allowed_mediumI [of _ _ t]) (auto simp: medium_left_def split: if_splits)
  subgoal for a b c m t
    by (rule allowed_mediumI [of _ _ t]) (auto simp: medium_left_def split: if_splits)
  subgoal for a b c
    by (rule allowed_mediumI [of _ _ "product_term a b"])
      (auto simp: medium_left_def is_product_termI)
  done

lemma allowed_trickyI:
  assumes "tricky_slots uf ue ufr C D" and "2 \<le> b" "b \<le> 6" "4 \<le> k" "k \<le> 10"
    and "q = toString (b * k) @ [32, DIVISION_SIGN, 32] @ toString b
          @ [32, MULTIPLICATION_SIGN, 32] @ text C @ ascii '' + '' @ text D"
    and "v = jsint (b * k) / jsint b * val C + val D"
  shows "allowed TRICKY uf ue ufr \<lparr>question = q, answer = v\<rparr>"
  using allowed.tricky [of b k uf ue ufr C D] assms by simp

lemma genTricky_allowed: "pred_state (allowed TRICKY uf ue ufr) (genTricky uf ue ufr)"
  unfolding genTricky_def Let_def
  apply (intro outcome_intros; (simp; fail)?)
  subgoal for b k c d m t
    by (rule allowed_trickyI [of _ _ _ t "plain_term d"])
      (auto simp: tricky_slots_def is_plain_termI split: if_splits)
  subgoal for b k c d m t
    by (rule allowed_trickyI [of _ _ _ "plain_term c" t])
      (auto simp: tricky_slots_def is_plain_termI split: if_splits)
  subgoal for b k c d m t
    by (rule allowed_trickyI [of _ _ _ t "plain_term d"])
      (auto simp: tricky_slots_def is_plain_termI split: if_splits)
  subgoal for b k c d m
    by (auto split: if_splits)
  subgoal for b k c d
    by (rule allowed_trickyI [of _ _ _ "plain_term c" "plain_term d"])
      (auto simp: tricky_slots_def is_plain_termI)
  done

lemma allowed_ultraI:
  assumes "ultra_first ue ufr X" and "2 \<le> m" "m \<le> 6" "2 \<le> f" "f \<le> 4" "1 \<le> i2" "i2 \<le> 4"
    and "q = text (ultra_main m f X i2)" and "v = val (ultra_main m f X i2)"
  shows "allowed ULTRA_TRICKY uf ue ufr \<lparr>question = q, answer = v\<rparr>"
  using allowed.ultra [of m f ue ufr X i2 uf] assms by simp

lemma allowed_ultra_factI:
  assumes "uf" and "is_fact_term F"
    and "ultra_first ue ufr X" and "2 \<le> m" "m \<le> 6" "2 \<le> f" "f \<le> 4" "1 \<le> i2" "i2 \<le> 4"
    and "q = text F @ ascii '' + '' @ text (ultra_main m f X i2)"
    and "v = val F + val (ultra_main m f X i2)"
  shows "allowed ULTRA_TRICKY uf ue ufr \<lparr>question = q, answer = v\<rparr>"
  using allowed.ultra_fact [of uf F m f ue ufr X i2] assms by simp

lemma ultra_main_simps [simp]:
  "text (ultra_main m f X i2) =
     toString (m * f) @ [32, DIVISION_SIGN, 32] @ toString m @ ascii ''(''
       @ text X @ ascii '' + '' @ toString i2 @ ascii '')''"
  "val (ultra_main m f X i2) = jsint f * (val X + jsint i2)"
  by (simp_all add: ultra_main_def)

lemma genUltraTricky_allowed:
  "pred_state (allowed ULTRA_TRICKY uf ue ufr) (genUltraTricky uf ue ufr)"
  unfolding genUltraTricky_def Let_def
  apply (intro outcome_intros; (simp; fail)?)
  subgoal for m f i1 i2 mode X F
    by (rule allowed_ultra_factI [of _ F _ _ X m f i2])
      (auto simp: ultra_first_def split: if_splits)
  subgoal for m f i1 i2 mode X
    by (rule allowed_ultraI [of _ _ X m f i2])
      (auto simp: ultra_first_def split: if_splits)
  subgoal for m f i1 i2 mode X F
    by (rule allowed_ultra_factI [of _ F _ _ X m f i2])
      (auto simp: ultra_first_def split: if_splits)
  subgoal for m f i1 i2 mode X
    by (rule allowed_ultraI [of _ _ X m f i2])
      (auto simp: ultra_first_def split: if_splits)
  subgoal for m f i1 i2 F
    by (rule allowed_ultra_factI [of _ F _ _ "plain_term i1" m f i2])
      (auto simp: ultra_first_def is_plain_termI)
  subgoal for m f i1 i2
    by (rule allowed_ultraI [of _ _ "plain_term i1" m f i2])
      (auto simp: ultra_first_def is_plain_termI)
  done

lemma generateBODMAS_outcome: "pred_state (allowed d uf ue ufr) (generateBODMAS d uf ue ufr)"
  by (cases d)
    (simp_all add: generateBODMAS_def genEasy_allowed genMedium_allowed genTricky_allowed
      genUltraTricky_allowed)

lemmas generateBODMAS_sound = outcome [OF generateBODMAS_outcome]

section \<open>Refinement\<close>

text \<open>
  C1 (refinement). Whatever the difficulty, the toggles and the state of the random source,
  the question that \<open>generateBODMAS\<close> returns is one the specification allows: it is an
  instance of the difficulty's template, with operands in their ranges and optional terms
  only in the slots and under the toggles the specification gives them.
\<close>

theorem generateBODMAS_allowed:
  "allowed d uf ue ufr (fst (run_state (generateBODMAS d uf ue ufr) s))"
  by (rule outcome) (rule generateBODMAS_outcome)

end
