(* ===== verification/Question_Properties.thy ===== *)
theory Question_Properties
  imports Question_Spec
begin

text \<open>
  Consequences of the specification \<open>allowed\<close> for every generated question, and with the
  refinement lemma of theory \<open>Question_Spec\<close> for every run of \<open>generateBODMAS\<close>: the code
  units a question is written with and the toggles that admit them, the interval and the
  integrality of the values of the terms and of the answer.
\<close>

section \<open>The alphabet of a question\<close>

definition operator_units :: "code_unit set" where
  "operator_units = {32, 43, 45, MULTIPLICATION_SIGN, DIVISION_SIGN, 40, 41}"

definition in_alphabet :: "bool \<Rightarrow> bool \<Rightarrow> bool \<Rightarrow> code_unit \<Rightarrow> bool" where
  "in_alphabet uf ue ufr c \<longleftrightarrow>
     is_digit c \<or> c \<in> operator_units \<or> uf \<and> c = 33 \<or> ue \<and> is_superscript c \<or> ufr \<and> c = 47"

definition units_ok :: "bool \<Rightarrow> bool \<Rightarrow> bool \<Rightarrow> jsstring \<Rightarrow> bool" where
  "units_ok uf ue ufr q = list_all (in_alphabet uf ue ufr) q"

text \<open>
  The interval of the answer of each difficulty when no toggle is set: \<open>a + b - c\<close>,
  \<open>a \<times> b + c\<close>, \<open>k \<times> c + d\<close> and \<open>factor \<times> (inside1 + inside2)\<close> over the operand ranges.
\<close>

fun plain_range :: "Difficulty \<Rightarrow> rat \<times> rat" where
  "plain_range EASY = (0, 39)"
| "plain_range MEDIUM = (5, 120)"
| "plain_range TRICKY = (13, 65)"
| "plain_range ULTRA_TRICKY = (4, 32)"

lemma units_ok_append [simp]:
  "units_ok uf ue ufr (xs @ ys) \<longleftrightarrow> units_ok uf ue ufr xs \<and> units_ok uf ue ufr ys"
  by (simp add: units_ok_def)

lemma units_ok_Nil [simp]: "units_ok uf ue ufr []"
  by (simp add: units_ok_def)

lemma units_ok_Cons [simp]:
  "units_ok uf ue ufr (c # cs) \<longleftrightarrow> in_alphabet uf ue ufr c \<and> units_ok uf ue ufr cs"
  by (simp add: units_ok_def)

lemma in_alphabet_operator [simp]:
  "in_alphabet uf ue ufr 32" "in_alphabet uf ue ufr 43" "in_alphabet uf ue ufr 45"
  "in_alphabet uf ue ufr MULTIPLICATION_SIGN" "in_alphabet uf ue ufr DIVISION_SIGN"
  "in_alphabet uf ue ufr 40" "in_alphabet uf ue ufr 41"
  by (simp_all add: in_alphabet_def operator_units_def)

lemma in_alphabet_optional [simp]:
  "in_alphabet True ue ufr 33" "in_alphabet uf ue True 47"
  by (simp_all add: in_alphabet_def)

lemma units_ok_toString [simp]: "0 \<le> n \<Longrightarrow> units_ok uf ue ufr (toString n)"
  by (auto simp: units_ok_def list_all_iff in_alphabet_def dest: toString_digits)

lemma units_ok_toSuperscript [simp]: "0 \<le> n \<Longrightarrow> units_ok uf True ufr (toSuperscript n)"
  by (auto simp: units_ok_def list_all_iff in_alphabet_def dest: toSuperscript_is_superscript)

lemma units_ok_plain: "is_plain_term lo hi t \<Longrightarrow> 0 \<le> lo \<Longrightarrow> units_ok uf ue ufr (text t)"
  by (auto simp: is_plain_term_def)

lemma units_ok_product: "is_product_term t \<Longrightarrow> units_ok uf ue ufr (text t)"
  by (auto simp: is_product_term_def)

lemma units_ok_fact: "is_fact_term t \<Longrightarrow> units_ok True ue ufr (text t)"
  by (auto simp: is_fact_term_def)

lemma units_ok_exp: "is_exp_term t \<Longrightarrow> units_ok uf True ufr (text t)"
  by (auto simp: is_exp_term_def)

lemma units_ok_frac:
  assumes "is_frac_term t"
  shows "units_ok uf ue True (text t)"
proof -
  from assms obtain n d where "d \<in> {2, 4, 5, 10}" "n \<in> {1..d - 1}" "t = frac_term n d"
    by (rule is_frac_termE)
  moreover from this have "0 \<le> d" "0 \<le> n" by auto
  ultimately show ?thesis by simp
qed

lemmas units_ok_terms = units_ok_plain units_ok_product units_ok_fact units_ok_exp units_ok_frac

lemma units_ok_medium_left: "medium_left ue ufr L \<Longrightarrow> units_ok uf ue ufr (text L)"
  by (auto simp: medium_left_def intro: units_ok_terms)

lemma units_ok_tricky_slots:
  "tricky_slots uf ue ufr C D \<Longrightarrow> units_ok uf ue ufr (text C) \<and> units_ok uf ue ufr (text D)"
  by (auto simp: tricky_slots_def intro: units_ok_terms)

lemma units_ok_ultra_first: "ultra_first ue ufr X \<Longrightarrow> units_ok uf ue ufr (text X)"
  by (auto simp: ultra_first_def intro: units_ok_terms)

lemma allowed_units_ok:
  assumes "allowed d uf ue ufr g"
  shows "units_ok uf ue ufr (question g)"
  using assms
  by cases (auto simp: units_ok_medium_left units_ok_tricky_slots units_ok_ultra_first
      intro: units_ok_fact)

section \<open>The values of the terms\<close>

lemma val_plain: "is_plain_term lo hi t \<Longrightarrow> between (of_int lo) (of_int hi) (val t)"
  by (erule is_plain_termE) simp

lemma val_product:
  assumes "is_product_term t"
  shows "between 4 100 (val t)" and "is_integer (val t)"
proof -
  from assms obtain a b where ab: "a \<in> {2..10}" "b \<in> {2..10}" and t: "t = product_term a b"
    by (rule is_product_termE)
  then have "2 * 2 \<le> a * b \<and> a * b \<le> 10 * 10"
    by (intro mult_between) auto
  then have "(4::rat) \<le> of_int (a * b)" "of_int (a * b) \<le> (100::rat)"
    by linarith+
  with t show "between 4 100 (val t)" by (simp del: of_int_mult)
  from t show "is_integer (val t)" by simp
qed

lemma val_fact:
  assumes "is_fact_term t"
  shows "between 2 120 (val t)" and "is_integer (val t)"
proof -
  from assms obtain n where "n \<in> {2..5}" and t: "t = fact_term n"
    by (rule is_fact_termE)
  then have "n = 2 \<or> n = 3 \<or> n = 4 \<or> n = 5" by auto
  with t show "between 2 120 (val t)" by auto
  from t show "is_integer (val t)" by simp
qed

lemma val_exp:
  assumes "is_exp_term t"
  shows "between 4 125 (val t)" and "is_integer (val t)"
proof -
  from assms obtain b e where be: "b \<in> {2..5}" "e \<in> {2..3}" and t: "t = exp_term b e"
    by (rule is_exp_termE)
  then have "(b = 2 \<or> b = 3 \<or> b = 4 \<or> b = 5) \<and> (e = 2 \<or> e = 3)" by auto
  with t show "between 4 125 (val t)" by auto
  from be t show "is_integer (val t)" by simp
qed

lemma val_frac:
  assumes "is_frac_term t"
  shows "between 0 1 (val t)"
proof -
  from assms obtain n d where "d \<in> {2, 4, 5, 10}" "n \<in> {1..d - 1}" and t: "t = frac_term n d"
    by (rule is_frac_termE)
  then have "0 < d" "0 \<le> n" "n \<le> d" by auto
  with t show ?thesis by (simp add: jsint_divide)
qed

lemma val_plain_integer: "is_plain_term lo hi t \<Longrightarrow> is_integer (val t)"
  by (erule is_plain_termE) simp

lemmas val_integer = val_plain_integer val_product(2) val_fact(2) val_exp(2)

section \<open>The answer of an allowed question\<close>

lemma between_sum:
  assumes "between a b x" and "between c d y" and "lo \<le> a + c" and "b + d \<le> hi"
  shows "between lo hi (x + y)"
  using between_plus [OF assms(1,2)] assms(3,4) by (rule between_weaken)

lemma between_scaled:
  assumes "k \<in> {lo..hi}" and "between c d y" and "0 \<le> lo" and "0 \<le> c"
  shows "between (of_int lo * c) (of_int hi * d) (jsint k * y)"
  using assms by (intro between_times) simp_all

lemmas val_within =
  between_weaken [OF val_plain] between_weaken [OF val_product(1)]
  between_weaken [OF val_fact(1)] between_weaken [OF val_exp(1)] between_weaken [OF val_frac]

lemma medium_left_val: "medium_left ue ufr L \<Longrightarrow> between 0 125 (val L)"
  unfolding medium_left_def by (auto intro: val_within)

lemma ultra_first_val: "ultra_first ue ufr X \<Longrightarrow> between 0 125 (val X)"
  unfolding ultra_first_def by (auto intro: val_within)

lemma tricky_slots_val:
  assumes "tricky_slots uf ue ufr C D"
  shows "between 0 125 (val C) \<and> between 5 15 (val D) \<or> between 2 5 (val C) \<and> between 2 120 (val D)"
proof -
  from assms consider "is_plain_term 2 5 C" "is_plain_term 5 15 D"
    | "is_exp_term C" "is_plain_term 5 15 D" | "is_plain_term 2 5 C" "is_fact_term D"
    | "is_frac_term C" "is_plain_term 5 15 D"
    unfolding tricky_slots_def by blast
  then show ?thesis
    by cases (auto intro: val_within)
qed

lemma ultra_main_val:
  assumes "f \<in> {2..4}" and "ultra_first ue ufr X" and "i2 \<in> {1..4}"
  shows "between 2 516 (val (ultra_main m f X i2))"
proof -
  from assms have "between 1 129 (val X + jsint i2)"
    by (intro between_sum [OF ultra_first_val, of ue ufr X 1 4]) auto
  with assms(1) have "between (of_int 2 * 1) (of_int 4 * 129) (jsint f * (val X + jsint i2))"
    by (intro between_scaled) auto
  then show ?thesis by simp
qed

lemma allowed_between:
  assumes "allowed d uf ue ufr g"
  shows "between 0 1265 (answer g)"
  using assms
proof cases
  case (easy a b c)
  then show ?thesis by auto
next
  case (medium L c)
  then show ?thesis
    by (auto intro!: between_sum [OF medium_left_val, of ue ufr L 1 20])
next
  case (tricky b k C D)
  then have k: "k \<in> {4..10}" and g: "answer g = jsint k * val C + val D"
    by simp_all
  from tricky have "between 0 125 (val C) \<and> between 5 15 (val D)
      \<or> between 2 5 (val C) \<and> between 2 120 (val D)"
    by (intro tricky_slots_val)
  then show ?thesis
  proof (elim disjE conjE)
    assume C: "between 0 125 (val C)" and D: "between 5 15 (val D)"
    from k C have "between (of_int 4 * 0) (of_int 10 * 125) (jsint k * val C)"
      by (intro between_scaled) auto
    from between_sum [OF this D] g show ?thesis by simp
  next
    assume C: "between 2 5 (val C)" and D: "between 2 120 (val D)"
    from k C have "between (of_int 4 * 2) (of_int 10 * 5) (jsint k * val C)"
      by (intro between_scaled) auto
    from between_sum [OF this D] g show ?thesis by simp
  qed
next
  case (ultra m f X i2)
  with ultra_main_val [of f ue ufr X i2 m] show ?thesis
    by (auto elim: between_weaken)
next
  case (ultra_fact F m f X i2)
  with between_sum [OF val_fact(1) ultra_main_val, of F f ue ufr X i2 0 1265 m]
  show ?thesis by simp
qed

lemma medium_left_integer: "medium_left ue False L \<Longrightarrow> is_integer (val L)"
  by (auto simp: medium_left_def val_integer)

lemma tricky_slots_integer:
  "tricky_slots uf ue False C D \<Longrightarrow> is_integer (val C) \<and> is_integer (val D)"
  by (auto simp: tricky_slots_def val_integer)

lemma ultra_first_integer: "ultra_first ue False X \<Longrightarrow> is_integer (val X)"
  by (auto simp: ultra_first_def val_integer)

lemma allowed_integer:
  assumes "allowed d uf ue False g"
  shows "is_integer (answer g)"
  using assms
  by cases (auto simp: medium_left_integer ultra_first_integer val_integer
      dest: tricky_slots_integer)

lemma allowed_plain_between:
  assumes "allowed d False False False g"
  shows "between (fst (plain_range d)) (snd (plain_range d)) (answer g)"
  using assms
proof cases
  case (easy a b c)
  then show ?thesis by auto
next
  case (medium L c)
  then have "between 4 100 (val L)" by (auto simp: medium_left_def val_product)
  from between_sum [OF this, of 1 20 "jsint c" 5 120] medium show ?thesis by auto
next
  case (tricky b k C D)
  then have C: "between 2 5 (val C)" and D: "between 5 15 (val D)"
    using val_plain [of 2 5 C] val_plain [of 5 15 D] by (auto simp: tricky_slots_def)
  from tricky C have "between (of_int 4 * 2) (of_int 10 * 5) (jsint k * val C)"
    by (intro between_scaled) auto
  from between_sum [OF this D] tricky show ?thesis by simp
next
  case (ultra m f X i2)
  then have "between 1 4 (val X)"
    using val_plain [of 1 4 X] by (auto simp: ultra_first_def)
  from between_sum [OF this, of 1 4 "jsint i2" 2 8] ultra have "between 2 8 (val X + jsint i2)"
    by auto
  with ultra have "between (of_int 2 * 2) (of_int 4 * 8) (jsint f * (val X + jsint i2))"
    by (intro between_scaled) auto
  with ultra show ?thesis by simp
next
  case (ultra_fact F m f X i2)
  then show ?thesis by simp
qed


lemma units_ok_mem: "units_ok uf ue ufr q \<Longrightarrow> c \<in> set q \<Longrightarrow> in_alphabet uf ue ufr c"
  by (simp add: units_ok_def list_all_iff)

lemma units_ok_inert:
  "units_ok False ue ufr q \<Longrightarrow> 33 \<notin> set q"
  "units_ok uf False ufr q \<Longrightarrow> \<not> list_ex is_superscript q"
  "units_ok uf ue False q \<Longrightarrow> 47 \<notin> set q"
  by (auto simp: list_ex_iff in_alphabet_def operator_units_def is_digit_def is_superscript_def
      superscripts_def dest!: units_ok_mem)

section \<open>Properties of every run of the generator\<close>

text \<open>
  C4 (safety). The answer of every generated question is a finite number, for every
  difficulty, every setting of the toggles and every state of the random source: no
  division by zero and no undefined operand occurs on any path of \<open>generateBODMAS\<close>.
\<close>

theorem answer_is_finite:
  "is_finite (answer (fst (run_state (generateBODMAS d uf ue ufr) s)))"
  by (rule between_finite, rule allowed_between, rule generateBODMAS_sound)

text \<open>
  C17 (bounds). The answer of every generated question lies between 0 and 1265. Both ends
  are taken: 0 by Easy at \<open>5 + 5 - 10\<close>, 1265 by Tricky at \<open>k = 10\<close> with the exponent
  term \<open>5\<^sup>3\<close> and \<open>d = 15\<close>.
\<close>

theorem answer_within_bounds:
  "between 0 1265 (answer (fst (run_state (generateBODMAS d uf ue ufr) s)))"
  by (rule allowed_between, rule generateBODMAS_sound)

text \<open>
  C6 (type). When the fraction toggle is off the answer is an integer, whatever the
  other two toggles: the division of every template is exact and factorials and powers
  of integers are integers.
\<close>

theorem answer_is_integer_without_fractions:
  "is_integer (answer (fst (run_state (generateBODMAS d uf ue False) s)))"
  by (rule allowed_integer, rule generateBODMAS_sound)

text \<open>
  C18 (bounds). With all toggles off the answer lies in the interval \<open>plain_range\<close> of
  the difficulty: 0 to 39 for Easy, 5 to 120 for Medium, 13 to 65 for Tricky and 4 to 32
  for Ultra-Tricky.
\<close>

theorem plain_answer_range:
  "between (fst (plain_range d)) (snd (plain_range d))
     (answer (fst (run_state (generateBODMAS d False False False) s)))"
  by (rule allowed_plain_between, rule generateBODMAS_sound)

text \<open>
  C19 (type). Every code unit of a generated question is a decimal digit, a space, one of
  the operator glyphs \<open>+ - \<times> \<div> ( )\<close>, or the mark of an optional term whose toggle is
  set: \<open>!\<close> for factorials, a superscript digit for exponents, \<open>/\<close> for fractions.
\<close>

theorem question_alphabet:
  "units_ok uf ue ufr (question (fst (run_state (generateBODMAS d uf ue ufr) s)))"
  by (rule allowed_units_ok, rule generateBODMAS_sound)

text \<open>
  C5 (safety). A toggle that is off is inert, each on its own: without the factorial toggle
  no question contains \<open>!\<close>, without the exponent toggle none contains a superscript
  digit, without the fraction toggle none contains \<open>/\<close>, whatever the other toggles.
\<close>

theorem toggles_inert:
  "33 \<notin> set (question (fst (run_state (generateBODMAS d False ue ufr) s))) \<and>
   \<not> list_ex is_superscript (question (fst (run_state (generateBODMAS d uf False ufr) s))) \<and>
   47 \<notin> set (question (fst (run_state (generateBODMAS d uf ue False) s)))"
  by (intro conjI units_ok_inert allowed_units_ok; rule generateBODMAS_sound)

end
