(* ===== verification/Gemini_Service.thy ===== *)
theory Gemini_Service
  imports App_State
begin

text \<open>
  The critique service of \<open>src/services/geminiService.ts\<close>. \<open>analyzeVirality\<close> builds a
  prompt from the editor state, sends it, and parses the response as JSON; whatever is
  thrown on the way (by the call or by the parser) is caught and replaced by a fixed
  result. The network and the JSON parser are outside the model: they are the parameter
  \<open>generateContent\<close> of \<open>analyzeVirality\<close>, a function from the prompt to what the \<open>try\<close> block
  met, a value of type \<open>response\<close>.
\<close>

section \<open>The prompt\<close>

definition prompt :: "AppState \<Rightarrow> jsstring" where
  "prompt state =
     [10] @ ascii ''    As an EdTech UI/UX expert, analyze this math challenge post for social media virality.''
     @ [10] @ ascii ''    '' @ [10] @ ascii ''    Post Details:''
     @ [10] @ ascii ''    - Question: '' @ question state
     @ [10] @ ascii ''    - Difficulty: '' @ Difficulty_value (difficulty state)
     @ [10] @ ascii ''    - Platform: '' @ Platform_value (platform state)
     @ [10] @ ascii ''    - Background Style: '' @ BgStyle_value (bgStyle state)
     @ [10] @ ascii ''    - Font Family: '' @ fontFamily state
     @ [10] @ ascii ''    '' @ [10]
     @ ascii ''    Evaluate visual contrast, curiosity gap, and engagement potential.''
     @ [10] @ ascii ''  ''"

section \<open>The result\<close>

text \<open>
  What the \<open>try\<close> block met: the call threw, the response was not JSON (the parser threw),
  or the parser returned an object.
\<close>

datatype response = Threw | Malformed | Parsed ViralityAnalysis

definition fallback :: ViralityAnalysis where
  "fallback =
     \<lparr>score = jsint 75,
      suggestion = ascii ''Try using a higher contrast background color for better readability on small screens.'',
      bestHeadline = ascii ''Only Geniuses Can Solve This! '' @ [55358, 56800]\<rparr>"

type_synonym service = "jsstring \<Rightarrow> response"

definition analyzeVirality :: "service \<Rightarrow> AppState \<Rightarrow> ViralityAnalysis" where
  "analyzeVirality generateContent state =
     (let prompt = prompt state
      in case generateContent prompt of
           Parsed result \<Rightarrow> result
         | Threw \<Rightarrow> fallback
         | Malformed \<Rightarrow> fallback)"

text \<open>The score the specification asks of a critique: a number from 0 to 100.\<close>

definition valid_score :: "ViralityAnalysis \<Rightarrow> bool" where
  "valid_score a = between 0 100 (score a)"

lemma valid_score_fallback [simp]: "valid_score fallback"
  by (simp add: valid_score_def fallback_def)

lemma analyzeVirality_simps:
  "generateContent (prompt state) = Parsed result \<Longrightarrow> analyzeVirality generateContent state = result"
  "generateContent (prompt state) = Threw \<Longrightarrow> analyzeVirality generateContent state = fallback"
  "generateContent (prompt state) = Malformed \<Longrightarrow> analyzeVirality generateContent state = fallback"
  by (simp_all add: analyzeVirality_def)

lemma valid_score_analyzeVirality:
  "valid_score (analyzeVirality generateContent state) \<longleftrightarrow>
     (case generateContent (prompt state) of Parsed a \<Rightarrow> valid_score a | _ \<Rightarrow> True)"
  by (cases "generateContent (prompt state)") (simp_all add: analyzeVirality_simps)

section \<open>Properties\<close>

text \<open>
  C15 (error). A failure of the critique service never reaches the caller: when the call
  throws or its response is not JSON, \<open>analyzeVirality\<close> returns the fixed fallback, whose
  score 75 is a number from 0 to 100.
\<close>

theorem analyzeVirality_fallback:
  assumes "generateContent (prompt state) \<in> {Threw, Malformed}"
  shows "analyzeVirality generateContent state = fallback \<and> valid_score fallback"
  using assms by (auto simp: analyzeVirality_simps)


end
