(* ===== verification/App.thy ===== *)
theory App
  imports Sidebar Question_Properties Gemini_Service
begin

text \<open>
  The root component of \<open>src/App.tsx\<close>: the helper \<open>isDarkColor\<close> (lines 14 to 21), the
  initial editor state (lines 25 to 67), \<open>handleGenerate\<close> with its loop (lines 74 to 81),
  the flags of the two asynchronous handlers (lines 83 to 108) and the two effects (lines
  111 to 137).

  An effect is a function of the state of the render that created it, returning the
  updater it passes to \<open>setState\<close> (the identity when it does not call \<open>setState\<close>). React
  runs an effect after the first render and after every render in which one of its
  dependencies differs from the render before; \<open>commit\<close> applies the updaters of the
  effects that run, in the order of the source, and \<open>settle\<close> repeats renders until no
  dependency has changed.
\<close>

section \<open>isDarkColor\<close>

definition isDarkColor :: "jsstring \<Rightarrow> bool" where
  "isDarkColor color =
     (let hex = remove1 35 color;
          r = parseInt16 (substr 0 2 hex);
          g = parseInt16 (substr 2 2 hex);
          b = parseInt16 (substr 4 2 hex);
          brightness = (r * jsint 299 + g * jsint 587 + b * jsint 114) / jsint 1000
      in js_less brightness (jsint 128))"

section \<open>The initial state\<close>

abbreviation (input) WHITE :: jsstring where
  "WHITE \<equiv> ascii ''#ffffff''"

abbreviation (input) BLACK :: jsstring where
  "BLACK \<equiv> ascii ''#000000''"

definition initialState :: "generated \<Rightarrow> AppState" where
  "initialState initialQuestion =
     \<lparr>question = question initialQuestion,
      answer = answer initialQuestion,
      difficulty = TRICKY,
      platform = SQUARE,
      useFactorials = False,
      useExponents = False,
      useFractions = False,
      fontFamily = family (FONTS ! 0),
      fontSize = 50,
      fontWeight = ascii ''700'',
      letterSpacing = 0,
      lineSpacing = 12 / 10,
      fontColor = BLACK,
      autoColor = True,
      headerEnabled = True,
      headerText = HEADLINES ! 0,
      headerFont = family (FONTS ! 0),
      headerStyle = hs_badge,
      questionBgStyle = cs_none,
      questionPaddingX = 12,
      questionPaddingY = 12,
      questionYOffset = 0,
      questionBorderRadius = 24,
      bgStyle = GRADIENT,
      bgColors = colors (BG_PRESETS GRADIENT),
      customBgColor = ascii ''#4f46e5'',
      foodType = VEG,
      foodVariant = 0,
      logoUrl = None,
      logoPosition = LOGO_BOTTOM_RIGHT,
      showGlow = True,
      showShadow = True,
      showCommentFooter = True,
      showRankBadge = False,
      rankPosition = RANK_TOP_LEFT,
      showWatermark = False,
      watermarkText = ascii ''Maths Mint'',
      watermarkAlign = wa_right,
      watermarkOffset = 5\<rparr>"

definition mount :: "AppState rand" where
  "mount = do {
     initialQuestion \<leftarrow> generateBODMAS TRICKY False False False;
     State_Monad.return (initialState initialQuestion)
   }"

section \<open>The effects\<close>

definition foodBadgeEffect :: "AppState \<Rightarrow> AppState \<Rightarrow> AppState" where
  "foodBadgeEffect state =
     (if bgStyle state = FOOD \<and> questionBgStyle state = cs_none
      then update questionBgStyle_update cs_badge
      else id)"

definition fontColorEffect :: "AppState \<Rightarrow> AppState \<Rightarrow> AppState" where
  "fontColorEffect state =
     (if \<not> autoColor state then id
      else
        let dark =
          (if bgStyle state = CUSTOM then isDarkColor (customBgColor state)
           else if bgStyle state = FOOD then True
           else bgStyle state \<in> set [GRADIENT, CHALKBOARD, NEON, VIBRANT])
        in
          if questionBgStyle state \<noteq> cs_none then
            let isDarkContainer = questionBgStyle state \<in> set [cs_badge, cs_ribbon]
            in update fontColor_update (if isDarkContainer then WHITE else BLACK)
          else update fontColor_update (if dark then WHITE else BLACK))"

text \<open>The dependency lists of the two effects (lines 115 and 137).\<close>

definition foodBadgeDeps :: "AppState \<Rightarrow> BgStyle" where
  "foodBadgeDeps state = bgStyle state"

definition fontColorDeps ::
  "AppState \<Rightarrow> BgStyle \<times> jsstring \<times> bool \<times> FoodType \<times> ContainerStyle" where
  "fontColorDeps state =
     (bgStyle state, customBgColor state, autoColor state, foodType state, questionBgStyle state)"

text \<open>
  One render and its effects: \<open>before\<close> is the state of the render before (\<open>None\<close> for
  the first render), \<open>state\<close> the state rendered.
\<close>

definition changed :: "(AppState \<Rightarrow> 'd) \<Rightarrow> AppState option \<Rightarrow> AppState \<Rightarrow> bool" where
  "changed deps before state = (case before of None \<Rightarrow> True | Some l \<Rightarrow> deps l \<noteq> deps state)"

definition commit :: "AppState option \<Rightarrow> AppState \<Rightarrow> AppState" where
  "commit before state =
     (let badge = (if changed foodBadgeDeps before state then foodBadgeEffect state else id);
          color = (if changed fontColorDeps before state then fontColorEffect state else id)
      in color (badge state))"

text \<open>
  The effects change the container style only from \<open>none\<close> to \<open>badge\<close>; this is what makes
  the repetition of renders end.
\<close>

lemma commit_frame [simp]:
  "bgStyle (commit before state) = bgStyle state"
  "customBgColor (commit before state) = customBgColor state"
  "autoColor (commit before state) = autoColor state"
  "foodType (commit before state) = foodType state"
  by (simp_all add: commit_def foodBadgeEffect_def fontColorEffect_def update_def Let_def)

lemma questionBgStyle_commit:
  "questionBgStyle (commit before state) =
     (if changed foodBadgeDeps before state \<and> bgStyle state = FOOD \<and> questionBgStyle state = cs_none
      then cs_badge else questionBgStyle state)"
  by (simp add: commit_def foodBadgeEffect_def fontColorEffect_def update_def Let_def)

lemma commit_deps_changed:
  assumes "fontColorDeps (commit before state) \<noteq> fontColorDeps state"
  shows "bgStyle state = FOOD" and "questionBgStyle state = cs_none"
    and "questionBgStyle (commit before state) = cs_badge"
  using assms by (auto simp: fontColorDeps_def questionBgStyle_commit split: if_splits)

text \<open>
  Renders and effects until a render changes no dependency. After a render the next one
  runs an effect only if a dependency differs, and both dependency lists are part of
  \<open>fontColorDeps\<close>.
\<close>

function settle :: "AppState option \<Rightarrow> AppState \<Rightarrow> AppState" where
  "settle before state =
     (let next = commit before state
      in if fontColorDeps next = fontColorDeps state then next else settle (Some state) next)"
  by pat_completeness auto
termination
  by (relation "measure (\<lambda>(before, state). if questionBgStyle state = cs_none then 1 else 0)")
    (auto dest: commit_deps_changed)

declare settle.simps [simp del]

lemma commit_unchanged:
  "fontColorDeps before = fontColorDeps state \<Longrightarrow> commit (Some before) state = state"
  by (simp add: commit_def changed_def fontColorDeps_def foodBadgeDeps_def)

lemma settle_two_commits:
  "settle before state =
     (let next = commit before state
      in if fontColorDeps next = fontColorDeps state then next else commit (Some state) next)"
proof (cases "fontColorDeps (commit before state) = fontColorDeps state")
  case True
  then show ?thesis by (simp add: settle.simps Let_def)
next
  case False
  let ?next = "commit before state"
  from False have "questionBgStyle ?next = cs_badge"
    by (rule commit_deps_changed)
  then have "fontColorDeps (commit (Some state) ?next) = fontColorDeps ?next"
    by (simp add: fontColorDeps_def questionBgStyle_commit)
  then have "settle (Some state) ?next = commit (Some state) ?next"
    by (subst settle.simps) (simp add: Let_def)
  with False show ?thesis
    by (subst settle.simps) (simp add: Let_def)
qed


section \<open>What the font colour effect computes\<close>

text \<open>
  The colour that contrasts with what is behind the question: white on the dark
  containers (badge and ribbon), black on the light ones (glass and minimal), and without
  a container white on a dark background, black on a light one.
\<close>

definition darkBackground :: "AppState \<Rightarrow> bool" where
  "darkBackground st =
     (if bgStyle st = CUSTOM then isDarkColor (customBgColor st)
      else bgStyle st \<in> {FOOD, GRADIENT, CHALKBOARD, NEON, VIBRANT})"

definition contrast :: "AppState \<Rightarrow> jsstring" where
  "contrast st =
     (if questionBgStyle st \<in> {cs_badge, cs_ribbon} then WHITE
      else if questionBgStyle st \<in> {cs_glass, cs_minimal} then BLACK
      else if darkBackground st then WHITE else BLACK)"

lemma fontColorEffect_contrast:
  "fontColorEffect state =
     (if autoColor state then update fontColor_update (contrast state) else id)"
  by (cases "questionBgStyle state")
    (auto simp: fontColorEffect_def contrast_def darkBackground_def Let_def)

lemma contrast_cong: "fontColorDeps a = fontColorDeps b \<Longrightarrow> contrast a = contrast b"
  by (simp add: fontColorDeps_def contrast_def darkBackground_def)

lemma fontColor_commit:
  assumes "changed fontColorDeps before state" and "autoColor state"
  shows "fontColor (commit before state) = contrast state"
  using assms by (simp add: commit_def fontColorEffect_contrast update_def foodBadgeEffect_def)

lemma settle_unchanged:
  assumes "\<not> changed fontColorDeps before state"
  shows "settle before state = state"
proof -
  from assms obtain b where "before = Some b" "fontColorDeps b = fontColorDeps state"
    by (auto simp: changed_def split: option.splits)
  then show ?thesis
    by (simp add: settle_two_commits commit_unchanged)
qed

lemma fontColor_settle:
  assumes "changed fontColorDeps before state" and "autoColor state"
  shows "fontColor (settle before state) = contrast (settle before state)"
proof (cases "fontColorDeps (commit before state) = fontColorDeps state")
  case True
  with assms show ?thesis
    by (simp add: settle_two_commits fontColor_commit contrast_cong [OF True])
next
  case False
  then have "changed fontColorDeps (Some state) (commit before state)"
    by (simp add: changed_def)
  moreover have "fontColorDeps (commit (Some state) (commit before state))
      = fontColorDeps (commit before state)"
    using commit_deps_changed(3) [OF False] by (simp add: fontColorDeps_def questionBgStyle_commit)
  ultimately have "fontColor (commit (Some state) (commit before state))
      = contrast (commit (Some state) (commit before state))"
    using assms(2) by (simp add: fontColor_commit contrast_cong [of "commit (Some state) (commit before state)"])
  with False show ?thesis
    by (simp add: settle_two_commits)
qed

lemma commit_shape:
  "commit before state =
     state\<lparr>questionBgStyle := questionBgStyle (commit before state),
       fontColor := fontColor (commit before state)\<rparr>"
  by (simp add: commit_def foodBadgeEffect_def fontColorEffect_contrast update_def)

lemma settle_shape:
  "settle before state =
     state\<lparr>questionBgStyle := questionBgStyle (settle before state),
       fontColor := fontColor (settle before state)\<rparr>"
proof -
  have "commit b (commit before state) =
      state\<lparr>questionBgStyle := questionBgStyle (commit b (commit before state)),
        fontColor := fontColor (commit b (commit before state))\<rparr>" for b
    by (subst commit_shape [of b], subst (3) commit_shape) simp
  then show ?thesis
    using commit_shape [of before state] by (simp add: settle_two_commits Let_def)
qed

lemma sidebar_inv_settle [simp]: "sidebar_inv (settle before state) = sidebar_inv state"
  by (subst settle_shape) (simp add: sidebar_inv_unfold)

section \<open>handleGenerate\<close>

text \<open>
  \<open>generate\<close> is the call \<open>generateBODMAS(state.difficulty, \<dots>)\<close> that the handler makes
  before and inside its loop; \<open>regenerate\<close> is the loop, with the loop variable \<open>newQ\<close> as
  its argument. The loop has no bound: \<open>regenerate\<close> is \<open>None\<close> when it never ends, and then
  so is \<open>handleGenerate\<close>, which otherwise returns the updater it passes to \<open>setState\<close>
  and the random source as the loop left it.
\<close>

definition generate :: "AppState \<Rightarrow> generated rand" where
  "generate state =
     generateBODMAS (difficulty state) (useFactorials state) (useExponents state) (useFractions state)"

partial_function (option) regenerate :: "AppState \<Rightarrow> generated \<Rightarrow> rng \<Rightarrow> (generated \<times> rng) option" where
  "regenerate state newQ s =
     (if question newQ = question state
      then (let r = run_state (generate state) s in regenerate state (fst r) (snd r))
      else Some (newQ, s))"

definition handleGenerate :: "AppState \<Rightarrow> rng \<Rightarrow> ((AppState \<Rightarrow> AppState) \<times> rng) option" where
  "handleGenerate state s =
     (let r = run_state (generate state) s
      in map_option
           (\<lambda>(newQ, s'). (\<lambda>prev. prev\<lparr>question := question newQ, answer := answer newQ\<rparr>, s'))
           (regenerate state (fst r) (snd r)))"

text \<open>The loop variable and the source after \<open>n\<close> further attempts.\<close>

fun attempts :: "AppState \<Rightarrow> nat \<Rightarrow> generated \<times> rng \<Rightarrow> generated \<times> rng" where
  "attempts state 0 x = x"
| "attempts state (Suc n) x = attempts state n (run_state (generate state) (snd x))"

section \<open>The loop of handleGenerate\<close>

lemma regenerate_stops:
  "question newQ \<noteq> question state \<Longrightarrow> regenerate state newQ s = Some (newQ, s)"
  by (subst regenerate.simps) simp

lemma regenerate_again:
  "question newQ = question state \<Longrightarrow>
     regenerate state newQ s =
       regenerate state (fst (run_state (generate state) s)) (snd (run_state (generate state) s))"
  by (subst regenerate.simps) (simp add: Let_def)

lemma regenerate_differs:
  assumes "regenerate state newQ s = Some y"
  shows "question (fst y) \<noteq> question state"
  by (rule regenerate.raw_induct
      [where P = "\<lambda>state newQ s y. question (fst y) \<noteq> question state", OF _ assms])
    (auto simp: Let_def split: if_splits)

definition allowed_for :: "AppState \<Rightarrow> generated \<Rightarrow> bool" where
  "allowed_for state =
     allowed (difficulty state) (useFactorials state) (useExponents state) (useFractions state)"

lemma generate_allowed: "allowed_for state (fst (run_state (generate state) s))"
  by (simp add: allowed_for_def generate_def generateBODMAS_sound)

lemma regenerate_allowed_aux:
  assumes "regenerate state newQ s = Some y"
  shows "allowed_for state newQ \<longrightarrow> allowed_for state (fst y)"
  by (rule regenerate.raw_induct
      [where P = "\<lambda>state newQ s y. allowed_for state newQ \<longrightarrow> allowed_for state (fst y)", OF _ assms])
    (auto simp: Let_def generate_allowed split: if_splits)

lemma handleGenerate_result:
  assumes "handleGenerate state s = Some (u, s')"
  obtains q where "u = (\<lambda>prev. prev\<lparr>question := question q, answer := answer q\<rparr>)"
    and "allowed_for state q" and "question q \<noteq> question state"
proof -
  let ?r = "run_state (generate state) s"
  from assms obtain q where r: "regenerate state (fst ?r) (snd ?r) = Some (q, s')"
    and u: "u = (\<lambda>prev. prev\<lparr>question := question q, answer := answer q\<rparr>)"
    by (auto simp: handleGenerate_def Let_def)
  from regenerate_allowed_aux [OF r] regenerate_differs [OF r] u that show ?thesis
    by (simp add: generate_allowed)
qed

lemma regenerate_attempts:
  assumes "question (fst (attempts state n (newQ, s))) \<noteq> question state"
  shows "\<exists>k \<le> n. regenerate state newQ s = Some (attempts state k (newQ, s))"
  using assms
proof (induction n arbitrary: newQ s)
  case 0
  then show ?case by (simp add: regenerate_stops)
next
  case (Suc n)
  show ?case
  proof (cases "question newQ = question state")
    case False
    then show ?thesis by (intro exI [of _ 0]) (simp add: regenerate_stops)
  next
    case True
    let ?r = "run_state (generate state) s"
    from Suc.prems have "question (fst (attempts state n (fst ?r, snd ?r))) \<noteq> question state"
      by simp
    from Suc.IH [OF this] obtain k where "k \<le> n"
      and "regenerate state (fst ?r) (snd ?r) = Some (attempts state k (fst ?r, snd ?r))"
      by auto
    with True show ?thesis
      by (intro exI [of _ "Suc k"]) (simp add: regenerate_again)
  qed
qed

section \<open>The component and its events\<close>

text \<open>
  The four pieces of state of the component (lines 27 and 69 to 71) and the events it
  handles: an event of the control panel, the three buttons of the tool bar, the two
  completions of the asynchronous handlers, and the button that closes the critique.
  \<open>handleAnalyze\<close> and \<open>handleExport\<close> are each two events, the click that sets the flag
  and the completion that clears it; \<open>ExportClick\<close> carries whether the canvas is mounted.
  The call \<open>analyzeVirality(state)\<close> is made at the click, with the state of the render
  whose handler was clicked: the field \<open>pending\<close> holds that state while the promise is in
  flight, and \<open>AnalyzeSettled\<close> carries the behaviour of the service.
  \<open>enabled\<close> says when the interface offers an event: a control is rendered and
  delivers a value of its range, a button is not disabled, a completion has a handler
  waiting for it.
\<close>

record AppModel =
  appState :: AppState
  virality :: "ViralityAnalysis option"
  isAnalyzing :: bool
  isExporting :: bool
  pending :: "AppState option"

definition App_mount :: "AppModel rand" where
  "App_mount = do {
     initial \<leftarrow> mount;
     State_Monad.return
       \<lparr>appState = settle None initial, virality = None, isAnalyzing = False, isExporting = False,
        pending = None\<rparr>
   }"

datatype AppEvent =
  SidebarEvent SidebarEvent | GenerateClick
| AnalyzeClick | AnalyzeSettled service
| ExportClick bool | ExportSettled
| CloseVirality

text \<open>A new state is rendered and its effects run until they settle.\<close>

definition setState :: "(AppState \<Rightarrow> AppState) \<Rightarrow> AppModel \<Rightarrow> AppModel" where
  "setState u m = m\<lparr>appState := settle (Some (appState m)) (u (appState m))\<rparr>"

fun app_event :: "AppEvent \<Rightarrow> AppModel \<Rightarrow> rng \<Rightarrow> (AppModel \<times> rng) option" where
  "app_event (SidebarEvent e) m s = Some (setState (on_event e (appState m)) m, s)"
| "app_event GenerateClick m s =
     map_option (\<lambda>(u, s'). (setState u m, s')) (handleGenerate (appState m) s)"
| "app_event AnalyzeClick m s = Some (m\<lparr>isAnalyzing := True, pending := Some (appState m)\<rparr>, s)"
| "app_event (AnalyzeSettled generateContent) m s =
     Some (case pending m of
             Some state \<Rightarrow>
               m\<lparr>virality := Some (analyzeVirality generateContent state), isAnalyzing := False,
                 pending := None\<rparr>
           | None \<Rightarrow> m, s)"
| "app_event (ExportClick canvas) m s = Some (if canvas then m\<lparr>isExporting := True\<rparr> else m, s)"
| "app_event ExportSettled m s = Some (m\<lparr>isExporting := False\<rparr>, s)"
| "app_event CloseVirality m s = Some (m\<lparr>virality := None\<rparr>, s)"

fun enabled :: "AppEvent \<Rightarrow> AppModel \<Rightarrow> bool" where
  "enabled (SidebarEvent e) m = (rendered e (appState m) \<and> delivers e)"
| "enabled GenerateClick m = True"
| "enabled AnalyzeClick m = (\<not> isAnalyzing m)"
| "enabled (AnalyzeSettled generateContent) m = (pending m \<noteq> None)"
| "enabled (ExportClick canvas) m = (\<not> isExporting m)"
| "enabled ExportSettled m = isExporting m"
| "enabled CloseVirality m = (virality m \<noteq> None)"

inductive reachable :: "AppModel \<Rightarrow> bool" where
  mount: "reachable (fst (run_state App_mount s))"
| step: "\<lbrakk>reachable m; enabled ev m; app_event ev m s = Some (m', s')\<rbrakk> \<Longrightarrow> reachable m'"

section \<open>The invariant of the editor state\<close>

text \<open>
  In every state the editor reaches: the layout values are within their limits
  (\<open>sidebar_inv\<close>), the font colour is the contrasting colour whenever the automatic
  colour is on (\<open>auto_contrast\<close>), and the answer is a finite number in the range of the
  generator.
\<close>

definition auto_contrast :: "AppState \<Rightarrow> bool" where
  "auto_contrast st \<longleftrightarrow> (autoColor st \<longrightarrow> fontColor st = contrast st)"

definition app_inv :: "AppState \<Rightarrow> bool" where
  "app_inv st \<longleftrightarrow> sidebar_inv st \<and> auto_contrast st \<and> between 0 1265 (answer st)"

lemma settle_frame [simp]:
  "autoColor (settle before state) = autoColor state"
  "bgStyle (settle before state) = bgStyle state"
  "customBgColor (settle before state) = customBgColor state"
  "question (settle before state) = question state"
  "answer (settle before state) = answer state"
  by (subst settle_shape, simp)+

lemma auto_contrast_settle:
  assumes "changed fontColorDeps before state \<or> auto_contrast state"
  shows "auto_contrast (settle before state)"
proof (cases "changed fontColorDeps before state")
  case True
  then show ?thesis
    by (simp add: auto_contrast_def fontColor_settle)
next
  case False
  with assms show ?thesis by (simp add: settle_unchanged)
qed

lemma helper_frames [simp]:
  "fontColor (layout_update key f st) = fontColor st"
  "answer (layout_update key f st) = answer st"
  "fontColor (feature_update feat g st) = fontColor st"
  "answer (feature_update feat g st) = answer st"
  "fontColor (handleLogoUpload u st) = fontColor st"
  "answer (handleLogoUpload u st) = answer st"
  by (cases key; cases feat; cases u; simp add: update_def)+

lemma handler_frames [simp]:
  "fontColor (shuffleFood state prev) = fontColor prev"
  "answer (shuffleFood state prev) = answer prev"
  "fontColor (adjustFontSize delta state prev) = fontColor prev"
  "answer (adjustFontSize delta state prev) = answer prev"
  "fontColor (adjustLayoutValue key delta state prev) = fontColor prev"
  "answer (adjustLayoutValue key delta state prev) = answer prev"
  by (simp_all add: shuffleFood_def js_rem_def adjustFontSize_def adjustLayoutValue_def update_def
      split: prod.split)

lemma answer_on_event [simp]: "answer (on_event e state prev) = answer prev"
proof (cases e)
  case (Logo x) then show ?thesis by (cases x) (simp_all add: update_def)
next
  case (General x) then show ?thesis by (cases x) (simp_all add: update_def)
next
  case (Bg x) then show ?thesis by (cases x) (simp_all add: update_def)
next
  case (QStyling x) then show ?thesis by (cases x) (simp_all add: update_def)
next
  case (Header x) then show ?thesis by (cases x) (simp_all add: update_def)
next
  case (Boosters x) then show ?thesis by (cases x) (simp_all add: update_def)
next
  case (Typo x) then show ?thesis by (cases x) (simp_all add: update_def)
qed

lemma fontColor_on_event:
  assumes "rendered e state" and "autoColor state"
  shows "fontColor (on_event e state prev) = fontColor prev"
proof (cases e)
  case (Logo x) then show ?thesis by (cases x) (simp_all add: update_def)
next
  case (General x) then show ?thesis by (cases x) (simp_all add: update_def)
next
  case (Bg x) then show ?thesis by (cases x) (simp_all add: update_def)
next
  case (QStyling x) then show ?thesis by (cases x) (simp_all add: update_def)
next
  case (Header x) then show ?thesis by (cases x) (simp_all add: update_def)
next
  case (Boosters x) then show ?thesis by (cases x) (simp_all add: update_def)
next
  case (Typo x) with assms show ?thesis by (cases x) (simp_all add: update_def)
qed

lemma on_event_auto_contrast:
  assumes "rendered e st" and "auto_contrast st"
  shows "changed fontColorDeps (Some st) (on_event e st st) \<or> auto_contrast (on_event e st st)"
proof (cases "changed fontColorDeps (Some st) (on_event e st st)")
  case False
  then have deps: "fontColorDeps (on_event e st st) = fontColorDeps st"
    by (simp add: changed_def)
  then have "autoColor (on_event e st st) = autoColor st"
    by (simp add: fontColorDeps_def)
  with assms show ?thesis
    by (simp add: auto_contrast_def fontColor_on_event contrast_cong [OF deps])
qed simp


lemma initialState_inv [simp]: "sidebar_inv (initialState q)"
  by (simp add: initialState_def sidebar_inv_unfold)

lemma answer_initialState [simp]: "answer (initialState q) = answer q"
  by (simp add: initialState_def)

lemma appState_mount:
  "appState (fst (run_state App_mount s)) =
     settle None (initialState (fst (run_state (generateBODMAS TRICKY False False False) s)))"
  by (simp add: App_mount_def mount_def split_beta)

lemma mount_inv: "app_inv (appState (fst (run_state App_mount s)))"
  unfolding appState_mount app_inv_def
  by (simp add: auto_contrast_settle changed_def allowed_between [OF generateBODMAS_sound])

lemma setState_inv:
  assumes "sidebar_inv (u (appState m))" and "between 0 1265 (answer (u (appState m)))"
    and "changed fontColorDeps (Some (appState m)) (u (appState m)) \<or> auto_contrast (u (appState m))"
  shows "app_inv (appState (setState u m))"
  using assms by (simp add: setState_def app_inv_def auto_contrast_settle)

lemma generated_frames:
  "sidebar_inv (st\<lparr>question := q, answer := a\<rparr>) = sidebar_inv st"
  "fontColorDeps (st\<lparr>question := q, answer := a\<rparr>) = fontColorDeps st"
  "auto_contrast (st\<lparr>question := q, answer := a\<rparr>) = auto_contrast st"
  by (simp_all add: sidebar_inv_unfold fontColorDeps_def auto_contrast_def contrast_def
      darkBackground_def)

lemma app_event_inv:
  assumes "app_inv (appState m)" and "enabled ev m" and "app_event ev m s = Some (m', s')"
  shows "app_inv (appState m')"
proof (cases ev)
  case (SidebarEvent e)
  with assms have e: "rendered e (appState m)" "delivers e"
    and m': "m' = setState (on_event e (appState m)) m"
    by auto
  from assms(1) e show ?thesis
    unfolding m' by (intro setState_inv) (simp_all add: app_inv_def on_event_inv on_event_auto_contrast)
next
  case GenerateClick
  with assms obtain u where u: "handleGenerate (appState m) s = Some (u, s')"
    and m': "m' = setState u m"
    by auto
  from u obtain q where "u = (\<lambda>prev. prev\<lparr>question := question q, answer := answer q\<rparr>)"
    and "allowed_for (appState m) q"
    by (rule handleGenerate_result)
  with assms(1) show ?thesis
    unfolding m' by (intro setState_inv)
      (auto simp: app_inv_def generated_frames allowed_for_def changed_def dest: allowed_between)
qed (use assms in \<open>auto split: if_splits option.splits\<close>)

lemma reachable_inv: "reachable m \<Longrightarrow> app_inv (appState m)"
  by (induction rule: reachable.induct) (auto intro: mount_inv app_event_inv)

section \<open>isDarkColor on the values of a colour input\<close>

text \<open>
  \<open>channel i\<close> is what \<open>isDarkColor\<close> reads for red, green and blue (\<open>i\<close> = 0, 1, 2), and
  \<open>luma\<close> a thousand times the brightness when all three are numbers.
\<close>

definition channel :: "nat \<Rightarrow> jsstring \<Rightarrow> jsnum" where
  "channel i color = parseInt16 (substr (2 * i) 2 (remove1 35 color))"

definition luma :: "jsstring \<Rightarrow> nat" where
  "luma color =
     (let hex = remove1 35 color
      in 299 * hex_value (substr 0 2 hex) + 587 * hex_value (substr 2 2 hex)
         + 114 * hex_value (substr 4 2 hex))"

lemma is_hex_digit_is_hex: "is_hex_digit c \<Longrightarrow> is_hex c"
  by (auto simp: is_hex_digit_def is_digit_def is_hex_def hex_digit_value_def)

lemma is_colorE:
  assumes "is_color c"
  obtains r1 r2 g1 g2 b1 b2 where "c = [35, r1, r2, g1, g2, b1, b2]"
    and "is_hex r1" "is_hex r2" "is_hex g1" "is_hex g2" "is_hex b1" "is_hex b2"
proof -
  from assms have "length c = 7" by (simp add: is_color_def)
  then obtain c0 r1 r2 g1 g2 b1 b2 where c: "c = [c0, r1, r2, g1, g2, b1, b2]"
    by (auto simp: length_Suc_conv eval_nat_numeral)
  with assms that [of r1 r2 g1 g2 b1 b2] show ?thesis
    by (simp add: is_color_def is_hex_digit_is_hex)
qed

lemma isDarkColor_channels:
  "isDarkColor color \<longleftrightarrow>
     js_less ((channel 0 color * jsint 299 + channel 1 color * jsint 587 + channel 2 color * jsint 114)
        / jsint 1000) (jsint 128)"
  by (simp add: isDarkColor_def channel_def Let_def)

lemma weighted_sum_less:
  "rat_of_nat x * 299 + rat_of_nat y * 587 + rat_of_nat z * 114 < 128000
     \<longleftrightarrow> 299 * x + 587 * y + 114 * z < 128000"
proof -
  have "rat_of_nat x * 299 + rat_of_nat y * 587 + rat_of_nat z * 114
      = rat_of_nat (299 * x + 587 * y + 114 * z)"
    by simp
  then show ?thesis
    by (simp only: of_nat_less_numeral_iff)
qed

lemma isDarkColor_luma:
  assumes "is_color c"
  shows "isDarkColor c \<longleftrightarrow> luma c < 128000"
proof -
  from assms obtain r1 r2 g1 g2 b1 b2 where c: "c = [35, r1, r2, g1, g2, b1, b2]"
    and hex: "is_hex r1" "is_hex r2" "is_hex g1" "is_hex g2" "is_hex b1" "is_hex b2"
    by (rule is_colorE)
  then have "r1 \<noteq> 35"
    by (auto simp: is_hex_def hex_digit_value_def)
  with c hex show ?thesis
    by (simp add: isDarkColor_def luma_def substr_def parseInt16_byte jsint_def Let_def
        divide_less_eq weighted_sum_less)
qed

lemma isDarkColor_NaN:
  assumes "channel i color = NotFinite" and "i < 3"
  shows "\<not> isDarkColor color"
proof -
  from assms(2) have "i = 0 \<or> i = 1 \<or> i = 2" by arith
  with assms(1) show ?thesis
    by (auto simp: isDarkColor_channels)
qed

lemma luma_bound:
  assumes "is_color c"
  shows "luma c \<le> 255000"
proof -
  from assms obtain r1 r2 g1 g2 b1 b2 where c: "c = [35, r1, r2, g1, g2, b1, b2]"
    and hex: "is_hex r1" "is_hex r2" "is_hex g1" "is_hex g2" "is_hex b1" "is_hex b2"
    by (rule is_colorE)
  from hex have "hex_value [r1, r2] < 256" "hex_value [g1, g2] < 256" "hex_value [b1, b2] < 256"
    by (simp_all add: hex_value_byte)
  moreover from hex have "r1 \<noteq> 35"
    by (auto simp: is_hex_def hex_digit_value_def)
  ultimately show ?thesis
    using c by (simp add: luma_def substr_def Let_def)
qed

lemma dark_examples:
  "isDarkColor (ascii ''#4f46e5'')" "\<not> isDarkColor (ascii ''#ffffff'')" "isDarkColor (ascii ''#000000'')"
  "\<not> isDarkColor (ascii ''white'')"
  by (simp_all add: isDarkColor_def substr_def parseInt16_def is_hex_def hex_digit_value_def
      hex_value_def js_whitespace_def jsint_def Let_def)

section \<open>Runs of handleGenerate\<close>

text \<open>
  \<open>blank\<close> is an initial state with an empty question, from which every generated
  question is new. \<open>stuck_at state s\<close> says that from the source \<open>s\<close> one generation returns
  the current question and leaves the source as it was, as the constant source does.
\<close>

definition blank :: AppState where
  "blank = initialState \<lparr>question = [], answer = jsint 0\<rparr>"

lemma run_zero:
  "run_state (generateBODMAS TRICKY False False False) (draws []) =
     (\<lparr>question = [56, 32, 247, 32, 50, 32, 215, 32, 50, 32, 43, 32, 53], answer = jsint 13\<rparr>, draws [])"
  by (simp add: gen_defs)

lemma generate_blank: "generate blank = generateBODMAS TRICKY False False False"
  by (simp add: generate_def blank_def initialState_def)

lemma question_blank [simp]: "question blank = []"
  by (simp add: blank_def initialState_def)

lemma handleGenerate_blank:
  "handleGenerate blank (draws []) =
     Some (\<lambda>prev. prev\<lparr>question := [56, 32, 247, 32, 50, 32, 215, 32, 50, 32, 43, 32, 53],
        answer := jsint 13\<rparr>, draws [])"
  by (simp add: handleGenerate_def generate_blank run_zero regenerate_stops)

definition stuck_at :: "AppState \<Rightarrow> rng \<Rightarrow> bool" where
  "stuck_at state s \<longleftrightarrow>
     snd (run_state (generate state) s) = s \<and>
     question (fst (run_state (generate state) s)) = question state"

lemma regenerate_diverges:
  assumes "stuck_at state s" and "question newQ = question state"
  shows "regenerate state newQ s = None"
proof (rule ccontr)
  assume "regenerate state newQ s \<noteq> None"
  then obtain y where y: "regenerate state newQ s = Some y" by auto
  have "\<not> (question newQ = question state \<and> stuck_at state s)"
  proof (rule regenerate.raw_induct
      [where P = "\<lambda>state newQ s y. \<not> (question newQ = question state \<and> stuck_at state s)", OF _ y])
    fix f state newQ s y
    assume IH: "\<And>state newQ s y. f state newQ s = Some y \<Longrightarrow>
        \<not> (question newQ = question state \<and> stuck_at state s)"
      and H: "(if question newQ = question state
          then let r = run_state (generate state) s in f state (fst r) (snd r)
          else Some (newQ, s)) = Some y"
    show "\<not> (question newQ = question state \<and> stuck_at state s)"
    proof
      assume A: "question newQ = question state \<and> stuck_at state s"
      with H have "f state (fst (run_state (generate state) s)) s = Some y"
        by (simp add: Let_def stuck_at_def)
      from IH [OF this] A show False
        by (simp add: stuck_at_def)
    qed
  qed
  with assms show False by simp
qed


lemma mount_zero:
  "appState (fst (run_state App_mount (draws []))) =
     settle None (initialState (fst (run_state (generateBODMAS TRICKY False False False) (draws []))))"
  by (rule appState_mount)

lemma generate_settle [simp]: "generate (settle before state) = generate state"
  by (subst settle_shape) (simp add: generate_def)

lemma generate_initialState [simp]:
  "generate (initialState q) = generateBODMAS TRICKY False False False"
  by (simp add: generate_def initialState_def)

lemma question_initialState [simp]: "question (initialState q) = question q"
  by (simp add: initialState_def)

lemma stuck_after_mount:
  "app_event GenerateClick (fst (run_state App_mount (draws []))) (draws []) = None"
proof -
  let ?st = "appState (fst (run_state App_mount (draws [])))"
  have "stuck_at ?st (draws [])"
    by (simp add: stuck_at_def mount_zero run_zero)
  then have "regenerate ?st (fst (run_state (generate ?st) (draws []))) (draws []) = None"
    by (intro regenerate_diverges) (simp_all add: stuck_at_def)
  then show ?thesis
    by (simp add: handleGenerate_def mount_zero run_zero)
qed

section \<open>Properties\<close>

text \<open>
  C8 (invariant). In every state the editor reaches from its first render by events that
  the interface offers, the font size and the layout values are within their limits, the
  food variant is an index into the pool of the food type, the font colour is the
  contrasting colour whenever the automatic colour is on, and the answer is a number
  between 0 and 1265.
\<close>

theorem reachable_invariant: "reachable m \<Longrightarrow> app_inv (appState m)"
  by (rule reachable_inv)

theorem reachable_invariant_witness:
  "reachable (fst (run_state App_mount (draws []))) \<and>
   app_inv (appState (fst (run_state App_mount (draws []))))"
  using reachable_invariant [of "fst (run_state App_mount (draws []))"]
  by (simp add: reachable.mount)

text \<open>
  C12 (functional). When \<open>handleGenerate\<close> returns, the updater it passes to \<open>setState\<close>
  replaces the question and the answer and nothing else, the new question differs from
  the one on display, and question and answer are a pair that the specification allows
  for the difficulty and the toggles of the state.
\<close>

theorem handleGenerate_new_question:
  assumes "handleGenerate state s = Some (u, s')"
  shows "\<exists>q. allowed_for state q \<and> question q \<noteq> question state \<and>
    u = (\<lambda>prev. prev\<lparr>question := question q, answer := answer q\<rparr>)"
  using assms by (rule handleGenerate_result) blast

theorem handleGenerate_new_question_witness:
  "\<exists>u s'. handleGenerate blank (draws []) = Some (u, s') \<and>
     (\<exists>q. allowed_for blank q \<and> question q \<noteq> question blank \<and>
       u = (\<lambda>prev. prev\<lparr>question := question q, answer := answer q\<rparr>))"
  using handleGenerate_new_question [OF handleGenerate_blank] handleGenerate_blank by blast

text \<open>
  C11 (termination). \<open>handleGenerate\<close> returns as soon as one attempt yields a question
  other than the one on display: if the first attempt or one of the \<open>n\<close> that follow it
  differs, the loop ends.
\<close>

theorem handleGenerate_returns:
  assumes "question (fst (attempts state n (run_state (generate state) s))) \<noteq> question state"
  shows "\<exists>u s'. handleGenerate state s = Some (u, s')"
proof -
  let ?r = "run_state (generate state) s"
  from assms regenerate_attempts [of state n "fst ?r" "snd ?r"]
  obtain k where "regenerate state (fst ?r) (snd ?r) = Some (attempts state k ?r)"
    by auto
  then show ?thesis
    by (simp add: handleGenerate_def Let_def split_beta)
qed

theorem handleGenerate_returns_witness:
  "question (fst (attempts blank 0 (run_state (generate blank) (draws [])))) \<noteq> question blank \<and>
   (\<exists>u s'. handleGenerate blank (draws []) = Some (u, s'))"
  using handleGenerate_returns [of blank 0 "draws []"]
  by (simp add: generate_blank run_zero)

text \<open>
  C10 (liveness). \<open>handleGenerate\<close> does not always return. After a first render on the
  source that yields 0 for ever, the question on display is \<open>8 \<div> 2 \<times> 2 + 5\<close>; a click on
  the generate button with the source in that state draws the same question again and
  again, and the loop never ends.
\<close>

theorem handleGenerate_may_not_return:
  "app_event GenerateClick (fst (run_state App_mount (draws []))) (draws []) = None"
  by (rule stuck_after_mount)

text \<open>
  C35 (equivalence). On a value of a colour input, \<open>#\<close> and six hexadecimal digits,
  \<open>isDarkColor\<close> is the test that the weighted sum of the three channels, 299 red + 587
  green + 114 blue, is below 128000: no channel fails to parse.
\<close>

theorem isDarkColor_is_luma_threshold:
  assumes "is_color c"
  shows "isDarkColor c \<longleftrightarrow> luma c < 128000"
  using assms by (rule isDarkColor_luma)

theorem isDarkColor_is_luma_threshold_witness:
  "is_color (ascii ''#4f46e5'') \<and>
   (isDarkColor (ascii ''#4f46e5'') \<longleftrightarrow> luma (ascii ''#4f46e5'') < 128000)"
  using isDarkColor_is_luma_threshold [of "ascii ''#4f46e5''"]
  by (simp add: is_color_def is_hex_digit_def is_digit_def)

text \<open>
  C36 (error). A colour of which a channel does not parse as a hexadecimal number (a
  colour name, a short form such as \<open>#fff\<close>) makes the brightness \<open>NaN\<close>, and \<open>isDarkColor\<close>
  answers that it is not dark.
\<close>

theorem isDarkColor_malformed:
  assumes "channel i color = NotFinite" and "i < 3"
  shows "\<not> isDarkColor color"
  using assms by (rule isDarkColor_NaN)

theorem isDarkColor_malformed_witness:
  "channel 2 (ascii ''#fff'') = NotFinite \<and> (2::nat) < 3 \<and> \<not> isDarkColor (ascii ''#fff'')"
  using isDarkColor_malformed [of 2 "ascii ''#fff''"]
  by (simp add: channel_def substr_def)

end
