(* ===== verification/Markup.thy ===== *)
theory Markup
  imports JS_Prelude
begin

text \<open>
  The elements a React component returns, for the markup of
  \<open>src/components/CanvasPreview.tsx\<close> and \<open>src/App.tsx\<close>: a tree of elements, each with its
  tag, its \<open>className\<close>, its \<open>style\<close> object, its other attributes and its children, and
  of text nodes (a text node has no tag, class, style, attribute or child). A style property is a string or a number; a property whose value is
  \<open>undefined\<close> is left out of the list, as React leaves it out of the element. A child
  written \<open>{cond && <X/>}\<close> is \<open>render_if cond X\<close>: React renders \<open>false\<close>, \<open>null\<close> and the empty
  string as nothing. The \<open>ref\<close> and the event handlers of an element are no part of the
  tree; the handlers are the events of theory \<open>App\<close>.
\<close>

section \<open>Elements\<close>

datatype css_value = css_string jsstring | css_number rat

type_synonym css = "(string \<times> css_value) list"

datatype node =
  Element (tag: string) (className: jsstring) (style: css)
    (attributes: "(string \<times> jsstring) list") (children: "node list")
| Text (content: jsstring)
where
  "tag (Text s) = []"
| "className (Text s) = []"
| "style (Text s) = []"
| "attributes (Text s) = []"
| "children (Text s) = []"
| "content (Element t cls sty as kids) = []"

definition el :: "string \<Rightarrow> jsstring \<Rightarrow> node list \<Rightarrow> node" where
  "el t cls kids = Element t cls [] [] kids"

definition styled :: "string \<Rightarrow> jsstring \<Rightarrow> css \<Rightarrow> node list \<Rightarrow> node" where
  "styled t cls sty kids = Element t cls sty [] kids"

definition render_if :: "bool \<Rightarrow> node \<Rightarrow> node list" where
  "render_if b n = (if b then [n] else [])"

text \<open>A property of a style object that may be \<open>undefined\<close>.\<close>

definition style_prop :: "string \<Rightarrow> jsstring option \<Rightarrow> css" where
  "style_prop name v = (case v of Some s \<Rightarrow> [(name, css_string s)] | None \<Rightarrow> [])"

section \<open>Reading a tree\<close>

text \<open>
  The element and all its descendants in document order, the text of an element as the
  DOM property \<open>textContent\<close> gives it, and the classes of an element: the words of its
  \<open>className\<close>, separated by white space.
\<close>

fun nodes :: "node \<Rightarrow> node list" where
  "nodes (Element t cls sty as kids) = Element t cls sty as kids # concat (map nodes kids)"
| "nodes (Text s) = [Text s]"

fun textContent :: "node \<Rightarrow> jsstring" where
  "textContent (Element t cls sty as kids) = concat (map textContent kids)"
| "textContent (Text s) = s"

definition is_space :: "code_unit \<Rightarrow> bool" where
  "is_space c \<longleftrightarrow> c = 32 \<or> c = 10"

fun words :: "jsstring \<Rightarrow> jsstring \<Rightarrow> jsstring list" where
  "words w [] = (if w = [] then [] else [w])"
| "words w (c # cs) =
     (if is_space c then (if w = [] then words [] cs else w # words [] cs)
      else words (w @ [c]) cs)"

definition classList :: "node \<Rightarrow> jsstring list" where
  "classList n = words [] (className n)"

definition elements :: "string \<Rightarrow> node \<Rightarrow> node list" where
  "elements t n = filter (\<lambda>e. tag e = t) (nodes n)"

section \<open>Lemmas\<close>

lemma render_if_simps [simp]: "render_if True n = [n]" "render_if False n = []"
  by (simp_all add: render_if_def)

lemma style_prop_simps [simp]:
  "style_prop name (Some s) = [(name, css_string s)]" "style_prop name None = []"
  by (simp_all add: style_prop_def)

lemma node_simps [simp]:
  "tag (el t cls kids) = t" "className (el t cls kids) = cls" "style (el t cls kids) = []"
  "children (el t cls kids) = kids"
  "tag (styled t cls sty kids) = t" "className (styled t cls sty kids) = cls"
  "style (styled t cls sty kids) = sty" "children (styled t cls sty kids) = kids"
  by (simp_all add: el_def styled_def)

lemma nodes_el [simp]:
  "nodes (el t cls kids) = el t cls kids # concat (map nodes kids)"
  "nodes (styled t cls sty kids) = styled t cls sty kids # concat (map nodes kids)"
  by (simp_all add: el_def styled_def)

lemma textContent_el [simp]:
  "textContent (el t cls kids) = concat (map textContent kids)"
  "textContent (styled t cls sty kids) = concat (map textContent kids)"
  by (simp_all add: el_def styled_def)

lemma self_in_nodes [simp]: "n \<in> set (nodes n)"
  by (cases n) simp_all

lemma child_in_nodes: "k \<in> set (children n) \<Longrightarrow> k \<in> set (nodes n)"
  by (cases n) (auto intro: bexI [of _ k])

lemma nodes_trans: "a \<in> set (nodes b) \<Longrightarrow> b \<in> set (nodes c) \<Longrightarrow> a \<in> set (nodes c)"
  by (induction c rule: nodes.induct) auto

lemma words_no_space: "\<not> list_ex is_space cs \<Longrightarrow> words w cs = (if w @ cs = [] then [] else [w @ cs])"
  by (induction cs arbitrary: w) auto

end
