(* ===== verification/Canvas_Preview.thy ===== *)
theory Canvas_Preview
  imports App_State Constants Markup
begin

text \<open>
  The card of \<open>src/components/CanvasPreview.tsx\<close> as a function of the editor state: the
  style object of the container and the helpers \<open>getBgClass\<close>, \<open>getQuestionContainerClass\<close>,
  \<open>getRankInfo\<close> and \<open>getRankPosClass\<close> (lines 13 to 68), then the conditions and the
  computed styles of the markup (lines 72 to 188): which parts are shown, and the colours,
  paddings and shadows that depend on the state; last the element the component returns,
  \<open>CanvasPreview\<close>, as a tree of theory \<open>Markup\<close> with one definition per part of the card.
  A style value that the source leaves \<open>undefined\<close> is \<open>None\<close>. The
  \<open>default\<close> branches of \<open>getRankInfo\<close> and \<open>getRankPosClass\<close>, which no member of the
  enumerations reaches, have no counterpart; the \<open>default\<close> of \<open>getQuestionContainerClass\<close> is
  the case of the style \<open>none\<close>.
\<close>

section \<open>The container\<close>

definition isPortrait :: "AppState \<Rightarrow> bool" where
  "isPortrait state \<longleftrightarrow> platform state = PORTRAIT"

text \<open>\<open>`${n}px`\<close> and \<open>`url("${u}")`\<close>; an image that is \<open>undefined\<close> prints as that word.\<close>

definition px :: "int \<Rightarrow> jsstring" where
  "px n = toString n @ ascii ''px''"

definition url :: "jsstring option \<Rightarrow> jsstring" where
  "url u = ascii ''url('' @ [34] @ (case u of Some s \<Rightarrow> s | None \<Rightarrow> ascii ''undefined'') @ [34]
     @ ascii '')''"

record CSSProperties =
  aspectRatio :: jsstring
  maxWidth :: jsstring
  width :: jsstring
  maxHeight :: jsstring
  css_fontFamily :: jsstring
  backgroundColor :: "jsstring option"
  backgroundImage :: "jsstring option"
  backgroundSize :: jsstring
  backgroundPosition :: jsstring

definition containerStyle :: "AppState \<Rightarrow> CSSProperties" where
  "containerStyle state =
     \<lparr>aspectRatio = (if isPortrait state then ascii ''9/16'' else ascii ''1/1''),
      maxWidth = (if isPortrait state then ascii ''400px'' else ascii ''500px''),
      width = ascii ''100%'',
      maxHeight = ascii ''80vh'',
      css_fontFamily = fontFamily state,
      backgroundColor = (if bgStyle state = CUSTOM then Some (customBgColor state) else None),
      backgroundImage =
        (if bgStyle state = FOOD
         then Some (url (js_nth (FOOD_IMAGES (foodType state)) (foodVariant state)))
         else None),
      backgroundSize = ascii ''cover'',
      backgroundPosition = ascii ''center''\<rparr>"

definition getBgClass :: "AppState \<Rightarrow> jsstring" where
  "getBgClass state = (let preset = BG_PRESETS (bgStyle state) in class preset)"

definition footerOpacity :: "AppState \<Rightarrow> jsstring" where
  "footerOpacity state =
     (if fontColor state = ascii ''#ffffff'' then ascii ''rgba(255,255,255,0.8)''
      else ascii ''rgba(0,0,0,0.7)'')"

fun getQuestionContainerClass :: "ContainerStyle \<Rightarrow> jsstring" where
  "getQuestionContainerClass cs_ribbon = ascii ''bg-red-600 rotate-1 shadow-xl rounded-sm''"
| "getQuestionContainerClass cs_badge =
     ascii ''bg-indigo-600 rounded-3xl shadow-2xl border-4 border-white/20''"
| "getQuestionContainerClass cs_glass =
     ascii ''bg-white/10 backdrop-blur-md rounded-2xl border border-white/20 shadow-lg''"
| "getQuestionContainerClass cs_minimal = ascii ''bg-white/90 rounded-xl shadow-lg''"
| "getQuestionContainerClass cs_none = []"

record rankInfo =
  label :: jsstring
  color :: jsstring

fun getRankInfo :: "Difficulty \<Rightarrow> rankInfo" where
  "getRankInfo EASY = \<lparr>label = ascii ''Novice'', color = ascii ''bg-emerald-500''\<rparr>"
| "getRankInfo MEDIUM = \<lparr>label = ascii ''Expert'', color = ascii ''bg-blue-500''\<rparr>"
| "getRankInfo TRICKY = \<lparr>label = ascii ''Elite'', color = ascii ''bg-purple-600''\<rparr>"
| "getRankInfo ULTRA_TRICKY =
     \<lparr>label = ascii ''Legend'', color = ascii ''bg-amber-500 shadow-[0_0_15px_rgba(245,158,11,0.5)]''\<rparr>"

fun getRankPosClass :: "RankPosition \<Rightarrow> jsstring" where
  "getRankPosClass RANK_TOP_LEFT = ascii ''top-6 left-6''"
| "getRankPosClass RANK_TOP_RIGHT = ascii ''top-6 right-6''"
| "getRankPosClass RANK_BOTTOM_LEFT = ascii ''bottom-6 left-6''"
| "getRankPosClass RANK_CENTER_RIGHT = ascii ''top-1/2 -translate-y-1/2 right-6''"

section \<open>The markup\<close>

text \<open>The parts that are rendered only in some states (lines 79, 91, 113, 159 and 177).\<close>

definition showOverlay :: "AppState \<Rightarrow> bool" where
  "showOverlay state \<longleftrightarrow> bgStyle state = FOOD"

definition showHeader :: "AppState \<Rightarrow> bool" where
  "showHeader state \<longleftrightarrow> headerEnabled state"

text \<open>\<open>state.logoUrl &&\<close>: \<open>null\<close> and the empty string are both false.\<close>

definition showLogo :: "AppState \<Rightarrow> bool" where
  "showLogo state \<longleftrightarrow> (case logoUrl state of None \<Rightarrow> False | Some u \<Rightarrow> u \<noteq> [])"

definition showRank :: "AppState \<Rightarrow> bool" where
  "showRank state \<longleftrightarrow> showRankBadge state"

definition showFooter :: "AppState \<Rightarrow> bool" where
  "showFooter state \<longleftrightarrow> showCommentFooter state"

text \<open>The header (lines 94 to 105).\<close>

definition headerColor :: "AppState \<Rightarrow> jsstring" where
  "headerColor state =
     (if headerStyle state \<in> set [hs_ribbon, hs_badge] then ascii ''#ffffff''
      else if bgStyle state = FOOD then ascii ''#ffffff'' else fontColor state)"

definition headerBorderColor :: "AppState \<Rightarrow> jsstring" where
  "headerBorderColor state =
     (if headerStyle state = hs_minimal then ascii ''rgba(255,255,255,0.5)'' else ascii ''transparent'')"

fun headerClass :: "HeaderStyle \<Rightarrow> jsstring" where
  "headerClass hs_ribbon = ascii ''bg-red-600 -rotate-2 shadow-md rounded-sm''"
| "headerClass hs_badge = ascii ''bg-indigo-600 rounded-full shadow-md''"
| "headerClass hs_glow = ascii ''drop-shadow-[0_0_8px_rgba(255,255,255,0.8)]''"
| "headerClass hs_minimal = ascii ''border-b-2 pb-1''"

text \<open>The logo (lines 114 to 118).\<close>

definition logoClass :: "AppState \<Rightarrow> jsstring" where
  "logoClass state =
     (if logoPosition state = LOGO_TOP_LEFT then ascii ''top-4 left-4''
      else if logoPosition state = LOGO_TOP_RIGHT then ascii ''top-4 right-4''
      else ascii ''bottom-4 right-4'')"

text \<open>The question block (lines 126 to 154).\<close>

definition questionTransform :: "AppState \<Rightarrow> jsstring" where
  "questionTransform state = ascii ''translateY('' @ px (questionYOffset state) @ ascii '')''"

definition paddingX :: "AppState \<Rightarrow> jsstring" where
  "paddingX state =
     (if questionBgStyle state \<noteq> cs_none then px (questionPaddingX state) else ascii ''0px'')"

definition paddingY :: "AppState \<Rightarrow> jsstring" where
  "paddingY state =
     (if questionBgStyle state \<noteq> cs_none then px (questionPaddingY state) else ascii ''0px'')"

definition textShadow :: "AppState \<Rightarrow> jsstring" where
  "textShadow state =
     (if showShadow state \<and> questionBgStyle state = cs_none
      then ascii ''0 10px 30px rgba(0,0,0,0.3)'' else ascii ''none'')"

definition glowClass :: "AppState \<Rightarrow> jsstring" where
  "glowClass state =
     (if showGlow state then ascii ''drop-shadow-[0_0_15px_rgba(255,255,255,0.5)]'' else [])"

text \<open>The footer (line 180).\<close>

definition footerColor :: "AppState \<Rightarrow> jsstring" where
  "footerColor state =
     (if bgStyle state = FOOD then ascii ''rgba(255,255,255,0.9)'' else footerOpacity state)"

section \<open>The card\<close>

text \<open>
  The element the component returns (lines 72 to 189), part by part. A template literal
  that spans lines keeps its line breaks and indentation: \<open>nl n\<close> is a line break and \<open>n\<close>
  spaces.
\<close>

definition nl :: "nat \<Rightarrow> jsstring" where
  "nl n = 10 # replicate n 32"

text \<open>\<open>style={containerStyle}\<close>: the properties of the style object that are defined.\<close>

definition css_of :: "CSSProperties \<Rightarrow> css" where
  "css_of c =
     [(''aspectRatio'', css_string (aspectRatio c)), (''maxWidth'', css_string (maxWidth c)),
      (''width'', css_string (width c)), (''maxHeight'', css_string (maxHeight c)),
      (''fontFamily'', css_string (css_fontFamily c))]
     @ style_prop ''backgroundColor'' (backgroundColor c)
     @ style_prop ''backgroundImage'' (backgroundImage c)
     @ [(''backgroundSize'', css_string (backgroundSize c)),
        (''backgroundPosition'', css_string (backgroundPosition c))]"

definition overlay :: node where
  "overlay = el ''div'' (ascii ''absolute inset-0 bg-black/40 z-0'') []"

definition decor :: node where
  "decor =
     el ''div''
       (ascii ''absolute inset-0 opacity-10 pointer-events-none select-none flex flex-wrap gap-12 p-12 justify-center items-center overflow-hidden text-6xl font-black z-0'')
       (map (\<lambda>i. Element ''span'' (ascii ''rotate-12'') [] [(''key'', toString (int i))]
                [Text (ascii ''+ '' @ [8722] @ ascii '' '' @ [215] @ ascii '' '' @ [247] @ ascii '' '' @ [8730])])
          [0..<12])"

definition header :: "AppState \<Rightarrow> node" where
  "header state =
     el ''div'' (ascii ''absolute top-6 z-10 w-full px-4 flex justify-center'')
       [styled ''div''
          (nl 14
             @ ascii ''px-4 py-1.5 font-black text-center text-sm uppercase tracking-widest transition-colors duration-300''
             @ nl 14 @ (if headerStyle state = hs_ribbon then headerClass hs_ribbon else [])
             @ nl 14 @ (if headerStyle state = hs_badge then headerClass hs_badge else [])
             @ nl 14 @ (if headerStyle state = hs_glow then headerClass hs_glow else [])
             @ nl 14 @ (if headerStyle state = hs_minimal then headerClass hs_minimal else [])
             @ nl 12)
          [(''fontFamily'', css_string (headerFont state)),
           (''color'', css_string (headerColor state)),
           (''borderColor'', css_string (headerBorderColor state))]
          [Text (headerText state)]]"

definition logo :: "AppState \<Rightarrow> node" where
  "logo state =
     el ''div'' (ascii ''absolute z-20 '' @ logoClass state)
       [el ''div''
          (ascii ''w-12 h-12 rounded-lg shadow-lg bg-white p-1.5 border border-slate-100 overflow-hidden'')
          [Element ''img'' (ascii ''w-full h-full object-contain'') []
             [(''src'', case logoUrl state of Some u \<Rightarrow> u | None \<Rightarrow> []),
              (''alt'', ascii ''Logo'')] []]]"

definition questionBlock :: "AppState \<Rightarrow> node" where
  "questionBlock state =
     styled ''div''
       (ascii ''relative z-10 flex flex-col items-center justify-center text-center px-4 w-full transition-transform duration-300'')
       [(''transform'', css_string (questionTransform state))]
       [styled ''div''
          (ascii ''transition-all duration-500 flex items-center justify-center ''
             @ getQuestionContainerClass (questionBgStyle state))
          [(''paddingLeft'', css_string (paddingX state)),
           (''paddingRight'', css_string (paddingX state)),
           (''paddingTop'', css_string (paddingY state)),
           (''paddingBottom'', css_string (paddingY state))]
          [styled ''h2''
             (nl 16 @ ascii ''transition-all duration-300'' @ nl 16 @ glowClass state @ nl 14)
             [(''fontSize'', css_string (px (fontSize state))),
              (''color'', css_string (fontColor state)),
              (''fontWeight'', css_string (fontWeight state)),
              (''letterSpacing'', css_string (px (letterSpacing state))),
              (''lineHeight'', css_number (lineSpacing state)),
              (''textShadow'', css_string (textShadow state))]
             [Text (question state)]]]"

definition rankBadge :: "AppState \<Rightarrow> node" where
  "rankBadge state =
     (let rank = getRankInfo (difficulty state) in
      el ''div''
        (ascii ''absolute z-20 transition-all duration-500 '' @ getRankPosClass (rankPosition state))
        [el ''div''
           (color rank
              @ ascii '' text-white font-black px-4 py-2 rounded-xl shadow-2xl flex flex-col items-center transition-all duration-300 border-2 border-white/50 group'')
           [el ''div'' (ascii ''flex items-center gap-1.5 mb-0.5'')
              [el ''BadgeCheck'' (ascii ''w-3.5 h-3.5 text-white animate-pulse'') [],
               el ''span'' (ascii ''text-[10px] uppercase tracking-tighter opacity-90 leading-none'')
                 [Text (ascii ''Verified Rank'')]],
            el ''span'' (ascii ''text-xl italic leading-none drop-shadow-sm'') [Text (label rank)]],
         el ''div'' (ascii ''mt-1.5 text-center'')
           [el ''span''
              (ascii ''bg-black/60 backdrop-blur-md px-2 py-0.5 rounded-full text-[7px] font-bold text-white uppercase tracking-[0.2em] border border-white/10'')
              [Text (ascii ''Certified Challenge'')]]])"

definition footer :: "AppState \<Rightarrow> node" where
  "footer state =
     el ''div'' (ascii ''absolute bottom-6 w-full px-8 text-center z-10'')
       [styled ''p''
          (ascii ''font-black text-xs tracking-widest uppercase flex items-center justify-center gap-2 transition-colors duration-300 drop-shadow-md'')
          [(''color'', css_string (footerColor state))]
          [el ''span'' [] [Text (ascii ''Comment your answer'')],
           el ''span'' (ascii ''text-lg'') [Text ([55357, 56391])]]]"

definition CanvasPreview :: "AppState \<Rightarrow> node" where
  "CanvasPreview state =
     styled ''div''
       (ascii ''relative flex flex-col items-center justify-center overflow-hidden transition-all duration-300 rounded-lg shadow-2xl ''
          @ getBgClass state)
       (css_of (containerStyle state))
       (render_if (showOverlay state) overlay
          @ [decor]
          @ render_if (showHeader state) (header state)
          @ render_if (showLogo state) (logo state)
          @ [questionBlock state]
          @ render_if (showRank state) (rankBadge state)
          @ render_if (showFooter state) (footer state))"

section \<open>The background image\<close>

lemma px_nonneg: "0 \<le> n \<Longrightarrow> px n = decimal (nat n) @ ascii ''px''"
  by (simp add: px_def toString_nonneg)

lemma backgroundImage_containerStyle:
  "backgroundImage (containerStyle state) =
     (if bgStyle state = FOOD
      then Some (url (js_nth (FOOD_IMAGES (foodType state)) (foodVariant state))) else None)"
  by (simp add: containerStyle_def)

lemma backgroundImage_in_pool:
  assumes "0 \<le> foodVariant state" and "foodVariant state < int (length (FOOD_IMAGES (foodType state)))"
    and "bgStyle state = FOOD"
  shows "\<exists>u \<in> set (FOOD_IMAGES (foodType state)).
    backgroundImage (containerStyle state) = Some (url (Some u))"
proof -
  let ?pool = "FOOD_IMAGES (foodType state)"
  from assms have "js_nth ?pool (foodVariant state) = Some (?pool ! nat (foodVariant state))"
    and "?pool ! nat (foodVariant state) \<in> set ?pool"
    by simp_all
  with assms(3) show ?thesis
    by (auto simp: backgroundImage_containerStyle)
qed

end
