(* ===== verification/Card_Properties.thy ===== *)
theory Card_Properties
  imports App Canvas_Preview
begin

text \<open>
  The card as the editor shows it: the element of \<open>CanvasPreview\<close>
  (\<open>src/components/CanvasPreview.tsx\<close>) in the states the component \<open>App\<close> (\<open>src/App.tsx\<close>)
  reaches. \<open>run\<close> handles a sequence of events in order, each only if the interface
  offers it in the state the events before it produced; \<open>clicks\<close> is a run of events of
  the control panel from the first render on the source \<open>draws []\<close>. \<open>heading\<close> is the list
  of the \<open>h2\<close> elements of the card, and \<open>unused\<close> the settings of the editor state that
  no part of the card reads.
\<close>

section \<open>Sequences of events\<close>

fun run :: "AppEvent list \<Rightarrow> AppModel \<Rightarrow> rng \<Rightarrow> (AppModel \<times> rng) option" where
  "run [] m s = Some (m, s)"
| "run (ev # evs) m s =
     (if enabled ev m
      then (case app_event ev m s of Some (m', s') \<Rightarrow> run evs m' s' | None \<Rightarrow> None)
      else None)"

definition clicks :: "SidebarEvent list \<Rightarrow> AppModel option" where
  "clicks es =
     map_option fst (run (map SidebarEvent es) (fst (run_state App_mount (draws []))) (draws []))"

definition first_render :: AppModel where
  "first_render = fst (run_state App_mount (draws []))"

definition heading :: "AppState \<Rightarrow> node list" where
  "heading state = elements ''h2'' (CanvasPreview state)"

definition unused :: "AppState \<Rightarrow> bool \<times> jsstring \<times> WatermarkAlign \<times> int \<times> int \<times> jsstring list" where
  "unused st =
     (showWatermark st, watermarkText st, watermarkAlign st, watermarkOffset st,
      questionBorderRadius st, bgColors st)"

definition washed_out :: "SidebarEvent list" where
  "washed_out =
     [Bg (ClickBgStyle MINIMAL), QStyling (ClickContainer cs_badge), Header (ClickHeaderStyle hs_glow)]"

lemma reachable_run:
  "reachable m \<Longrightarrow> run evs m s = Some (m', s') \<Longrightarrow> reachable m'"
  by (induction evs arbitrary: m s)
    (auto split: if_splits option.splits intro: reachable.step)

lemma reachable_first_render: "reachable first_render"
  unfolding first_render_def by (rule reachable.mount)

lemma reachable_clicks: "clicks es = Some m \<Longrightarrow> reachable m"
  by (auto simp: clicks_def intro: reachable_run [OF reachable.mount])

lemma run_sidebar [simp]:
  "run (SidebarEvent e # evs) m s =
     (if rendered e (appState m) \<and> delivers e then run evs (setState (on_event e (appState m)) m) s
      else None)"
  by simp

lemma appState_setState [simp]:
  "appState (setState u m) = settle (Some (appState m)) (u (appState m))"
  by (simp add: setState_def)

lemma settle_keeps:
  "headerStyle (settle before state) = headerStyle state"
  "headerEnabled (settle before state) = headerEnabled state"
  "showCommentFooter (settle before state) = showCommentFooter state"
  "unused (settle before state) = unused state"
  by (subst settle_shape, simp add: unused_def)+

lemma questionBgStyle_settle:
  "bgStyle state \<noteq> FOOD \<Longrightarrow> questionBgStyle (settle before state) = questionBgStyle state"
  by (simp add: settle_two_commits questionBgStyle_commit Let_def)

lemmas card_defs =
  CanvasPreview_def overlay_def decor_def header_def logo_def questionBlock_def rankBadge_def
  footer_def

lemmas heading_defs = heading_def elements_def card_defs Let_def el_def styled_def render_if_def o_def

lemma heading_children: "map children (heading state) = [[Text (question state)]]"
  by (simp add: heading_defs)

lemma heading_color:
  "map (\<lambda>h. map_of (style h) ''color'') (heading state) = [Some (css_string (fontColor state))]"
  by (simp add: heading_defs)

lemma washed_out_state:
  "\<exists>m. clicks washed_out = Some m \<and> bgStyle (appState m) = MINIMAL \<and>
     questionBgStyle (appState m) = cs_badge \<and> headerStyle (appState m) = hs_glow \<and>
     headerEnabled (appState m) \<and> showCommentFooter (appState m) \<and> autoColor (appState m)"
  by (simp add: clicks_def washed_out_def update_def settle_keeps questionBgStyle_settle
      appState_mount initialState_def)


lemma unused_on_event [simp]: "unused (on_event e state prev) = unused prev"
proof (cases e)
  case (Logo x) then show ?thesis by (cases x; cases "case x of UploadLogo u \<Rightarrow> u | _ \<Rightarrow> NoFile") (simp_all add: unused_def ui_defs)
next
  case (General x) then show ?thesis by (cases x) (simp_all add: unused_def ui_defs)
next
  case (Bg x) then show ?thesis by (cases x) (simp_all add: unused_def ui_defs)
next
  case (QStyling x) then show ?thesis
    by (cases x; cases "case x of NudgeLayout k d \<Rightarrow> k | SlideLayout k v \<Rightarrow> k | _ \<Rightarrow> key_questionYOffset")
      (simp_all add: unused_def ui_defs split: prod.split)
next
  case (Header x) then show ?thesis by (cases x) (simp_all add: unused_def ui_defs)
next
  case (Boosters x) then show ?thesis
    by (cases x; cases "case x of ClickFeature f \<Rightarrow> f | _ \<Rightarrow> feat_showGlow")
      (simp_all add: unused_def ui_defs)
next
  case (Typo x) then show ?thesis by (cases x) (simp_all add: unused_def ui_defs)
qed

lemma unused_generated [simp]: "unused (st\<lparr>question := q, answer := a\<rparr>) = unused st"
  by (simp add: unused_def)

lemma unused_app_event:
  assumes "app_event ev m s = Some (m', s')"
  shows "unused (appState m') = unused (appState m)"
proof (cases ev)
  case GenerateClick
  with assms obtain u where u: "handleGenerate (appState m) s = Some (u, s')"
    and m': "m' = setState u m"
    by auto
  from u obtain q where "u = (\<lambda>prev. prev\<lparr>question := question q, answer := answer q\<rparr>)"
    and "allowed_for (appState m) q"
    by (rule handleGenerate_result)
  with m' show ?thesis by (simp add: settle_keeps)
next
  case (ExportClick canvas)
  with assms show ?thesis by (cases canvas) auto
qed (use assms in \<open>auto simp: settle_keeps split: option.splits\<close>)

lemma unused_reachable:
  "reachable m \<Longrightarrow>
     unused (appState m) = (False, ascii ''Maths Mint'', wa_right, 5, 24, colors (BG_PRESETS GRADIENT))"
proof (induction rule: reachable.induct)
  case (mount s)
  show ?case by (simp add: appState_mount settle_keeps) (simp add: unused_def initialState_def)
next
  case (step m ev s m' s')
  then show ?case by (simp add: unused_app_event)
qed

lemma CanvasPreview_unused:
  "CanvasPreview (st\<lparr>showWatermark := w, watermarkText := t, watermarkAlign := a,
      watermarkOffset := off, questionBorderRadius := r, bgColors := cs\<rparr>) = CanvasPreview st"
  by (simp add: card_defs containerStyle_def isPortrait_def getBgClass_def showOverlay_def
      showHeader_def showLogo_def showRank_def showFooter_def headerColor_def headerBorderColor_def
      logoClass_def questionTransform_def paddingX_def paddingY_def textShadow_def glowClass_def
      footerColor_def footerOpacity_def
      del: ascii_simps ascii_append split del: if_split cong: if_cong)

section \<open>Properties\<close>

text \<open>
  C28 (functional). The card has exactly one heading, and the heading shows the question of
  the state and nothing else: whatever the generator or the user put into \<open>state.question\<close>
  is what the exported image reads.
\<close>

theorem card_shows_question: "map children (heading state) = [[Text (question state)]]"
  by (rule heading_children)

text \<open>
  C25 (invariant). In every state the editor reaches with the automatic colour on, the
  heading of the card is drawn in the contrasting colour: white on a dark container or,
  without a container, on a dark background, black otherwise. The effect of \<open>App\<close> that
  computes the colour and the component that draws it agree after every event.
\<close>

theorem card_contrast:
  assumes "reachable m" and "autoColor (appState m)"
  shows "map (\<lambda>h. map_of (style h) ''color'') (heading (appState m))
    = [Some (css_string (contrast (appState m)))]"
  using reachable_inv [OF assms(1)] assms(2)
  by (simp add: heading_color app_inv_def auto_contrast_def)

theorem card_contrast_witness:
  "reachable (fst (run_state App_mount (draws []))) \<and>
   autoColor (appState (fst (run_state App_mount (draws [])))) \<and>
   map (\<lambda>h. map_of (style h) ''color'') (heading (appState (fst (run_state App_mount (draws [])))))
    = [Some (css_string (contrast (appState (fst (run_state App_mount (draws []))))))]"
  using card_contrast [of "fst (run_state App_mount (draws []))"]
  by (simp add: reachable.mount appState_mount initialState_def)

text \<open>
  C30 (safety). The header and the footer can become invisible. After three clicks
  (background Minimal White, question container Badge, header style Glow) the automatic
  colour is white, to contrast with the badge; the header and the footer, which are drawn
  on the white background and not on the badge, take the same colour.
\<close>

theorem header_white_on_white:
  "\<exists>m. clicks washed_out = Some m \<and> reachable m \<and>
     getBgClass (appState m) = ascii ''bg-white'' \<and>
     showHeader (appState m) \<and> headerColor (appState m) = ascii ''#ffffff'' \<and>
     showFooter (appState m) \<and> footerColor (appState m) = ascii ''rgba(255,255,255,0.8)''"
proof -
  from washed_out_state obtain m where m: "clicks washed_out = Some m"
    and st: "bgStyle (appState m) = MINIMAL" "questionBgStyle (appState m) = cs_badge"
      "headerStyle (appState m) = hs_glow" "headerEnabled (appState m)"
      "showCommentFooter (appState m)" "autoColor (appState m)"
    by blast
  from m have "reachable m" by (rule reachable_clicks)
  moreover from this st have "fontColor (appState m) = ascii ''#ffffff''"
    using reachable_inv [of m] by (simp add: app_inv_def auto_contrast_def contrast_def)
  ultimately show ?thesis
    using m st
    by (intro exI [of _ m])
      (simp add: getBgClass_def showHeader_def headerColor_def showFooter_def footerColor_def
        footerOpacity_def)
qed

text \<open>
  C31 (invariant). The watermark settings, the border radius of the question container and
  the list of background colours never leave their initial values, whatever the events,
  and the card would not change if they did: no control writes them and no part of the
  card reads them.
\<close>

theorem settings_without_effect:
  assumes "reachable m"
  shows "unused (appState m) = (False, ascii ''Maths Mint'', wa_right, 5, 24, colors (BG_PRESETS GRADIENT))
    \<and> CanvasPreview (appState m\<lparr>showWatermark := w, watermarkText := t, watermarkAlign := a,
          watermarkOffset := off, questionBorderRadius := r, bgColors := cs\<rparr>)
        = CanvasPreview (appState m)"
  using assms by (simp only: unused_reachable CanvasPreview_unused)

theorem settings_without_effect_witness:
  "reachable first_render \<and>
   unused (appState first_render)
     = (False, ascii ''Maths Mint'', wa_right, 5, 24, colors (BG_PRESETS GRADIENT)) \<and>
   CanvasPreview (appState first_render\<lparr>showWatermark := True, watermarkText := [],
       watermarkAlign := wa_left, watermarkOffset := 0, questionBorderRadius := 0, bgColors := []\<rparr>)
     = CanvasPreview (appState first_render)"
  using settings_without_effect [OF reachable_first_render,
      where w = True and t = "[]" and a = wa_left and off = 0 and r = 0 and cs = "[]"]
    reachable_first_render
  by blast

end
