(* ===== verification/Expression.thy ===== *)
theory Expression
  imports Math_Generator
begin

text \<open>
  The reading of a question that the specification takes as the meaning of its text
  (section 8, "determinism of evaluation"): the text is split into tokens, parsed by
  the standard order of operations and evaluated.

  \<^item> Tokens: a run of decimal digits is a number, a run of superscript digits an
    exponent, \<open>+ - \<times> \<div> / ! ( )\<close> are operators (the minus sign U+2212 reads as \<open>-\<close>),
    spaces separate; any other code unit makes the text unreadable.
  \<^item> Grammar: an expression is a sum or difference of terms, read from the left; a term
    is a product or quotient of factors, read from the left, where \<open>\<times>\<close>, \<open>\<div>\<close> and \<open>/\<close>
    have the same rank and a factor that follows in parentheses without an operator is
    multiplied; a factor is a number or a parenthesised expression, followed by any
    number of exponents and factorial marks.
  \<^item> Values are numbers of JavaScript as in theory \<open>JS_Prelude\<close>: a division by zero and
    the factorial of a number that is not a natural number are not finite.

  The parser is a recursive descent with fuel: every call passes one unit less to the
  calls it makes, and \<open>evaluate\<close> starts it with four units per token and four more.
  Theory \<open>Consistency\<close> shows that this is enough for every question the generator
  can print.
\<close>

section \<open>Tokens\<close>

datatype token = TNum nat | TSup nat | TPlus | TMinus | TTimes | TDivide | TSlash | TBang | TOpen | TClose

definition sup_digit :: "code_unit \<Rightarrow> nat" where
  "sup_digit c = length (takeWhile (\<lambda>s. s \<noteq> c) superscripts)"

definition sup_value :: "nat \<Rightarrow> jsstring \<Rightarrow> nat" where
  "sup_value acc cs = foldl (\<lambda>a c. 10 * a + sup_digit c) acc cs"

definition symbol :: "code_unit \<Rightarrow> token option" where
  "symbol c =
     (if c = 43 then Some TPlus
      else if c = 45 \<or> c = 8722 then Some TMinus
      else if c = MULTIPLICATION_SIGN then Some TTimes
      else if c = DIVISION_SIGN then Some TDivide
      else if c = 47 then Some TSlash
      else if c = 33 then Some TBang
      else if c = 40 then Some TOpen
      else if c = 41 then Some TClose
      else None)"

function tokens :: "jsstring \<Rightarrow> token list option" where
  "tokens [] = Some []"
| "tokens (c # cs) =
     (if c = 32 then tokens cs
      else if is_digit c then
        map_option (Cons (TNum (digit_value 0 (c # takeWhile is_digit cs))))
          (tokens (dropWhile is_digit cs))
      else if is_superscript c then
        map_option (Cons (TSup (sup_value 0 (c # takeWhile is_superscript cs))))
          (tokens (dropWhile is_superscript cs))
      else case symbol c of
        Some t \<Rightarrow> map_option (Cons t) (tokens cs)
      | None \<Rightarrow> None)"
  by pat_completeness auto
termination
  by (relation "measure length") (auto simp: le_imp_less_Suc length_dropWhile_le)

section \<open>Expressions and their values\<close>

datatype expr =
  Num nat | Add expr expr | Sub expr expr | Mul expr expr | Div expr expr
| Pow expr nat | Fact expr

fun js_pow :: "jsnum \<Rightarrow> nat \<Rightarrow> jsnum" where
  "js_pow (Finite r) n = Finite (r ^ n)"
| "js_pow NotFinite n = NotFinite"

fun js_fact :: "jsnum \<Rightarrow> jsnum" where
  "js_fact (Finite r) = (if r = of_int \<lfloor>r\<rfloor> \<and> 0 \<le> r then jsint (factorial \<lfloor>r\<rfloor>) else NotFinite)"
| "js_fact NotFinite = NotFinite"

fun eval :: "expr \<Rightarrow> jsnum" where
  "eval (Num n) = jsint (int n)"
| "eval (Add a b) = eval a + eval b"
| "eval (Sub a b) = eval a - eval b"
| "eval (Mul a b) = eval a * eval b"
| "eval (Div a b) = eval a / eval b"
| "eval (Pow a n) = js_pow (eval a) n"
| "eval (Fact a) = js_fact (eval a)"

section \<open>The parser\<close>

fun postfix :: "expr \<Rightarrow> token list \<Rightarrow> expr \<times> token list" where
  "postfix e (TSup n # ts) = postfix (Pow e n) ts"
| "postfix e (TBang # ts) = postfix (Fact e) ts"
| "postfix e ts = (e, ts)"

fun parse_expr :: "nat \<Rightarrow> token list \<Rightarrow> (expr \<times> token list) option"
  and expr_rest :: "nat \<Rightarrow> expr \<Rightarrow> token list \<Rightarrow> (expr \<times> token list) option"
  and parse_term :: "nat \<Rightarrow> token list \<Rightarrow> (expr \<times> token list) option"
  and term_rest :: "nat \<Rightarrow> expr \<Rightarrow> token list \<Rightarrow> (expr \<times> token list) option"
  and parse_factor :: "nat \<Rightarrow> token list \<Rightarrow> (expr \<times> token list) option"
where
  "parse_expr 0 ts = None"
| "parse_expr (Suc n) ts =
     (case parse_term n ts of None \<Rightarrow> None | Some (l, rest) \<Rightarrow> expr_rest n l rest)"
| "expr_rest 0 l ts = None"
| "expr_rest (Suc n) l ts =
     (case ts of
        TPlus # ts' \<Rightarrow>
          (case parse_term n ts' of None \<Rightarrow> None | Some (r, rest) \<Rightarrow> expr_rest n (Add l r) rest)
      | TMinus # ts' \<Rightarrow>
          (case parse_term n ts' of None \<Rightarrow> None | Some (r, rest) \<Rightarrow> expr_rest n (Sub l r) rest)
      | _ \<Rightarrow> Some (l, ts))"
| "parse_term 0 ts = None"
| "parse_term (Suc n) ts =
     (case parse_factor n ts of None \<Rightarrow> None | Some (l, rest) \<Rightarrow> term_rest n l rest)"
| "term_rest 0 l ts = None"
| "term_rest (Suc n) l ts =
     (case ts of
        TTimes # ts' \<Rightarrow>
          (case parse_factor n ts' of None \<Rightarrow> None | Some (r, rest) \<Rightarrow> term_rest n (Mul l r) rest)
      | TDivide # ts' \<Rightarrow>
          (case parse_factor n ts' of None \<Rightarrow> None | Some (r, rest) \<Rightarrow> term_rest n (Div l r) rest)
      | TSlash # ts' \<Rightarrow>
          (case parse_factor n ts' of None \<Rightarrow> None | Some (r, rest) \<Rightarrow> term_rest n (Div l r) rest)
      | TOpen # ts' \<Rightarrow>
          (case parse_factor n ts of None \<Rightarrow> None | Some (r, rest) \<Rightarrow> term_rest n (Mul l r) rest)
      | _ \<Rightarrow> Some (l, ts))"
| "parse_factor 0 ts = None"
| "parse_factor (Suc n) ts =
     (case ts of
        TNum k # ts' \<Rightarrow> Some (postfix (Num k) ts')
      | TOpen # ts' \<Rightarrow>
          (case parse_expr n ts' of
             Some (e, TClose # rest) \<Rightarrow> Some (postfix e rest)
           | _ \<Rightarrow> None)
      | _ \<Rightarrow> None)"

definition fuel :: "token list \<Rightarrow> nat" where
  "fuel ts = 4 * length ts + 4"

definition evaluate :: "jsstring \<Rightarrow> jsnum option" where
  "evaluate q =
     (case tokens q of
        None \<Rightarrow> None
      | Some ts \<Rightarrow>
          (case parse_expr (fuel ts) ts of
             Some (e, []) \<Rightarrow> Some (eval e)
           | _ \<Rightarrow> None))"


section \<open>Reading numbers and glyphs\<close>

declare tokens.simps(2) [simp del]

fun boundary :: "(code_unit \<Rightarrow> bool) \<Rightarrow> jsstring \<Rightarrow> bool" where
  "boundary P [] = True"
| "boundary P (c # cs) = (\<not> P c)"

lemma boundary_run [simp]:
  assumes "boundary P rest"
  shows "takeWhile P rest = []" and "dropWhile P rest = rest"
  using assms by (cases rest; simp)+

lemma tokens_glyph [simp]:
  "tokens (32 # cs) = tokens cs"
  "tokens (43 # cs) = map_option (Cons TPlus) (tokens cs)"
  "tokens (45 # cs) = map_option (Cons TMinus) (tokens cs)"
  "tokens (MULTIPLICATION_SIGN # cs) = map_option (Cons TTimes) (tokens cs)"
  "tokens (DIVISION_SIGN # cs) = map_option (Cons TDivide) (tokens cs)"
  "tokens (47 # cs) = map_option (Cons TSlash) (tokens cs)"
  "tokens (33 # cs) = map_option (Cons TBang) (tokens cs)"
  "tokens (40 # cs) = map_option (Cons TOpen) (tokens cs)"
  "tokens (41 # cs) = map_option (Cons TClose) (tokens cs)"
  by (simp_all add: tokens.simps symbol_def is_digit_def is_superscript_def superscripts_def)

lemma tokens_digits:
  assumes "is_digit d" and "\<forall>x \<in> set ds. is_digit x" and "boundary is_digit rest"
  shows "tokens (d # ds @ rest) = map_option (Cons (TNum (digit_value 0 (d # ds)))) (tokens rest)"
proof -
  from assms(1) have "d \<noteq> 32" by (auto simp: is_digit_def)
  with assms show ?thesis
    by (simp add: tokens.simps del: digit_value_simps)
qed

lemma tokens_decimal:
  assumes "boundary is_digit rest"
  shows "tokens (decimal n @ rest) = map_option (Cons (TNum n)) (tokens rest)"
proof -
  obtain d ds where d: "decimal n = d # ds"
    by (cases "decimal n") simp_all
  then have "is_digit d" "\<forall>x \<in> set ds. is_digit x"
    using decimal_digits [of _ n] by auto
  from tokens_digits [OF this assms] d digit_value_decimal [of n] show ?thesis
    by simp
qed

lemma tokens_toString [simp]:
  assumes "0 \<le> n" and "boundary is_digit rest"
  shows "tokens (toString n @ rest) = map_option (Cons (TNum (nat n))) (tokens rest)"
  using assms by (simp add: toString_nonneg tokens_decimal)

lemma tokens_toString_end [simp]: "0 \<le> n \<Longrightarrow> tokens (toString n) = Some [TNum (nat n)]"
  using tokens_toString [of n "[]"] by simp

lemma is_digit_numeral [simp]:
  "is_digit (numeral k) \<longleftrightarrow> (48::nat) \<le> numeral k \<and> (numeral k::nat) \<le> 57"
  by (simp add: is_digit_def)

lemma is_superscript_numeral [simp]:
  "is_superscript (numeral k) \<longleftrightarrow>
     numeral k \<in> {8304, 185, 178, 179, 8308, 8309, 8310, 8311, 8312, 8313::nat}"
  by (simp add: is_superscript_def superscripts_def)

lemmas parse_numeral [simp] =
  parse_expr.simps(2) [of "pred_numeral k", folded numeral_eq_Suc]
  expr_rest.simps(2) [of "pred_numeral k", folded numeral_eq_Suc]
  parse_term.simps(2) [of "pred_numeral k", folded numeral_eq_Suc]
  term_rest.simps(2) [of "pred_numeral k", folded numeral_eq_Suc]
  parse_factor.simps(2) [of "pred_numeral k", folded numeral_eq_Suc]
  for k

section \<open>Fuel\<close>

text \<open>More fuel never changes what the parser returns.\<close>

lemma parse_mono:
  "parse_expr n ts = Some (e, rest) \<Longrightarrow> n \<le> m \<Longrightarrow> parse_expr m ts = Some (e, rest)"
  "expr_rest n l ts = Some (e, rest) \<Longrightarrow> n \<le> m \<Longrightarrow> expr_rest m l ts = Some (e, rest)"
  "parse_term n ts = Some (e, rest) \<Longrightarrow> n \<le> m \<Longrightarrow> parse_term m ts = Some (e, rest)"
  "term_rest n l ts = Some (e, rest) \<Longrightarrow> n \<le> m \<Longrightarrow> term_rest m l ts = Some (e, rest)"
  "parse_factor n ts = Some (e, rest) \<Longrightarrow> n \<le> m \<Longrightarrow> parse_factor m ts = Some (e, rest)"
proof (induction n arbitrary: m ts l e rest)
  case (Suc n)
  {
    case 1
    then obtain m' where "m = Suc m'" "n \<le> m'" by (cases m) auto
    with 1 Suc.IH(2,3) [where m = m'] show ?case
      by (auto split: option.splits)
  next
    case 2
    then obtain m' where "m = Suc m'" "n \<le> m'" by (cases m) auto
    with 2 Suc.IH(2,3) [where m = m'] show ?case
      by (auto split: option.splits list.splits token.splits)
  next
    case 3
    then obtain m' where "m = Suc m'" "n \<le> m'" by (cases m) auto
    with 3 Suc.IH(4,5) [where m = m'] show ?case
      by (auto split: option.splits)
  next
    case 4
    then obtain m' where "m = Suc m'" "n \<le> m'" by (cases m) auto
    with 4 Suc.IH(4,5) [where m = m'] show ?case
      by (auto split: option.splits list.splits token.splits)
  next
    case 5
    then obtain m' where "m = Suc m'" "n \<le> m'" by (cases m) auto
    with 5 Suc.IH(1) [where m = m'] show ?case
      by (auto split: option.splits list.splits token.splits)
  }
qed simp_all

text \<open>A successful parse consumes input: at least one token for an expression, a term or a
  factor.\<close>

lemma length_postfix: "postfix e ts = (e', rest) \<Longrightarrow> length rest \<le> length ts"
  by (induction e ts rule: postfix.induct) auto

lemma parse_consumes:
  "parse_expr n ts = Some (e, rest) \<Longrightarrow> length rest < length ts"
  "expr_rest n l ts = Some (e, rest) \<Longrightarrow> length rest \<le> length ts"
  "parse_term n ts = Some (e, rest) \<Longrightarrow> length rest < length ts"
  "term_rest n l ts = Some (e, rest) \<Longrightarrow> length rest \<le> length ts"
  "parse_factor n ts = Some (e, rest) \<Longrightarrow> length rest < length ts"
proof (induction n arbitrary: ts l e rest)
  case (Suc n)
  {
    case 1
    with Suc.IH(2,3) show ?case
      by (fastforce split: option.splits)
  next
    case 2
    with Suc.IH(2,3) show ?case
      by (fastforce split: option.splits list.splits token.splits)
  next
    case 3
    with Suc.IH(4,5) show ?case
      by (fastforce split: option.splits)
  next
    case 4
    with Suc.IH(4,5) show ?case
      by (fastforce split: option.splits list.splits token.splits)
  next
    case 5
    with Suc.IH(1) show ?case
      by (fastforce dest: length_postfix split: option.splits list.splits token.splits)
  }
qed simp_all

end
