(* ===== verification/Consistency.thy ===== *)
theory Consistency
  imports Question_Spec Expression
begin

text \<open>
  The central contract of the generator: the answer it returns is the value of the text
  it returns, read by the order of operations (theory \<open>Expression\<close>).

  The proof goes through the specification. For each template of \<open>allowed\<close> and each
  kind of term in each of its slots, the text is split into tokens by the lemmas on
  \<open>toString\<close> and \<open>toSuperscript\<close> (a number ends where a code unit that is not a digit
  follows), the token list is parsed by unfolding the parser, and the value of the
  expression is compared with the answer of the template. Since every run of
  \<open>generateBODMAS\<close> returns an allowed question, the contract holds for every run.
\<close>

section \<open>Divisions of a text\<close>

text \<open>
  The pairs of a literal dividend and a literal divisor that stand on the two sides of a
  sign \<open>\<div>\<close> in a token list; a text has a clean division when it has such a pair and in
  each the divisor is not zero and divides the dividend.
\<close>

fun divisions :: "token list \<Rightarrow> (nat \<times> nat) list" where
  "divisions [] = []"
| "divisions (t # ts) =
     (case (t, ts) of
        (TNum a, TDivide # TNum b # rest) \<Rightarrow> (a, b) # divisions ts
      | _ \<Rightarrow> divisions ts)"

definition clean_division :: "jsstring \<Rightarrow> bool" where
  "clean_division q =
     (case tokens q of
        None \<Rightarrow> False
      | Some ts \<Rightarrow> divisions ts \<noteq> [] \<and> list_all (\<lambda>(a, b). b \<noteq> 0 \<and> b dvd a) (divisions ts))"

section \<open>Reading a superscript\<close>

lemma sup_digit_nth: "i < 10 \<Longrightarrow> sup_digit (superscripts ! i) = i"
proof -
  assume "i < 10"
  then have "i = 0 \<or> i = 1 \<or> i = 2 \<or> i = 3 \<or> i = 4 \<or> i = 5 \<or> i = 6 \<or> i = 7 \<or> i = 8 \<or> i = 9"
    by arith
  then show ?thesis
    by (auto simp: sup_digit_def superscripts_def)
qed

lemma sup_value_simps [simp]:
  "sup_value acc [] = acc"
  "sup_value acc (c # cs) = sup_value (10 * acc + sup_digit c) cs"
  by (simp_all add: sup_value_def)

lemma sup_value_digits:
  assumes "\<forall>c \<in> set ds. is_digit c"
  shows "sup_value acc (map (\<lambda>c. superscripts ! (c - 48)) ds) = digit_value acc ds"
  using assms
proof (induction ds arbitrary: acc)
  case Nil
  show ?case by simp
next
  case (Cons d ds)
  then have "d - 48 < 10" by (auto simp: is_digit_def)
  with Cons show ?case by (simp add: sup_digit_nth)
qed

lemma sup_value_toSuperscript: "0 \<le> n \<Longrightarrow> sup_value 0 (toSuperscript n) = nat n"
  by (simp add: toSuperscript_nonneg sup_value_digits toString_digits toString_nonneg)

lemma toSuperscript_not_Nil [simp]: "0 \<le> n \<Longrightarrow> toSuperscript n \<noteq> []"
  by (simp add: toSuperscript_nonneg)

lemma tokens_superscripts:
  assumes "is_superscript c" and "\<forall>x \<in> set cs. is_superscript x" and "boundary is_superscript rest"
  shows "tokens (c # cs @ rest) = map_option (Cons (TSup (sup_value 0 (c # cs)))) (tokens rest)"
proof -
  from assms(1) have "c \<noteq> 32" "\<not> is_digit c"
    by (auto simp: is_superscript_def superscripts_def is_digit_def)
  with assms show ?thesis
    by (simp add: tokens.simps del: sup_value_simps)
qed

lemma tokens_toSuperscript [simp]:
  assumes "0 \<le> n" and "boundary is_superscript rest"
  shows "tokens (toSuperscript n @ rest) = map_option (Cons (TSup (nat n))) (tokens rest)"
proof -
  from assms(1) obtain c cs where c: "toSuperscript n = c # cs"
    by (cases "toSuperscript n") simp_all
  with assms(1) have "is_superscript c" "\<forall>x \<in> set cs. is_superscript x"
    using toSuperscript_is_superscript [of n] by auto
  from tokens_superscripts [OF this assms(2)] c sup_value_toSuperscript [OF assms(1)]
  show ?thesis by simp
qed

lemma boundary_toSuperscript [simp]:
  assumes "0 \<le> n"
  shows "boundary is_digit (toSuperscript n @ rest)"
proof -
  from assms obtain c cs where c: "toSuperscript n = c # cs"
    by (cases "toSuperscript n") simp_all
  with assms have "is_superscript c"
    using toSuperscript_is_superscript [of n c] by simp
  then have "\<not> is_digit c"
    by (auto simp: is_superscript_def superscripts_def is_digit_def)
  with c show ?thesis by simp
qed

lemma tokens_toSuperscript_end [simp]:
  "0 \<le> n \<Longrightarrow> tokens (toSuperscript n) = Some [TSup (nat n)]"
  using tokens_toSuperscript [of n "[]"] by simp

lemma boundary_toSuperscript_end [simp]: "0 \<le> n \<Longrightarrow> boundary is_digit (toSuperscript n)"
  using boundary_toSuperscript [of n "[]"] by simp

section \<open>The values of powers and factorials\<close>

lemma js_pow_jsint [simp]: "js_pow (jsint b) n = jsint (b ^ n)"
  by (simp add: jsint_def)

lemma js_fact_jsint [simp]: "0 \<le> n \<Longrightarrow> js_fact (jsint n) = jsint (factorial n)"
  by (simp add: jsint_def)

section \<open>Every template reads as its answer\<close>

lemmas evaluate_simps = evaluate_def fuel_def jsint_def

lemma evaluate_easy:
  assumes "0 \<le> a" "0 \<le> b" "0 \<le> c"
  shows "evaluate (toString a @ ascii '' + '' @ toString b @ ascii '' - '' @ toString c)
    = Some (jsint (a + b - c))"
  using assms by (simp add: evaluate_simps)

lemma evaluate_medium:
  assumes "medium_left ue ufr L" and "0 \<le> c"
  shows "evaluate (text L @ ascii '' + '' @ toString c) = Some (val L + jsint c)"
  using assms unfolding medium_left_def
  by (elim disjE conjE is_product_termE is_exp_termE is_frac_termE)
    (simp_all add: evaluate_simps)

lemma evaluate_tricky:
  assumes "tricky_slots uf ue ufr C D" and "0 < b" and "0 \<le> k"
  shows "evaluate (toString (b * k) @ [32, DIVISION_SIGN, 32] @ toString b
        @ [32, MULTIPLICATION_SIGN, 32] @ text C @ ascii '' + '' @ text D)
      = Some (jsint k * val C + val D)"
  using assms unfolding tricky_slots_def
  by (elim disjE conjE is_plain_termE is_fact_termE is_exp_termE is_frac_termE)
    (simp_all add: evaluate_simps)


lemma evaluate_ultra:
  assumes "ultra_first ue ufr X" and "0 < m" and "0 \<le> f" and "0 \<le> i2"
  shows "evaluate (text (ultra_main m f X i2)) = Some (val (ultra_main m f X i2))"
  using assms unfolding ultra_first_def
  by (elim disjE conjE is_plain_termE is_exp_termE is_frac_termE)
    (simp_all add: evaluate_simps)

lemma evaluate_ultra_fact:
  assumes "is_fact_term F" and "ultra_first ue ufr X" and "0 < m" and "0 \<le> f" and "0 \<le> i2"
  shows "evaluate (text F @ ascii '' + '' @ text (ultra_main m f X i2))
    = Some (val F + val (ultra_main m f X i2))"
  using assms unfolding ultra_first_def
  by (elim disjE conjE is_plain_termE is_exp_termE is_frac_termE is_fact_termE)
    (simp_all add: evaluate_simps)

lemma allowed_evaluate:
  assumes "allowed d uf ue ufr g"
  shows "evaluate (question g) = Some (answer g)"
  using assms
proof cases
  case (easy a b c)
  with evaluate_easy [of a b c] show ?thesis by simp
next
  case (medium L c)
  with evaluate_medium [of ue ufr L c] show ?thesis by simp
next
  case (tricky b k C D)
  with evaluate_tricky [of uf ue ufr C D b k] show ?thesis by simp
next
  case (ultra m f X i2)
  with evaluate_ultra [of ue ufr X m f i2] show ?thesis by simp
next
  case (ultra_fact F m f X i2)
  with evaluate_ultra_fact [of F ue ufr X m f i2] show ?thesis by simp
qed

section \<open>The division of Tricky and Ultra-Tricky is exact\<close>

lemma nat_dvd_product [simp]: "0 < b \<Longrightarrow> 0 \<le> k \<Longrightarrow> nat b dvd nat (b * k)"
  by (simp add: nat_mult_distrib)

lemma clean_tricky:
  assumes "tricky_slots uf ue ufr C D" and "0 < b" and "0 \<le> k"
  shows "clean_division (toString (b * k) @ [32, DIVISION_SIGN, 32] @ toString b
        @ [32, MULTIPLICATION_SIGN, 32] @ text C @ ascii '' + '' @ text D)"
  using assms unfolding tricky_slots_def
  by (elim disjE conjE is_plain_termE is_fact_termE is_exp_termE is_frac_termE)
    (simp_all add: clean_division_def)

lemma clean_ultra:
  assumes "ultra_first ue ufr X" and "0 < m" and "0 \<le> f" and "0 \<le> i2"
  shows "clean_division (text (ultra_main m f X i2))"
  using assms unfolding ultra_first_def
  by (elim disjE conjE is_plain_termE is_exp_termE is_frac_termE)
    (simp_all add: clean_division_def)

lemma clean_ultra_fact:
  assumes "is_fact_term F" and "ultra_first ue ufr X" and "0 < m" and "0 \<le> f" and "0 \<le> i2"
  shows "clean_division (text F @ ascii '' + '' @ text (ultra_main m f X i2))"
  using assms unfolding ultra_first_def
  by (elim disjE conjE is_plain_termE is_exp_termE is_frac_termE is_fact_termE)
    (simp_all add: clean_division_def)

lemma allowed_clean_division:
  assumes "allowed d uf ue ufr g" and "d = TRICKY \<or> d = ULTRA_TRICKY"
  shows "clean_division (question g)"
  using assms(1)
proof cases
  case (tricky b k C D)
  with clean_tricky [of uf ue ufr C D b k] show ?thesis by simp
next
  case (ultra m f X i2)
  with clean_ultra [of ue ufr X m f i2] show ?thesis by simp
next
  case (ultra_fact F m f X i2)
  with clean_ultra_fact [of F ue ufr X m f i2] show ?thesis by simp
qed (use assms(2) in simp_all)

section \<open>Properties\<close>

text \<open>
  C2 (equivalence). The answer is the value of the question: for every difficulty, every
  setting of the toggles and every state of the random source, the text that
  \<open>generateBODMAS\<close> returns is readable, and reading it by the order of operations
  (exponents and factorials first, then \<open>\<times>\<close>, \<open>\<div>\<close>, \<open>/\<close> and juxtaposition from the left, then
  \<open>+\<close> and \<open>-\<close> from the left) gives exactly the answer that it returns.
\<close>

theorem question_evaluates_to_answer:
  "evaluate (question (fst (run_state (generateBODMAS d uf ue ufr) s)))
     = Some (answer (fst (run_state (generateBODMAS d uf ue ufr) s)))"
  by (rule allowed_evaluate) (rule generateBODMAS_sound)

text \<open>
  C20 (roundtrip). What \<open>toString\<close> and \<open>toSuperscript\<close> print reads back as the number
  printed, for numbers of any length: the text of a base followed by its exponent is the
  two tokens of the base and the exponent.
\<close>

theorem print_read_roundtrip:
  "tokens (toString (int n) @ toSuperscript (int e)) = Some [TNum n, TSup e]"
  by simp

text \<open>
  C7 (safety). Clean division: every question of the difficulties Tricky and Ultra-Tricky
  contains a division \<open>a \<div> b\<close> of two literals, and in it \<open>b\<close> is not zero and divides \<open>a\<close>,
  whatever the toggles and the terms substituted.
\<close>

theorem division_is_clean:
  "clean_division (question (fst (run_state (generateBODMAS TRICKY uf ue ufr) s))) \<and>
   clean_division (question (fst (run_state (generateBODMAS ULTRA_TRICKY uf ue ufr) s)))"
  by (intro conjI allowed_clean_division [OF generateBODMAS_sound]) simp_all

end
