(* ===== verification/Editor_Contract.thy ===== *)
theory Editor_Contract
  imports Card_Properties Consistency
begin

text \<open>
  The contract between question and answer in the editor. The generator returns a
  question whose reading is its answer (theory \<open>Consistency\<close>); the component \<open>App\<close>
  (\<open>src/App.tsx\<close>) stores both and replaces both together in \<open>handleGenerate\<close>, while the
  text field of the control panel (\<open>src/components/Sidebar.tsx\<close>, line 149) replaces the
  question alone. \<open>consistent\<close> says that the answer of a state is the value of its
  question; \<open>untouched\<close> are the states reached by events other than an edit of the text.
\<close>

section \<open>States reached without an edit\<close>

definition consistent :: "AppState \<Rightarrow> bool" where
  "consistent st \<longleftrightarrow> evaluate (question st) = Some (answer st)"

fun edits :: "AppEvent \<Rightarrow> bool" where
  "edits (SidebarEvent (General (EditQuestion q))) = True"
| "edits ev = False"

inductive untouched :: "AppModel \<Rightarrow> bool" where
  mount: "untouched (fst (run_state App_mount s))"
| step: "\<lbrakk>untouched m; enabled ev m; \<not> edits ev; app_event ev m s = Some (m', s')\<rbrakk> \<Longrightarrow> untouched m'"

section \<open>The contract is kept by every event but an edit\<close>

lemma untouched_reachable: "untouched m \<Longrightarrow> reachable m"
  by (induction rule: untouched.induct) (auto intro: reachable.intros)

lemma consistent_settle [simp]: "consistent (settle before state) = consistent state"
  by (simp add: consistent_def)

lemma consistent_generated:
  "allowed d uf ue ufr q \<Longrightarrow> consistent (st\<lparr>question := question q, answer := answer q\<rparr>)"
  by (simp add: consistent_def allowed_evaluate)

lemma question_frames [simp]:
  "question (layout_update key f st) = question st"
  "question (feature_update feat g st) = question st"
  "question (handleLogoUpload u st) = question st"
  "question (shuffleFood state prev) = question prev"
  "question (adjustFontSize delta state prev) = question prev"
  "question (adjustLayoutValue key delta state prev) = question prev"
  by (cases key; cases feat; cases u;
      simp add: update_def shuffleFood_def js_rem_def adjustFontSize_def adjustLayoutValue_def
        split: prod.split)+

lemma question_on_event:
  assumes "\<not> edits (SidebarEvent e)"
  shows "question (on_event e state prev) = question prev"
proof (cases e)
  case (Logo x) then show ?thesis by (cases x) (simp_all add: update_def)
next
  case (General x) with assms show ?thesis by (cases x) (simp_all add: update_def)
next
  case (Bg x) then show ?thesis by (cases x) (simp_all add: update_def)
next
  case (QStyling x) then show ?thesis by (cases x) (simp_all add: update_def)
next
  case (Header x) then show ?thesis by (cases x) (simp_all add: update_def)
next
  case (Boosters x) then show ?thesis by (cases x) (simp_all add: update_def)
next
  case (Typo x) then show ?thesis by (cases x) (simp_all add: update_def)
qed

lemma consistent_mount: "consistent (appState (fst (run_state App_mount s)))"
  by (simp add: appState_mount) (simp add: consistent_def allowed_evaluate [OF generateBODMAS_sound])

lemma consistent_app_event:
  assumes "consistent (appState m)" and "\<not> edits ev" and "app_event ev m s = Some (m', s')"
  shows "consistent (appState m')"
proof (cases ev)
  case (SidebarEvent e)
  with assms show ?thesis
    by (auto simp: consistent_def question_on_event)
next
  case GenerateClick
  with assms obtain u where u: "handleGenerate (appState m) s = Some (u, s')"
    and m': "m' = setState u m"
    by auto
  from u obtain q where "u = (\<lambda>prev. prev\<lparr>question := question q, answer := answer q\<rparr>)"
    and "allowed_for (appState m) q"
    by (rule handleGenerate_result)
  with m' show ?thesis
    by (simp add: allowed_for_def consistent_generated)
next
  case (ExportClick canvas)
  with assms show ?thesis by (cases canvas) auto
qed (use assms in \<open>auto split: option.splits\<close>)

lemma untouched_consistent: "untouched m \<Longrightarrow> consistent (appState m)"
  by (induction rule: untouched.induct) (auto intro: consistent_mount consistent_app_event)

lemma evaluate_one_plus_one: "evaluate (ascii ''1 + 1'') = Some (jsint 2)"
  by (simp add: evaluate_def fuel_def tokens.simps symbol_def is_digit_def is_superscript_def
      superscripts_def)

lemma edited_state:
  "\<exists>m. clicks [General (EditQuestion (ascii ''1 + 1''))] = Some m \<and>
     question (appState m) = ascii ''1 + 1'' \<and> answer (appState m) = jsint 13"
  by (simp add: clicks_def update_def appState_mount run_zero)

section \<open>Properties\<close>

text \<open>
  C9 (invariant). As long as the user does not type into the question field, the answer
  the editor holds is the value of the question it shows: the first render and every
  click on the generate button store a pair of the generator, and no other control
  touches either of the two.
\<close>

theorem answer_matches_question:
  assumes "untouched m"
  shows "evaluate (question (appState m)) = Some (answer (appState m))"
  using untouched_consistent [OF assms] by (simp add: consistent_def)

theorem answer_matches_question_witness:
  "untouched first_render \<and>
   evaluate (question (appState first_render)) = Some (answer (appState first_render))"
  using answer_matches_question [of first_render] untouched.mount [of "draws []"]
  by (simp add: first_render_def)

text \<open>
  C29 (safety). An edit of the question breaks the contract: after the first render on the
  source \<open>draws []\<close> and the string \<open>1 + 1\<close> typed into the question field, the editor is in a
  state it reaches by an event the interface offers, the question reads as 2 and the
  answer is still 13, the answer of the question that was generated.
\<close>

theorem edited_question_keeps_answer:
  "\<exists>m. clicks [General (EditQuestion (ascii ''1 + 1''))] = Some m \<and> reachable m \<and>
     evaluate (question (appState m)) = Some (jsint 2) \<and> answer (appState m) = jsint 13"
proof -
  from edited_state obtain m where m: "clicks [General (EditQuestion (ascii ''1 + 1''))] = Some m"
    and "question (appState m) = ascii ''1 + 1''" "answer (appState m) = jsint 13"
    by blast
  with reachable_clicks [OF m] evaluate_one_plus_one show ?thesis
    by (intro exI [of _ m]) simp
qed

end
