(* ===== verification/Critique.thy ===== *)
theory Critique
  imports Card_Properties
begin

text \<open>
  The analysis of the card by the critique service, as \<open>handleAnalyze\<close> of \<open>src/App.tsx\<close>
  (lines 83 to 88) runs it: the click sends the prompt of the state on display and sets
  \<open>isAnalyzing\<close>, which disables the button; the completion stores the result and clears
  the flag. Between the two the editor handles every other event. \<open>in_flight\<close> relates the
  flag to the promise that is pending; \<open>overtaken\<close> is the run in which the user edits the
  question while the analysis is on its way.
\<close>

section \<open>One analysis at a time\<close>

definition in_flight :: "AppModel \<Rightarrow> bool" where
  "in_flight m \<longleftrightarrow> (isAnalyzing m \<longleftrightarrow> pending m \<noteq> None)"

definition overtaken :: "jsstring \<Rightarrow> service \<Rightarrow> AppEvent list" where
  "overtaken q generateContent =
     [AnalyzeClick, SidebarEvent (General (EditQuestion q)), AnalyzeSettled generateContent]"

lemma in_flight_mount: "in_flight (fst (run_state App_mount s))"
  by (simp add: in_flight_def App_mount_def split_beta)

lemma in_flight_setState [simp]: "in_flight (setState u m) = in_flight m"
  by (simp add: in_flight_def setState_def)

lemma in_flight_app_event:
  assumes "in_flight m" and "enabled ev m" and "app_event ev m s = Some (m', s')"
  shows "in_flight m'"
  using assms by (cases ev) (auto simp: in_flight_def setState_def split: if_splits option.splits)

lemma in_flight_reachable: "reachable m \<Longrightarrow> in_flight m"
  by (induction rule: reachable.induct) (auto intro: in_flight_mount in_flight_app_event)

lemma first_render_fields [simp]:
  "isAnalyzing first_render = False" "pending first_render = None" "virality first_render = None"
  by (simp_all add: first_render_def App_mount_def split_beta)

lemma run_overtaken:
  "run (overtaken q generateContent) first_render s =
     Some (setState (update question_update q)
        (first_render\<lparr>isAnalyzing := True, pending := Some (appState first_render)\<rparr>)
        \<lparr>virality := Some (analyzeVirality generateContent (appState first_render)),
          isAnalyzing := False, pending := None\<rparr>, s)"
  by (simp add: overtaken_def setState_def)

section \<open>Properties\<close>

text \<open>
  C16 (safety). At most one analysis is in flight: in every state the editor reaches, the
  flag \<open>isAnalyzing\<close> is set exactly while a call of the critique service is pending, and
  the interface offers the button that starts a call exactly while none is pending.
\<close>

theorem one_analysis_in_flight:
  assumes "reachable m"
  shows "(isAnalyzing m \<longleftrightarrow> pending m \<noteq> None) \<and> (enabled AnalyzeClick m \<longleftrightarrow> pending m = None)"
  using in_flight_reachable [OF assms] by (auto simp: in_flight_def)

theorem one_analysis_in_flight_witness:
  "reachable first_render \<and> (isAnalyzing first_render \<longleftrightarrow> pending first_render \<noteq> None) \<and>
   (enabled AnalyzeClick first_render \<longleftrightarrow> pending first_render = None)"
  using one_analysis_in_flight [OF reachable_first_render] reachable_first_render by blast

text \<open>
  C33 (safety). The critique on display can be that of a card that is no longer on display:
  when the user edits the question while the analysis is pending, the result that arrives
  is the critique of the state at the click, whatever the service, and it is shown beside
  the new question.
\<close>

theorem critique_of_an_earlier_state:
  "\<exists>m. run (overtaken q generateContent) first_render (draws []) = Some (m, draws []) \<and>
     reachable m \<and>
     virality m = Some (analyzeVirality generateContent (appState first_render)) \<and>
     question (appState m) = q"
proof -
  let ?m = "setState (update question_update q)
      (first_render\<lparr>isAnalyzing := True, pending := Some (appState first_render)\<rparr>)
      \<lparr>virality := Some (analyzeVirality generateContent (appState first_render)),
        isAnalyzing := False, pending := None\<rparr>"
  have "run (overtaken q generateContent) first_render (draws []) = Some (?m, draws [])"
    by (rule run_overtaken)
  moreover from this have "reachable ?m"
    by (rule reachable_run [OF reachable_first_render])
  moreover have "question (appState ?m) = q"
    by (simp add: update_def)
  ultimately show ?thesis
    by (intro exI [of _ ?m]) (simp add: setState_def)
qed

text \<open>The failure of the service on the prompt of the first render.\<close>

theorem analyzeVirality_fallback_witness:
  "(\<lambda>p. Threw) (prompt (appState first_render)) \<in> {Threw, Malformed} \<and>
   analyzeVirality (\<lambda>p. Threw) (appState first_render) = fallback \<and> valid_score fallback"
  using analyzeVirality_fallback [of "\<lambda>p. Threw" "appState first_render"] by simp

end
