(* ===== verification/Effect_Properties.thy ===== *)
theory Effect_Properties
  imports Card_Properties
begin

text \<open>
  The two effects of \<open>src/App.tsx\<close> (lines 111 to 137) at work: how many rounds of renders
  and effects an update of the state takes, and what a click on the food background
  makes of the question container and the font colour. \<open>click_food\<close> is that click, the
  event \<open>ClickBgStyle FOOD\<close> of the control panel handled in a state of the editor.
\<close>

section \<open>A click on the food background\<close>

definition click_food :: "AppModel \<Rightarrow> AppModel" where
  "click_food m = setState (on_event (Bg (ClickBgStyle FOOD)) (appState m)) m"

lemma settle_rounds:
  "settle before state = commit before state \<or>
   settle before state = commit (Some state) (commit before state)"
  by (simp add: settle_two_commits Let_def)

lemma commit_food:
  assumes "bgStyle before \<noteq> FOOD" and "bgStyle state = FOOD" and "questionBgStyle state = cs_none"
    and "autoColor state"
  shows "questionBgStyle (commit (Some before) state) = cs_badge"
    and "fontColor (commit (Some before) state) = WHITE"
  using assms
  by (simp_all add: commit_def changed_def foodBadgeDeps_def fontColorDeps_def foodBadgeEffect_def
      fontColorEffect_def update_def Let_def)

lemma commit_badge:
  assumes "questionBgStyle state = cs_badge" and "fontColor state = WHITE"
  shows "questionBgStyle (commit before state) = cs_badge"
    and "fontColor (commit before state) = WHITE"
  using assms
  by (simp_all add: commit_def foodBadgeEffect_def fontColorEffect_def update_def Let_def)

lemma settle_food:
  assumes "bgStyle before \<noteq> FOOD" and "bgStyle state = FOOD" and "questionBgStyle state = cs_none"
    and "autoColor state"
  shows "questionBgStyle (settle (Some before) state) = cs_badge \<and>
    fontColor (settle (Some before) state) = WHITE"
  using settle_rounds [of "Some before" state] commit_food [OF assms]
    commit_badge [OF commit_food [OF assms], of "Some state"]
  by auto

lemma click_food_state:
  assumes "bgStyle (appState m) \<noteq> FOOD" and "questionBgStyle (appState m) = cs_none"
    and "autoColor (appState m)"
  shows "bgStyle (appState (click_food m)) = FOOD \<and>
    questionBgStyle (appState (click_food m)) = cs_badge \<and>
    fontColor (appState (click_food m)) = WHITE"
  using assms settle_food [of "appState m" "(appState m)\<lparr>bgStyle := FOOD\<rparr>"]
  by (simp add: click_food_def update_def)

lemma first_render_style:
  "bgStyle (appState first_render) = GRADIENT" "autoColor (appState first_render)"
  "questionBgStyle (appState first_render) = cs_none"
  by (simp_all add: first_render_def appState_mount questionBgStyle_settle initialState_def)


section \<open>Properties\<close>

text \<open>
  C14 (termination). The effects settle after at most two rounds: the state after an update
  is the result of one render with its effects or of two, never of more. The second round
  happens only when the first turned the container from \<open>none\<close> into \<open>badge\<close>, and then no
  dependency changes again.
\<close>

theorem effects_settle_in_two_rounds:
  "settle before state = commit before state \<or>
   settle before state = commit (Some state) (commit before state)"
  by (rule settle_rounds)

text \<open>
  C26 (functional). The "smart" logic of the effects: a click on the food background in a
  state without a question container and with the automatic colour on leaves the editor
  with the food background, the container \<open>badge\<close> and a white font.
\<close>

theorem food_click_sets_badge:
  assumes "bgStyle (appState m) \<noteq> FOOD" and "questionBgStyle (appState m) = cs_none"
    and "autoColor (appState m)"
  shows "bgStyle (appState (click_food m)) = FOOD \<and>
    questionBgStyle (appState (click_food m)) = cs_badge \<and>
    fontColor (appState (click_food m)) = WHITE"
  using assms by (rule click_food_state)

theorem food_click_sets_badge_witness:
  "bgStyle (appState first_render) \<noteq> FOOD \<and> questionBgStyle (appState first_render) = cs_none \<and>
   autoColor (appState first_render) \<and>
   bgStyle (appState (click_food first_render)) = FOOD \<and>
   questionBgStyle (appState (click_food first_render)) = cs_badge \<and>
   fontColor (appState (click_food first_render)) = WHITE"
  using food_click_sets_badge [of first_render] first_render_style by simp

end
