(* ===== verification/Question_Outcomes.thy ===== *)
theory Question_Outcomes
  imports Question_Spec
begin

text \<open>
  The converse of the refinement of theory \<open>Question_Spec\<close>: every question the
  specification allows is returned by some run of \<open>generateBODMAS\<close>
  (\<open>src/services/mathGenerator.ts\<close>), so that \<open>allowed\<close> is exactly the set of outcomes of
  the generator and no weaker than the code.

  A run is given by its draws. For each rule of \<open>allowed\<close> and each kind of term in its
  slots, a lemma names the list of draws on which the branch returns the question: the
  draws of the operands in the order of the calls (\<open>draw_for mn mx v\<close> makes
  \<open>getRandom(mn, mx)\<close> return \<open>v\<close>), \<open>3/4\<close> where a test \<open>Math.random() > p\<close> has to
  succeed and \<open>0\<close> where it has to fail or where the value drawn is overwritten.
\<close>

section \<open>Outcomes\<close>

definition outcomes :: "'a rand \<Rightarrow> 'a set" where
  "outcomes m = range (\<lambda>s. fst (run_state m s))"

lemma outcomesI: "fst (run_state m (draws rs)) = x \<Longrightarrow> x \<in> outcomes m"
  by (auto simp: outcomes_def)

lemma run_state_and_random_above [simp]:
  "run_state (and_random_above b p) s =
     (if b then (p < draw_value (shd s), stl s) else (False, s))"
  by (simp add: and_random_above_def)

section \<open>Runs of the term generators\<close>

text \<open>The index of a denominator in the table of \<open>getSmallFrac\<close>.\<close>

definition den_index :: "int \<Rightarrow> int" where
  "den_index d = (if d = 2 then 0 else if d = 4 then 1 else if d = 5 then 2 else 3)"

lemma run_getSmallFact:
  "n \<in> {2..5} \<Longrightarrow>
     run_state getSmallFact (draws (draw_for 2 5 n # rs)) = (fact_term n, draws rs)"
  by (simp add: getSmallFact_def fact_term_def)

lemma run_getSmallExp:
  "b \<in> {2..5} \<Longrightarrow> e \<in> {2..3} \<Longrightarrow>
     run_state getSmallExp (draws (draw_for 2 5 b # draw_for 2 3 e # rs)) = (exp_term b e, draws rs)"
  by (simp add: getSmallExp_def exp_term_def)

lemma run_getSmallFrac:
  "d \<in> {2, 4, 5, 10} \<Longrightarrow> n \<in> {1..d - 1} \<Longrightarrow>
     run_state getSmallFrac (draws (draw_for 0 3 (den_index d) # draw_for 1 (d - 1) n # rs))
       = (frac_term n d, draws rs)"
  by (auto simp: getSmallFrac_def frac_term_def denominators_def den_index_def js_nth_def)

lemma run_pick_option:
  "i < length options \<Longrightarrow>
     run_state (pick_option options) (draws (draw_for 0 (int (length options) - 1) (int i) # rs))
       = (Some (options ! i), draws rs)"
  by (simp add: pick_option_def js_nth_def)

lemmas run_terms = run_getSmallFact run_getSmallExp run_getSmallFrac

section \<open>A run for every allowed question\<close>

lemma generateBODMAS_simps:
  "generateBODMAS EASY uf ue ufr = genEasy"
  "generateBODMAS MEDIUM uf ue ufr = genMedium ue ufr"
  "generateBODMAS TRICKY uf ue ufr = genTricky uf ue ufr"
  "generateBODMAS ULTRA_TRICKY uf ue ufr = genUltraTricky uf ue ufr"
  by (simp_all add: generateBODMAS_def)

lemma easy_attained:
  assumes "a \<in> {5..20}" "b \<in> {5..20}" "c \<in> {1..10}"
  shows "\<lparr>question = toString a @ ascii '' + '' @ toString b @ ascii '' - '' @ toString c,
          answer = jsint (a + b - c)\<rparr> \<in> outcomes genEasy"
  using assms
  by (intro outcomesI [of _ "[draw_for 5 20 a, draw_for 5 20 b, draw_for 1 10 c]"])
    (simp add: genEasy_def)

lemma medium_product_attained:
  assumes "a \<in> {2..10}" "b \<in> {2..10}" "c \<in> {1..20}"
  shows "\<lparr>question = text (product_term a b) @ ascii '' + '' @ toString c,
          answer = val (product_term a b) + jsint c\<rparr> \<in> outcomes (genMedium ue ufr)"
  using assms
  by (intro outcomesI [of _ "[draw_for 2 10 a, draw_for 2 10 b, draw_for 1 20 c]"])
    (simp add: genMedium_def Let_def)

lemma medium_exp_attained:
  assumes "ue" "b \<in> {2..5}" "e \<in> {2..3}" "c \<in> {1..20}"
  shows "\<lparr>question = text (exp_term b e) @ ascii '' + '' @ toString c,
          answer = val (exp_term b e) + jsint c\<rparr> \<in> outcomes (genMedium ue ufr)"
  using assms
  by (intro outcomesI [of _ "[0, 0, draw_for 1 20 c, 3 / 4, 0, draw_for 2 5 b, draw_for 2 3 e]"])
    (simp add: genMedium_def Let_def push_if_def pick_option_def run_terms)

lemma medium_frac_attained:
  assumes "ufr" "d \<in> {2, 4, 5, 10}" "n \<in> {1..d - 1}" "c \<in> {1..20}"
  shows "\<lparr>question = text (frac_term n d) @ ascii '' + '' @ toString c,
          answer = val (frac_term n d) + jsint c\<rparr> \<in> outcomes (genMedium ue ufr)"
  using assms
  by (intro outcomesI [of _ "[0, 0, draw_for 1 20 c, 3 / 4,
        draw_for 0 (if ue then 1 else 0) (if ue then 1 else 0),
        draw_for 0 3 (den_index d), draw_for 1 (d - 1) n]"])
    (simp add: genMedium_def Let_def push_if_def pick_option_def run_terms)

lemma tricky_plain_attained:
  assumes "b \<in> {2..6}" "k \<in> {4..10}" "\<not> uf" "\<not> ue" "\<not> ufr" "c \<in> {2..5}" "d \<in> {5..15}"
  shows "\<lparr>question = toString (b * k) @ [32, DIVISION_SIGN, 32] @ toString b
            @ [32, MULTIPLICATION_SIGN, 32] @ text (plain_term c) @ ascii '' + '' @ text (plain_term d),
          answer = jsint k * val (plain_term c) + val (plain_term d)\<rparr>
         \<in> outcomes (genTricky uf ue ufr)"
  using assms
  by (intro outcomesI [of _ "[draw_for 2 6 b, draw_for 4 10 k, draw_for 2 5 c, draw_for 5 15 d]"])
    (simp add: genTricky_def Let_def push_if_def pick_option_def run_terms)

lemma tricky_exp_attained:
  assumes "b \<in> {2..6}" "k \<in> {4..10}" "ue" "x \<in> {2..5}" "e \<in> {2..3}" "d \<in> {5..15}"
  shows "\<lparr>question = toString (b * k) @ [32, DIVISION_SIGN, 32] @ toString b
            @ [32, MULTIPLICATION_SIGN, 32] @ text (exp_term x e) @ ascii '' + '' @ text (plain_term d),
          answer = jsint k * val (exp_term x e) + val (plain_term d)\<rparr>
         \<in> outcomes (genTricky uf ue ufr)"
  using assms
  by (intro outcomesI [of _ "[draw_for 2 6 b, draw_for 4 10 k, 0, draw_for 5 15 d, 0,
        draw_for 2 5 x, draw_for 2 3 e]"])
    (simp add: genTricky_def Let_def push_if_def pick_option_def run_terms)

lemma tricky_fact_attained:
  assumes "b \<in> {2..6}" "k \<in> {4..10}" "uf" "c \<in> {2..5}" "n \<in> {2..5}"
  shows "\<lparr>question = toString (b * k) @ [32, DIVISION_SIGN, 32] @ toString b
            @ [32, MULTIPLICATION_SIGN, 32] @ text (plain_term c) @ ascii '' + '' @ text (fact_term n),
          answer = jsint k * val (plain_term c) + val (fact_term n)\<rparr>
         \<in> outcomes (genTricky uf ue ufr)"
  using assms
  by (intro outcomesI [of _ "[draw_for 2 6 b, draw_for 4 10 k, draw_for 2 5 c, 0,
        draw_for 0 ((if ue then 1 else 0) + (if ufr then 1 else 0)) (if ue then 1 else 0),
        draw_for 2 5 n]"])
    (simp add: genTricky_def Let_def push_if_def pick_option_def run_terms)

lemma tricky_frac_attained:
  assumes "b \<in> {2..6}" "k \<in> {4..10}" "ufr" "den \<in> {2, 4, 5, 10}" "n \<in> {1..den - 1}" "d \<in> {5..15}"
  shows "\<lparr>question = toString (b * k) @ [32, DIVISION_SIGN, 32] @ toString b
            @ [32, MULTIPLICATION_SIGN, 32] @ text (frac_term n den) @ ascii '' + '' @ text (plain_term d),
          answer = jsint k * val (frac_term n den) + val (plain_term d)\<rparr>
         \<in> outcomes (genTricky uf ue ufr)"
  using assms
  by (intro outcomesI [of _ "[draw_for 2 6 b, draw_for 4 10 k, 0, draw_for 5 15 d,
        draw_for 0 ((if ue then 1 else 0) + (if uf then 1 else 0))
          ((if ue then 1 else 0) + (if uf then 1 else 0)),
        draw_for 0 3 (den_index den), draw_for 1 (den - 1) n]"])
    (simp add: genTricky_def Let_def push_if_def pick_option_def run_terms)

lemma ultra_plain_attained:
  assumes "i1 \<in> {1..4}" "m \<in> {2..6}" "f \<in> {2..4}" "i2 \<in> {1..4}"
  shows "\<lparr>question = text (ultra_main m f (plain_term i1) i2),
          answer = val (ultra_main m f (plain_term i1) i2)\<rparr>
         \<in> outcomes (genUltraTricky uf ue ufr)"
  using assms
  by (intro outcomesI [of _ "[draw_for 2 6 m, draw_for 2 4 f, draw_for 1 4 i1, draw_for 1 4 i2]"])
    (simp add: genUltraTricky_def Let_def push_if_def pick_option_def run_terms)

lemma ultra_exp_attained:
  assumes "ue" "b \<in> {2..5}" "e \<in> {2..3}" "m \<in> {2..6}" "f \<in> {2..4}" "i2 \<in> {1..4}"
  shows "\<lparr>question = text (ultra_main m f (exp_term b e) i2),
          answer = val (ultra_main m f (exp_term b e) i2)\<rparr>
         \<in> outcomes (genUltraTricky uf ue ufr)"
  using assms
  by (intro outcomesI [of _ "[draw_for 2 6 m, draw_for 2 4 f, 0, draw_for 1 4 i2, 3 / 4, 0, draw_for 2 5 b, draw_for 2 3 e]"])
    (simp add: genUltraTricky_def Let_def push_if_def pick_option_def run_terms)

lemma ultra_frac_attained:
  assumes "ufr" "d \<in> {2, 4, 5, 10}" "k \<in> {1..d - 1}" "m \<in> {2..6}" "f \<in> {2..4}" "i2 \<in> {1..4}"
  shows "\<lparr>question = text (ultra_main m f (frac_term k d) i2),
          answer = val (ultra_main m f (frac_term k d) i2)\<rparr>
         \<in> outcomes (genUltraTricky uf ue ufr)"
  using assms
  by (intro outcomesI [of _ "[draw_for 2 6 m, draw_for 2 4 f, 0, draw_for 1 4 i2, 3 / 4, draw_for 0 (if ue then 1 else 0) (if ue then 1 else 0),
        draw_for 0 3 (den_index d), draw_for 1 (d - 1) k]"])
    (simp add: genUltraTricky_def Let_def push_if_def pick_option_def run_terms)

lemma ultra_fact_plain_attained:
  assumes "uf" "n \<in> {2..5}" "i1 \<in> {1..4}" "m \<in> {2..6}" "f \<in> {2..4}" "i2 \<in> {1..4}"
  shows "\<lparr>question = text (fact_term n) @ ascii '' + '' @ text (ultra_main m f (plain_term i1) i2),
          answer = val (fact_term n) + val (ultra_main m f (plain_term i1) i2)\<rparr>
         \<in> outcomes (genUltraTricky uf ue ufr)"
  using assms
  by (intro outcomesI [of _ "[draw_for 2 6 m, draw_for 2 4 f, draw_for 1 4 i1, draw_for 1 4 i2] @ (if ue \<or> ufr then [0] else [])
        @ [3 / 4, draw_for 2 5 n]"])
    (simp add: genUltraTricky_def Let_def push_if_def pick_option_def run_terms)

lemma ultra_fact_exp_attained:
  assumes "uf" "n \<in> {2..5}" "ue" "b \<in> {2..5}" "e \<in> {2..3}" "m \<in> {2..6}" "f \<in> {2..4}" "i2 \<in> {1..4}"
  shows "\<lparr>question = text (fact_term n) @ ascii '' + '' @ text (ultra_main m f (exp_term b e) i2),
          answer = val (fact_term n) + val (ultra_main m f (exp_term b e) i2)\<rparr>
         \<in> outcomes (genUltraTricky uf ue ufr)"
  using assms
  by (intro outcomesI [of _ "[draw_for 2 6 m, draw_for 2 4 f, 0, draw_for 1 4 i2, 3 / 4, 0, draw_for 2 5 b, draw_for 2 3 e, 3 / 4, draw_for 2 5 n]"])
    (simp add: genUltraTricky_def Let_def push_if_def pick_option_def run_terms)

lemma ultra_fact_frac_attained:
  assumes "uf" "n \<in> {2..5}" "ufr" "d \<in> {2, 4, 5, 10}" "k \<in> {1..d - 1}" "m \<in> {2..6}" "f \<in> {2..4}" "i2 \<in> {1..4}"
  shows "\<lparr>question = text (fact_term n) @ ascii '' + '' @ text (ultra_main m f (frac_term k d) i2),
          answer = val (fact_term n) + val (ultra_main m f (frac_term k d) i2)\<rparr>
         \<in> outcomes (genUltraTricky uf ue ufr)"
  using assms
  by (intro outcomesI [of _ "[draw_for 2 6 m, draw_for 2 4 f, 0, draw_for 1 4 i2, 3 / 4, draw_for 0 (if ue then 1 else 0) (if ue then 1 else 0),
        draw_for 0 3 (den_index d), draw_for 1 (d - 1) k, 3 / 4, draw_for 2 5 n]"])
    (simp add: genUltraTricky_def Let_def push_if_def pick_option_def run_terms)

lemmas attained =
  easy_attained medium_product_attained medium_exp_attained medium_frac_attained
  tricky_plain_attained tricky_exp_attained tricky_fact_attained tricky_frac_attained
  ultra_plain_attained ultra_exp_attained ultra_frac_attained
  ultra_fact_plain_attained ultra_fact_exp_attained ultra_fact_frac_attained

lemmas term_kindE = is_plain_termE is_product_termE is_fact_termE is_exp_termE is_frac_termE

lemma allowed_attained:
  assumes "allowed d uf ue ufr g"
  shows "g \<in> outcomes (generateBODMAS d uf ue ufr)"
  using assms
  by cases
    ((unfold medium_left_def tricky_slots_def ultra_first_def)?,
      (elim disjE conjE term_kindE)?; hypsubst; simp only: generateBODMAS_simps;
      rule attained; (simp; fail))+

section \<open>Properties\<close>

text \<open>
  C3 (refinement). The specification is exact: the questions that \<open>generateBODMAS\<close> can
  return for a difficulty and a setting of the toggles, over all states of the random
  source, are the questions \<open>allowed\<close> describes, all of them and no others.
\<close>

theorem outcomes_generateBODMAS:
  "outcomes (generateBODMAS d uf ue ufr) = {g. allowed d uf ue ufr g}"
  by (auto simp: outcomes_def generateBODMAS_sound dest: allowed_attained)


end
