(* ===== verification/Question_Runs.thy ===== *)
theory Question_Runs
  imports Question_Properties Question_Outcomes
begin

text \<open>
  Runs of \<open>generateBODMAS\<close> (\<open>src/services/mathGenerator.ts\<close>) on given draws: the replay
  of a run is the evaluation of the generator on the source \<open>draws [r\<^sub>1, \<dots>, r\<^sub>n]\<close>, where
  \<open>draw_for mn mx v\<close> is a draw for which \<open>getRandom(mn, mx)\<close> returns \<open>v\<close>. The second part
  reads the ultra-tricky branch as a function of the first six draws and characterises
  the runs in which the factorial term is prepended.
\<close>

section \<open>Replaying a run\<close>





section \<open>The factorial prefix of the ultra-tricky template\<close>

lemma pick_draw_pos:
  assumes "0 < mn" and "mn \<le> mx"
  shows "0 < pick mn mx (draw_value d)"
proof -
  from assms(2) have "mn \<le> pick mn mx (draw_value d)" by simp
  with assms(1) show ?thesis by linarith
qed

lemma pick_draw_nonzero [simp]: "0 < mn \<Longrightarrow> mn \<le> mx \<Longrightarrow> pick mn mx (draw_value d) \<noteq> 0"
  using pick_draw_pos [of mn mx d] by simp

lemma pick_draw_nonneg [simp]: "0 < mn \<Longrightarrow> mn \<le> mx \<Longrightarrow> 0 \<le> pick mn mx (draw_value d)"
  using pick_draw_pos [of mn mx d] by simp

lemma ultra_plain_run:
  "fst (run_state (generateBODMAS ULTRA_TRICKY True False False) s) =
     (let m = pick 2 6 (draw_value (s !! 0)); f = pick 2 4 (draw_value (s !! 1));
          i1 = pick 1 4 (draw_value (s !! 2)); i2 = pick 1 4 (draw_value (s !! 3));
          main = ultra_main m f (plain_term i1) i2
      in if 3 / 10 < draw_value (s !! 4)
         then let F = fact_term (pick 2 5 (draw_value (s !! 5)))
              in \<lparr>question = text F @ ascii '' + '' @ text main, answer = val F + val main\<rparr>
         else \<lparr>question = text main, answer = val main\<rparr>)"
  by (simp add: generateBODMAS_def genUltraTricky_def getSmallFact_def push_if_def Let_def
      numeral_nat split_beta)


lemma no_bang_main:
  "33 \<notin> set (text (ultra_main (pick 2 6 (draw_value a)) (pick 2 4 (draw_value b))
      (plain_term (pick 1 4 (draw_value c))) (pick 1 4 (draw_value d))))"
proof -
  have "units_ok False False False
      (text (ultra_main (pick 2 6 (draw_value a)) (pick 2 4 (draw_value b))
        (plain_term (pick 1 4 (draw_value c))) (pick 1 4 (draw_value d))))"
    by simp
  then show ?thesis by (rule units_ok_inert)
qed

text \<open>
  C24 (functional). With only factorials enabled, the ultra-tricky question contains a
  factorial exactly when the fifth draw of the run is above \<open>0.3\<close>: the test
  \<open>useFactorials && Math.random() > 0.3\<close> of line 153 decides it, and no other part of the
  question can print \<open>!\<close>.
\<close>

theorem factorial_prepended_iff:
  "33 \<in> set (question (fst (run_state (generateBODMAS ULTRA_TRICKY True False False) s)))
     \<longleftrightarrow> 3 / 10 < draw_value (s !! 4)"
  by (simp add: ultra_plain_run Let_def no_bang_main del: ultra_main_simps)

end
