(* ===== verification/Generator_Helpers.thy ===== *)
theory Generator_Helpers
  imports Question_Outcomes
begin

text \<open>
  The helpers of \<open>src/services/mathGenerator.ts\<close> on their own: \<open>factorial\<close> against the
  factorial of the library, the outcomes of \<open>getRandom\<close>, and the number of calls of
  \<open>Math.random()\<close> a computation makes. \<open>reads n m\<close> says that every run of \<open>m\<close> leaves the
  random source advanced by at most \<open>n\<close> draws; the rules \<open>reads_intros\<close> count the draws
  along the structure of a computation, as the rules \<open>outcome_intros\<close> of theory
  \<open>Random_Source\<close> do for the results.
\<close>

section \<open>Counting draws\<close>

definition reads :: "nat \<Rightarrow> 'a rand \<Rightarrow> bool" where
  "reads n m \<longleftrightarrow> (\<forall>s. \<exists>k \<le> n. snd (run_state m s) = sdrop k s)"

named_theorems reads_intros "rules that count the draws of a computation"

lemma reads_mono: "reads a m \<Longrightarrow> a \<le> b \<Longrightarrow> reads b m"
  unfolding reads_def by (meson order_trans)

lemma reads_return [reads_intros]: "reads 0 (State_Monad.return x)"
  by (simp add: reads_def)

lemma reads_Math_random [reads_intros]: "reads 1 Math_random"
  unfolding reads_def by (intro allI exI [of _ 1]) simp

lemma reads_getRandom [reads_intros]: "reads 1 (getRandom mn mx)"
  unfolding reads_def by (intro allI exI [of _ 1]) simp

lemma reads_bind [reads_intros]:
  assumes "reads a m" and "\<And>x. reads b (f x)"
  shows "reads (a + b) (State_Monad.bind m f)"
  unfolding reads_def
proof
  fix s
  obtain x s' where r: "run_state m s = (x, s')" by (cases "run_state m s")
  from assms(1) obtain k where "k \<le> a" "snd (run_state m s) = sdrop k s"
    by (auto simp: reads_def)
  with r have k: "k \<le> a" "s' = sdrop k s" by simp_all
  from assms(2) [of x] obtain j where j: "j \<le> b" "snd (run_state (f x) s') = sdrop j s'"
    by (auto simp: reads_def)
  with r k have "snd (run_state (State_Monad.bind m f) s) = sdrop (k + j) s"
    by (simp add: sdrop_add add.commute)
  with k j show "\<exists>k \<le> a + b. snd (run_state (State_Monad.bind m f) s) = sdrop k s"
    by (intro exI [of _ "k + j"]) simp
qed

lemma reads_if [reads_intros]:
  "reads a m \<Longrightarrow> reads b n \<Longrightarrow> reads (max a b) (if c then m else n)"
  by (simp add: reads_mono [of a m "max a b"] reads_mono [of b n "max a b"])

lemma reads_case_prod [reads_intros]:
  "(\<And>a b. reads n (f a b)) \<Longrightarrow> reads n (case p of (a, b) \<Rightarrow> f a b)"
  by (cases p) simp

lemma reads_case_option [reads_intros]:
  "reads a m \<Longrightarrow> (\<And>y. reads b (f y)) \<Longrightarrow> reads (max a b) (case x of None \<Rightarrow> m | Some y \<Rightarrow> f y)"
  by (cases x) (simp_all add: reads_mono [of a m "max a b"] reads_mono [of b _ "max a b"])

lemma reads_and_random_above [reads_intros]: "reads 1 (and_random_above b p)"
  unfolding and_random_above_def by (rule reads_mono, (rule reads_intros)+) simp

lemma reads_pick_option [reads_intros]: "reads 1 (pick_option options)"
  unfolding pick_option_def by (rule reads_mono, (rule reads_intros)+) simp

lemma reads_getSmallFact [reads_intros]: "reads 1 getSmallFact"
  unfolding getSmallFact_def by (rule reads_mono, (rule reads_intros)+) simp

lemma reads_getSmallExp [reads_intros]: "reads 2 getSmallExp"
  unfolding getSmallExp_def by (rule reads_mono, (rule reads_intros)+) simp

lemma reads_getSmallFrac [reads_intros]: "reads 2 getSmallFrac"
  unfolding getSmallFrac_def by (rule reads_mono, (rule reads_intros)+) simp

lemma reads_genEasy: "reads 3 genEasy"
  unfolding genEasy_def by (rule reads_mono, (rule reads_intros)+) simp

lemma reads_genMedium: "reads 7 (genMedium ue ufr)"
  unfolding genMedium_def Let_def by (rule reads_mono, (rule reads_intros)+) simp

lemma reads_genTricky: "reads 7 (genTricky uf ue ufr)"
  unfolding genTricky_def Let_def by (rule reads_mono, (rule reads_intros)+) simp

lemma reads_genUltraTricky: "reads 10 (genUltraTricky uf ue ufr)"
  unfolding genUltraTricky_def Let_def by (rule reads_mono, (rule reads_intros)+) simp

lemma reads_generateBODMAS: "reads 10 (generateBODMAS d uf ue ufr)"
  by (cases d)
    (auto simp: generateBODMAS_simps
      intro: reads_mono [OF reads_genEasy] reads_mono [OF reads_genMedium]
        reads_mono [OF reads_genTricky] reads_genUltraTricky)

section \<open>factorial and getRandom\<close>

lemma factorial_fact: "factorial n = (if n < 0 then 1 else int (fact (nat n)))"
proof (cases "n < 0")
  case False
  then show ?thesis using factorial_int [of "nat n"] by simp
qed simp

lemma outcomes_getRandom: "mn \<le> mx \<Longrightarrow> outcomes (getRandom mn mx) = {mn..mx}"
proof (intro set_eqI iffI)
  fix k assume "k \<in> {mn..mx}"
  then obtain s where "fst (run_state (getRandom mn mx) s) = k"
    using getRandom_attains [of mn k mx] by auto
  then show "k \<in> outcomes (getRandom mn mx)"
    by (auto simp: outcomes_def)
qed (auto simp: outcomes_def)

lemma getRandom_cell:
  assumes "mn \<le> mx"
  shows "fst (run_state (getRandom mn mx) s) = k \<longleftrightarrow>
    of_int (k - mn) / of_int (mx - mn + 1) \<le> draw_value (shd s) \<and>
    draw_value (shd s) < of_int (k - mn + 1) / of_int (mx - mn + 1)"
proof -
  from assms have "(0::rat) < of_int (mx - mn + 1)" by simp
  then show ?thesis
    using pick_eq_iff [OF assms, of "draw_value (shd s)" k]
    by (simp add: pos_divide_le_eq pos_less_divide_eq del: of_int_add of_int_diff)
qed

section \<open>Properties\<close>

text \<open>
  C23 (equivalence). \<open>factorial\<close>, the recursion of lines 4 to 7, is the factorial function
  on every integer that is not negative, and 1 on the negative ones, where the recursion
  stops at once.
\<close>

theorem factorial_is_fact: "factorial n = (if n < 0 then 1 else int (fact (nat n)))"
  by (rule factorial_fact)

text \<open>
  C21 (bounds). For \<open>min \<le> max\<close> the values \<open>getRandom(min, max)\<close> can return are the integers
  from \<open>min\<close> to \<open>max\<close>, both included and each of them.
\<close>

theorem getRandom_range:
  assumes "mn \<le> mx"
  shows "outcomes (getRandom mn mx) = {mn..mx}"
  using assms by (rule outcomes_getRandom)

theorem getRandom_range_witness:
  "(5::int) \<le> 20 \<and> outcomes (getRandom 5 20) = {5..20}"
  using getRandom_range [of 5 20] by simp

text \<open>
  C22 (functional). \<open>getRandom\<close> is uniform and reads one draw: it returns \<open>k\<close> exactly when
  the draw falls into the cell of \<open>k\<close>, the \<open>(k - min)\<close>-th of the \<open>max - min + 1\<close> cells of
  equal width into which the unit interval is cut, and it leaves the source advanced by
  that one draw.
\<close>

theorem getRandom_uniform:
  assumes "mn \<le> mx"
  shows "(fst (run_state (getRandom mn mx) s) = k \<longleftrightarrow>
      of_int (k - mn) / of_int (mx - mn + 1) \<le> draw_value (shd s) \<and>
      draw_value (shd s) < of_int (k - mn + 1) / of_int (mx - mn + 1))
    \<and> snd (run_state (getRandom mn mx) s) = stl s"
  using getRandom_cell [OF assms, of s k] by simp

theorem getRandom_uniform_witness:
  "(1::int) \<le> 4 \<and>
   (fst (run_state (getRandom 1 4) (draws [5 / 8])) = 3 \<longleftrightarrow>
      of_int (3 - 1) / of_int (4 - 1 + 1) \<le> draw_value (shd (draws [5 / 8])) \<and>
      draw_value (shd (draws [5 / 8])) < of_int (3 - 1 + 1) / of_int (4 - 1 + 1))
    \<and> snd (run_state (getRandom 1 4) (draws [5 / 8])) = stl (draws [5 / 8])"
  using getRandom_uniform [of 1 4 "draws [5 / 8]" 3] by simp

text \<open>
  C13 (termination). A call of \<open>generateBODMAS\<close> returns after at most ten calls of
  \<open>Math.random()\<close>, whatever its arguments and the state of the source: the generator has
  no loop, and its longest path is the Ultra-Tricky branch with a replaced inner term and
  a factorial in front.
\<close>

theorem generateBODMAS_draws:
  "\<exists>k \<le> 10. snd (run_state (generateBODMAS d uf ue ufr) s) = sdrop k s"
  using reads_generateBODMAS [of d uf ue ufr] by (simp add: reads_def)

end
