(* ===== verification/Spec2Isabelle.thy ===== *)
theory Spec2Isabelle
  imports Editor_Contract Critique Effect_Properties Question_Runs Generator_Helpers
begin

text \<open>
  \<^bold>\<open>A verification development for the BODMAS card generator.\<close>

  The program is a browser editor that composes a "math challenge" card and exports it as
  an image. Its algorithmic core is the question generator
  \<open>src/services/mathGenerator.ts\<close>: given a difficulty and three toggles it draws operands
  from \<open>Math.random()\<close>, fills one of four hand-written templates and returns the text of
  the question together with its numeric answer. The root component \<open>src/App.tsx\<close> holds
  the editor state (\<open>src/types.ts\<close>), calls the generator on the first render and on every
  click of the generate button, and runs two effects that adapt the question container
  and the font colour to the background. The control panel
  \<open>src/components/Sidebar.tsx\<close> turns the user's input into updates of that state, the
  component \<open>src/components/CanvasPreview.tsx\<close> turns the state into the markup of the card
  with the tables of \<open>src/constants.ts\<close>, and \<open>src/services/geminiService.ts\<close> asks a
  critique service for a score.

  \<^bold>\<open>Theories, in the order of their dependencies.\<close>

  \<^item> \<open>JS_Prelude\<close>: the fragment of the JavaScript run time the sources use. Numbers are
    \<open>jsnum\<close>: a finite rational or \<open>NotFinite\<close> (for \<open>NaN\<close> and the infinities), with strict
    arithmetic in which a division by zero is not finite. Strings are lists of UTF-16 code
    units; \<open>toString\<close> prints an integer as a template literal does; \<open>js_nth\<close> is array
    indexing with \<open>None\<close> for \<open>undefined\<close>; \<open>parseInt16\<close> and \<open>substr\<close> are the two library
    functions \<open>isDarkColor\<close> calls.
  \<^item> \<open>Random_Source\<close>: \<open>Math.random()\<close> as a read from an explicit stream of draws, each a
    rational of the half-open unit interval (type \<open>draw\<close>); \<open>getRandom\<close> (line 23 of the
    generator); the rules \<open>outcome_intros\<close> for properties of every outcome of a
    computation that draws.
  \<^item> \<open>Types\<close>, \<open>App_State\<close>, \<open>Constants\<close>: the enumerations and interfaces of
    \<open>src/types.ts\<close> and the four tables of \<open>src/constants.ts\<close> with their literal contents.
  \<^item> \<open>Math_Generator\<close>: \<open>factorial\<close>, \<open>toSuperscript\<close>, the three term generators and
    \<open>generateBODMAS\<close> with its four branches, translated statement by statement.
  \<^item> \<open>Question_Spec\<close>: the specification of the generator as the inductive set \<open>allowed\<close>
    of questions per difficulty and toggles, and the proof that every run of the generator
    returns an allowed question. \<open>Question_Outcomes\<close>: the converse, a run for every allowed
    question, so that \<open>allowed\<close> is exactly the set of outcomes.
  \<^item> \<open>Question_Properties\<close>: what follows for every generated question by case analysis
    on \<open>allowed\<close>: finite and bounded answers, integral answers without fractions, the
    alphabet of the text, the toggles that are off. \<open>Question_Runs\<close>: the three scenarios of
    the specification replayed on their draws, and the test that prepends the factorial.
    \<open>Generator_Helpers\<close>: \<open>factorial\<close> against the library's factorial, the range and the
    cells of \<open>getRandom\<close>, and the number of draws of a call (rules \<open>reads_intros\<close>).
  \<^item> \<open>Expression\<close>: the reading of a question text that section 8 of the specification
    takes as its meaning: a tokenizer, a recursive-descent parser for the order of
    operations, an evaluator. It is no code of the program. \<open>Consistency\<close>: every generated
    question reads as its answer, every division in it is exact, and what \<open>toString\<close> and
    \<open>toSuperscript\<close> print is read back unchanged.
  \<^item> \<open>Sidebar\<close>: the helpers of the control panel (\<open>toggleSection\<close>, \<open>update\<close>,
    \<open>handleLogoUpload\<close>, \<open>adjustFontSize\<close>, \<open>adjustLayoutValue\<close>, \<open>shuffleFood\<close>) and every
    control as an event with the updater its handler passes to \<open>setState\<close>; the invariant
    \<open>sidebar_inv\<close> of the layout values.
  \<^item> \<open>Gemini_Service\<close>: the prompt, the fallback and the error handling of
    \<open>analyzeVirality\<close>, with the call of the service as a parameter.
  \<^item> \<open>App\<close>: \<open>isDarkColor\<close>, the initial state, \<open>handleGenerate\<close> with its loop, the two
    effects with their dependency lists, and the events of the component as a step function
    \<open>app_event\<close> with the reachable states and their invariant \<open>app_inv\<close>.
  \<^item> \<open>Markup\<close> and \<open>Canvas_Preview\<close>: the elements of React as a datatype, and the card:
    the style object, the class helpers and the element \<open>CanvasPreview\<close> returns, one
    definition per part.
  \<^item> \<open>Card_Properties\<close>: the card in the reachable states (what the heading shows and in
    which colour, a header that can vanish, settings without effect). \<open>Editor_Contract\<close>:
    the answer of the state is the value of its question until the user edits the text.
    \<open>Critique\<close>: one analysis in flight at a time, and the state its result describes.
    \<open>Effect_Properties\<close>: the effects settle in two rounds, and what a click on the food
    background sets.
  \<^item> This theory: the food image of a reachable state, below.

  \<^bold>\<open>Correspondence with the code.\<close> A function of the sources is a definition of the same
  name. A function that calls \<open>Math.random()\<close> is a computation of the state monad over the
  stream of draws and consumes the draws in the order of the calls in the source; a theorem
  about \<open>fst (run_state (generateBODMAS d uf ue ufr) s)\<close> for every \<open>s\<close> is a theorem about
  every behaviour of the function, and \<open>s = draws [r\<^sub>1, \<dots>, r\<^sub>n]\<close> replays the run in which
  \<open>Math.random()\<close> returns \<open>r\<^sub>1, \<dots>, r\<^sub>n\<close> and then 0 for ever. The four \<open>if\<close> blocks of
  \<open>generateBODMAS\<close> are the definitions \<open>genEasy\<close>, \<open>genMedium\<close>, \<open>genTricky\<close> and
  \<open>genUltraTricky\<close>; the expressions the source repeats are named once (\<open>pick_option\<close> for
  \<open>options[getRandom(0, options.length - 1)]\<close>, \<open>and_random_above\<close> for the short-circuit
  tests, \<open>push_if\<close> for the conditional \<open>options.push\<close>).

  A handler of a component is a function of the state of the render that created it
  (the \<open>state\<close> its closure captured) and returns the updater it passes to \<open>setState\<close>, a
  function of the state \<open>prev\<close> at the time React applies it; an interaction is an event
  (\<open>SidebarEvent\<close>, \<open>AppEvent\<close>) and the step \<open>app_event\<close> applies its updater, renders and
  runs the effects. Of React the model keeps what the component relies on: an effect runs
  after the first render and after a render in which one of its dependencies changed
  (\<open>changed\<close>, \<open>commit\<close>), and renders repeat until no effect runs (\<open>settle\<close>, a \<open>function\<close>
  whose termination proof is the observation that the effects only ever set the container
  from \<open>none\<close> to \<open>badge\<close>). The two asynchronous handlers are each two events, the click
  that sets the flag and the completion that clears it; the state that \<open>handleAnalyze\<close>
  passed to the service is kept in the field \<open>pending\<close> of the model until the completion. The markup of the card is the
  value of \<open>CanvasPreview\<close>, a tree whose class names, style objects and texts are those of
  the source, line breaks of template literals included.

  \<^bold>\<open>What the lemmas show.\<close> For the generator: refinement of the specification in both
  directions, the consistency of text and answer, and the properties section 8 of the
  specification lists (ranges, exact division, finite answers, inert toggles, the three
  scenarios), with the number of draws of a call bounded by ten. For the editor: an
  invariant of all reachable states (layout values within their limits, a food variant
  inside its pool, the contrasting font colour, a bounded answer), proved by rule induction
  over \<open>reachable\<close> from one preservation lemma per handler; the behaviour of
  \<open>handleGenerate\<close> when it returns, when it must return and when it cannot; and what the
  card shows in those states.

  \<^bold>\<open>Loops, fuel and bounds.\<close> \<open>factorial\<close> and \<open>tokens\<close> are recursive functions with
  termination proofs (the measures are the argument and the length of the text).
  The loop of \<open>handleGenerate\<close> has no bound in the source and none in the model: it is a
  \<open>partial_function\<close> in the option monad, \<open>None\<close> when it runs for ever, and the theorems
  say when it returns (\<open>handleGenerate_returns\<close>) and exhibit a source on which it does not
  (\<open>handleGenerate_may_not_return\<close>). The parser of theory \<open>Expression\<close> takes fuel, one
  unit per call; \<open>evaluate\<close> gives it \<open>4 * length ts + 4\<close> units for the tokens \<open>ts\<close>. That
  this is enough for every question of the generator is part of the consistency theorem,
  which states that the reading returns the answer and not only that it agrees with the
  answer if it returns; more fuel never changes a result (\<open>parse_mono\<close>), and a successful
  parse of an expression, a term or a factor consumes at least one token
  (\<open>parse_consumes\<close>).

  \<^bold>\<open>What is not modelled.\<close> IEEE rounding: values are exact rationals. All operands,
  factorials and powers of the generator are integers below \<open>2\<^sup>5\<^sup>3\<close> and are exact in
  the program too; a fraction term and an answer that contains one are rounded by the
  program and exact in the model, and the thresholds \<open>0.5\<close> and \<open>0.3\<close> and the products
  \<open>Math.random() * n\<close> are compared exactly, which differs from the program only for draws
  within one unit in the last place of a boundary. The network call of the critique
  service and the JSON parser (the model takes what they produced), the rasterisation of
  the card by \<open>html2canvas\<close> and the download link of \<open>handleExport\<close>, the \<open>FileReader\<close> of
  the logo upload (an upload is the data URL it delivers), and the layout the browser
  computes from the markup and the style sheet are effects outside the program's state.
  The static markup of the control panel and of the tool bar (labels, icons, class names)
  is represented by the events its controls raise and the conditions under which they
  are rendered and enabled, not as a tree.
\<close>

section \<open>The card of a reachable state\<close>

text \<open>The state after a first render on the source \<open>draws []\<close> and a click on the food style.\<close>

definition food_clicked :: AppModel where
  "food_clicked =
     setState (on_event (Bg (ClickBgStyle FOOD)) (appState (fst (run_state App_mount (draws [])))))
       (fst (run_state App_mount (draws [])))"

lemma reachable_food_clicked: "reachable food_clicked"
  unfolding food_clicked_def
  by (rule reachable.step
      [where ev = "SidebarEvent (Bg (ClickBgStyle FOOD))" and s = s and s' = s for s,
        OF reachable.mount])
    simp_all

lemma bgStyle_food_clicked: "bgStyle (appState food_clicked) = FOOD"
  by (simp add: food_clicked_def setState_def update_def)

text \<open>
  C27 (safety). In every state the editor reaches, a card with a food background has an
  image: the index \<open>foodVariant\<close> that \<open>shuffleFood\<close> maintains is within the pool of the food
  type in \<open>FOOD_IMAGES\<close>, so the style of the container never reads \<open>url("undefined")\<close>.
\<close>

theorem food_image_defined:
  assumes "reachable m" and "bgStyle (appState m) = FOOD"
  shows "\<exists>u \<in> set (FOOD_IMAGES (foodType (appState m))).
    backgroundImage (containerStyle (appState m)) = Some (url (Some u))"
proof -
  from assms(1) have "sidebar_inv (appState m)"
    using reachable_inv by (simp add: app_inv_def)
  with assms(2) show ?thesis
    by (intro backgroundImage_in_pool) (simp_all add: sidebar_inv_def)
qed

theorem food_image_defined_witness:
  "reachable food_clicked \<and> bgStyle (appState food_clicked) = FOOD \<and>
   (\<exists>u \<in> set (FOOD_IMAGES (foodType (appState food_clicked))).
      backgroundImage (containerStyle (appState food_clicked)) = Some (url (Some u)))"
  using food_image_defined [OF reachable_food_clicked bgStyle_food_clicked]
    reachable_food_clicked bgStyle_food_clicked
  by blast

end
